(* ===== verification/Prelude.thy ===== *)
theory Prelude
  imports Complex_Main
    "HOL-Library.Char_ord"
    "HOL-Library.List_Lexorder"
    "HOL-Library.Product_Lexorder"
    "HOL-Library.Multiset"
begin

text \<open>
  Shared vocabulary of the development: the Python exceptions the two Flask
  applications can raise, the few Python and pandas builtins the sources call
  on strings, numbers and tables (\<open>str.strip\<close>, \<open>str.lower\<close>, \<open>str.upper\<close>,
  \<open>round(x, 2)\<close>, \<open>max\<close>, \<open>DataFrame.groupby\<close>, skip-NaN \<open>Series.sum\<close>,
  \<open>int.__str__\<close>), and the generic list lemmas the component theories share.
  A pandas numeric cell is a \<open>real option\<close>: \<open>None\<close> is NaN, the value
  every comparison treats as false and every skip-NaN sum leaves out.
\<close>

named_theorems py_defs "definitions of the Python builtins, unfolded when evaluating"
named_theorems group_simps "facts about groupby partitions"

section \<open>Exceptions and results\<close>

datatype py_error =
    KeyError string
  | ValueError string
  | TypeError string
  | AttributeError string
  | FileNotFoundError string
  | OverflowError string
  | BadZipFile string
  | OtherException string string

type_synonym 'a py = "py_error + 'a"

text \<open>
  Sequencing of statements that may raise: the first exception is the result.
  \<open>form_get\<close> is \<open>request.form[k]\<close>, which raises \<open>KeyError\<close> for a missing key.
\<close>

definition py_bind :: "'a py \<Rightarrow> ('a \<Rightarrow> 'b py) \<Rightarrow> 'b py" where
  "py_bind m f = (case m of Inl e \<Rightarrow> Inl e | Inr x \<Rightarrow> f x)"

definition form_get :: "string \<Rightarrow> 'a option \<Rightarrow> 'a py" where
  "form_get k v = (case v of None \<Rightarrow> Inl (KeyError k) | Some x \<Rightarrow> Inr x)"

text \<open>A Python loop whose body may raise: the first exception stops it.\<close>

fun map_py :: "('a \<Rightarrow> 'b py) \<Rightarrow> 'a list \<Rightarrow> 'b list py" where
  "map_py f [] = Inr []"
| "map_py f (x # xs) =
     (case f x of Inl e \<Rightarrow> Inl e
      | Inr y \<Rightarrow> (case map_py f xs of Inl e \<Rightarrow> Inl e | Inr ys \<Rightarrow> Inr (y # ys)))"

section \<open>Python string builtins\<close>

text \<open>
  \<open>str.isspace\<close> on the characters of \<open>char\<close>: tab to carriage return, the four
  separators 28--31, space, NEL (133) and no-break space (160).
\<close>

definition is_space :: "char \<Rightarrow> bool" where
  "is_space c \<longleftrightarrow> of_char c \<in> {9, 10, 11, 12, 13, 28, 29, 30, 31, 32, 133, 160 :: nat}"

definition py_strip :: "string \<Rightarrow> string" where
  "py_strip s = rev (dropWhile is_space (rev (dropWhile is_space s)))"

definition lower_char :: "char \<Rightarrow> char" where
  "lower_char c = (if CHR ''A'' \<le> c \<and> c \<le> CHR ''Z'' then char_of (of_char c + (32::nat)) else c)"

definition upper_char :: "char \<Rightarrow> char" where
  "upper_char c = (if CHR ''a'' \<le> c \<and> c \<le> CHR ''z'' then char_of (of_char c - (32::nat)) else c)"

definition py_lower :: "string \<Rightarrow> string" where
  "py_lower s = map lower_char s"

definition py_upper :: "string \<Rightarrow> string" where
  "py_upper s = map upper_char s"

text \<open>\<open>a in b\<close> on strings: substring test.\<close>

fun py_contains :: "string \<Rightarrow> string \<Rightarrow> bool" where
  "py_contains needle [] \<longleftrightarrow> needle = []"
| "py_contains needle (c # s) \<longleftrightarrow> take (length needle) (c # s) = needle \<or> py_contains needle s"

text \<open>\<open>sep.join(xs)\<close>.\<close>

fun py_join :: "string \<Rightarrow> string list \<Rightarrow> string" where
  "py_join sep [] = []"
| "py_join sep [x] = x"
| "py_join sep (x # xs) = x @ sep @ py_join sep xs"

text \<open>\<open>enumerate(xs, start=n)\<close>.\<close>

definition enumerate_from :: "nat \<Rightarrow> 'a list \<Rightarrow> (nat \<times> 'a) list" where
  "enumerate_from n xs = zip [n..<n + length xs] xs"

text \<open>\<open>str(n)\<close> for a natural number, and its inverse on digit strings.\<close>

fun nat_str :: "nat \<Rightarrow> string" where
  "nat_str n = (if n < 10 then [char_of (48 + n)] else nat_str (n div 10) @ [char_of (48 + n mod 10)])"

declare nat_str.simps [simp del]

definition digit_val :: "char \<Rightarrow> nat" where
  "digit_val c = of_char c - 48"

definition is_digit :: "char \<Rightarrow> bool" where
  "is_digit c \<longleftrightarrow> CHR ''0'' \<le> c \<and> c \<le> CHR ''9''"

definition digits_val :: "string \<Rightarrow> nat" where
  "digits_val s = foldl (\<lambda>acc c. 10 * acc + digit_val c) 0 s"

declare is_space_def [py_defs] py_strip_def [py_defs] py_lower_def [py_defs]
  lower_char_def [py_defs] py_upper_def [py_defs] upper_char_def [py_defs]
  char_of_def [py_defs] bit_0 [py_defs]

section \<open>Numbers\<close>

text \<open>
  \<open>round(x, 2)\<close> on a NumPy float rounds \<open>100 x\<close> to the nearest integer,
  ties to even, and divides by 100 (\<open>numpy.round\<close>). The model computes it on
  the exact value; the binary representation error of the float is not modelled.
\<close>

definition round_half_even :: "real \<Rightarrow> int" where
  "round_half_even x =
     (let f = \<lfloor>x\<rfloor>; d = x - of_int f
      in if d < 1/2 then f else if 1/2 < d then f + 1 else if even f then f else f + 1)"

definition py_round2 :: "real \<Rightarrow> real" where
  "py_round2 x = of_int (round_half_even (100 * x)) / 100"

text \<open>\<open>Series.sum()\<close> skips NaN; an all-NaN or empty series sums to 0.\<close>

definition nansum :: "real option list \<Rightarrow> real" where
  "nansum xs = sum_list (map (\<lambda>x. case x of None \<Rightarrow> 0 | Some v \<Rightarrow> v) xs)"

text \<open>Element-wise product of two numeric columns: NaN if either side is NaN.\<close>

definition opt_mult :: "real option \<Rightarrow> real option \<Rightarrow> real option" where
  "opt_mult a b = (case (a, b) of (Some x, Some y) \<Rightarrow> Some (x * y) | _ \<Rightarrow> None)"

text \<open>A comparison \<open>x >= c\<close> against a column value: false on NaN.\<close>

definition ge_opt :: "real option \<Rightarrow> real \<Rightarrow> bool" where
  "ge_opt x c = (case x of None \<Rightarrow> False | Some v \<Rightarrow> c \<le> v)"

definition eq_opt :: "real option \<Rightarrow> real \<Rightarrow> bool" where
  "eq_opt x c = (case x of None \<Rightarrow> False | Some v \<Rightarrow> v = c)"

text \<open>\<open>max(values) if values else 0\<close> over non-negative counts.\<close>

definition max_or0 :: "nat list \<Rightarrow> nat" where
  "max_or0 xs = foldr max xs 0"

declare nansum_def [py_defs] opt_mult_def [py_defs] ge_opt_def [py_defs] eq_opt_def [py_defs]

section \<open>DataFrame.groupby\<close>

text \<open>
  \<open>df.groupby(col)\<close> iterates over the distinct keys in ascending order (its
  default \<open>sort=True\<close>); each group keeps the rows of its key in their original
  order.
\<close>

definition groupby :: "('a \<Rightarrow> 'k::linorder) \<Rightarrow> 'a list \<Rightarrow> ('k \<times> 'a list) list" where
  "groupby f xs = map (\<lambda>k. (k, filter (\<lambda>x. f x = k) xs)) (sort (remdups (map f xs)))"


section \<open>Shared lemmas\<close>

subsection \<open>Loops that may raise\<close>

lemma py_bind_Inl [simp]: "py_bind (Inl e) f = Inl e"
  by (simp add: py_bind_def)

lemma py_bind_Inr [simp]: "py_bind (Inr x) f = f x"
  by (simp add: py_bind_def)

lemma py_bind_eq_Inr: "py_bind m f = Inr y \<longleftrightarrow> (\<exists>x. m = Inr x \<and> f x = Inr y)"
  by (cases m) simp_all

lemma form_get_simps [simp]: "form_get k None = Inl (KeyError k)" "form_get k (Some x) = Inr x"
  by (simp_all add: form_get_def)

lemma form_get_eq_Inr [simp]: "form_get k v = Inr x \<longleftrightarrow> v = Some x"
  by (cases v) simp_all

lemma map_py_Inr:
  "map_py f xs = Inr ys \<Longrightarrow> ys = map (\<lambda>x. projr (f x)) xs \<and> (\<forall>x\<in>set xs. f x = Inr (projr (f x)))"
  by (induction xs arbitrary: ys) (auto split: sum.splits)

lemma map_py_Inl:
  "map_py f xs = Inl e \<Longrightarrow> \<exists>x\<in>set xs. f x = Inl e"
  by (induction xs) (auto split: sum.splits)

lemma map_py_all_Inr:
  "(\<And>x. x \<in> set xs \<Longrightarrow> f x = Inr (g x)) \<Longrightarrow> map_py f xs = Inr (map g xs)"
  by (induction xs) auto

subsection \<open>Rounding\<close>

lemma round_half_even_bounds:
  "x - 1/2 \<le> of_int (round_half_even x) \<and> of_int (round_half_even x) \<le> x + 1/2"
proof -
  have fl: "of_int \<lfloor>x\<rfloor> \<le> x" "x < of_int \<lfloor>x\<rfloor> + 1"
    by (simp_all add: of_int_floor_le)
  then show ?thesis
    unfolding round_half_even_def Let_def by (simp split: if_split; linarith)
qed

lemma round_half_even_mono:
  assumes "x \<le> y" shows "round_half_even x \<le> round_half_even y"
proof -
  have fl: "\<lfloor>x\<rfloor> \<le> \<lfloor>y\<rfloor>" using assms by (rule floor_mono)
  show ?thesis
  proof (cases "\<lfloor>x\<rfloor> = \<lfloor>y\<rfloor>")
    case True
    have "x - of_int \<lfloor>x\<rfloor> \<le> y - of_int \<lfloor>y\<rfloor>" using assms True by simp
    then show ?thesis using True unfolding round_half_even_def Let_def
      by (simp split: if_split)
  next
    case False
    with fl have "\<lfloor>x\<rfloor> + 1 \<le> \<lfloor>y\<rfloor>" by simp
    moreover have "round_half_even x \<le> \<lfloor>x\<rfloor> + 1" "\<lfloor>y\<rfloor> \<le> round_half_even y"
      unfolding round_half_even_def Let_def by auto
    ultimately show ?thesis by linarith
  qed
qed

lemma round_half_even_int [simp]: "round_half_even (of_int k) = k"
  by (simp add: round_half_even_def)

lemma py_round2_mono: "x \<le> y \<Longrightarrow> py_round2 x \<le> py_round2 y"
  unfolding py_round2_def by (simp add: divide_right_mono round_half_even_mono)

lemma py_round2_cents [simp]: "py_round2 (of_int k / 100) = of_int k / 100"
  by (simp add: py_round2_def)

lemma py_round2_of_int [simp]: "py_round2 (of_int k) = of_int k"
  using py_round2_cents [of "100 * k"] by simp

lemma py_round2_numeral [simp]: "py_round2 (numeral k) = numeral k"
  using py_round2_of_int [of "numeral k"] by simp

lemma py_round2_error: "\<bar>py_round2 x - x\<bar> \<le> 1/200"
proof -
  have "\<bar>of_int (round_half_even (100 * x)) - 100 * x\<bar> \<le> 1/2"
    using round_half_even_bounds [of "100 * x"] by linarith
  then show ?thesis unfolding py_round2_def by (simp add: field_simps abs_le_iff)
qed

lemma py_round2_range:
  "of_int a / 100 \<le> x \<Longrightarrow> x \<le> of_int b / 100 \<Longrightarrow> of_int a / 100 \<le> py_round2 x \<and> py_round2 x \<le> of_int b / 100"
  using py_round2_mono [of "of_int a / 100" x] py_round2_mono [of x "of_int b / 100"] by simp

subsection \<open>Stripped strings\<close>

lemma dropWhile_hd_not: "dropWhile P xs \<noteq> [] \<Longrightarrow> \<not> P (hd (dropWhile P xs))"
  by (induction xs) auto

lemma dropWhile_last: "dropWhile P xs \<noteq> [] \<Longrightarrow> last (dropWhile P xs) = last xs"
proof -
  assume ne: "dropWhile P xs \<noteq> []"
  let ?n = "length (takeWhile P xs)"
  have eq: "dropWhile P xs = drop ?n xs" by (rule dropWhile_eq_drop)
  with ne have "?n < length xs" by simp
  with eq show ?thesis by simp
qed

lemma py_strip_ends:
  assumes "py_strip s \<noteq> []"
  shows "\<not> is_space (hd (py_strip s)) \<and> \<not> is_space (last (py_strip s))"
proof -
  let ?d = "dropWhile is_space s"
  let ?e = "dropWhile is_space (rev ?d)"
  have e: "?e \<noteq> []" using assms by (simp add: py_strip_def)
  have d: "?d \<noteq> []"
  proof
    assume "?d = []"
    with e show False by simp
  qed
  have "hd (py_strip s) = hd ?d"
    using e dropWhile_last [OF e] by (simp add: py_strip_def hd_rev last_rev)
  moreover have "last (py_strip s) = hd ?e"
    by (simp add: py_strip_def last_rev)
  ultimately show ?thesis
    using dropWhile_hd_not [OF d] dropWhile_hd_not [OF e] by simp
qed

lemma dropWhile_none: "(\<And>x. x \<in> set xs \<Longrightarrow> \<not> P x) \<Longrightarrow> dropWhile P xs = xs"
  by (induction xs) auto

lemma py_strip_no_space: "(\<And>c. c \<in> set s \<Longrightarrow> \<not> is_space c) \<Longrightarrow> py_strip s = s"
proof -
  assume h: "\<And>c. c \<in> set s \<Longrightarrow> \<not> is_space c"
  then have "dropWhile is_space s = s" by (rule dropWhile_none)
  moreover have "dropWhile is_space (rev s) = rev s" using h by (intro dropWhile_none) simp
  ultimately show ?thesis by (simp add: py_strip_def)
qed

subsection \<open>Decimal strings\<close>

lemma digit_char_is_digit: "(d::nat) < 10 \<Longrightarrow> is_digit (char_of (48 + d))"
  by (simp add: is_digit_def less_eq_char_def of_char_of)

lemma digit_val_char: "(d::nat) < 10 \<Longrightarrow> digit_val (char_of (48 + d)) = d"
  by (simp add: digit_val_def of_char_of)

lemma digits_val_Nil [simp]: "digits_val [] = 0"
  by (simp add: digits_val_def)

lemma digits_val_snoc: "digits_val (s @ [c]) = 10 * digits_val s + digit_val c"
  by (simp add: digits_val_def)

lemma nat_str_digits: "\<forall>c\<in>set (nat_str n). is_digit c"
proof (induction n rule: nat_str.induct)
  case (1 n)
  then show ?case
    by (subst nat_str.simps) (auto simp: digit_char_is_digit)
qed

lemma nat_str_roundtrip: "digits_val (nat_str n) = n"
proof (induction n rule: nat_str.induct)
  case (1 n)
  show ?case
  proof (cases "n < 10")
    case True
    then show ?thesis by (subst nat_str.simps) (simp add: digits_val_def digit_val_char)
  next
    case False
    with "1.IH" have "digits_val (nat_str (n div 10)) = n div 10" by simp
    with False show ?thesis
      by (subst nat_str.simps) (simp add: digits_val_snoc digit_val_char)
  qed
qed

lemma nat_str_inj: "nat_str m = nat_str n \<longleftrightarrow> m = n"
  by (metis nat_str_roundtrip)

lemma nat_str_ne_Nil: "nat_str n \<noteq> []"
  by (subst nat_str.simps) simp

subsection \<open>Groups, maxima, sums\<close>

lemma sum_list_map_sort:
  fixes h :: "'a::linorder \<Rightarrow> 'b::comm_monoid_add"
  shows "sum_list (map h (sort xs)) = sum_list (map h xs)"
  by (metis mset_map mset_sort sum_mset_sum_list)

lemma length_filter_disj:
  "(\<And>x. \<not> (P x \<and> Q x)) \<Longrightarrow> length (filter (\<lambda>x. P x \<or> Q x) xs) = length (filter P xs) + length (filter Q xs)"
  by (induction xs) auto

lemma sum_filter_keys:
  "distinct ks \<Longrightarrow>
   (\<Sum>k\<leftarrow>ks. length (filter (\<lambda>x. f x = k \<and> P x) xs)) = length (filter (\<lambda>x. f x \<in> set ks \<and> P x) xs)"
proof (induction ks)
  case Nil
  then show ?case by simp
next
  case (Cons k ks)
  have "length (filter (\<lambda>x. f x \<in> set (k # ks) \<and> P x) xs)
        = length (filter (\<lambda>x. (f x = k \<and> P x) \<or> (f x \<in> set ks \<and> P x)) xs)"
    by (intro arg_cong [where f = length] filter_cong) auto
  also have "\<dots> = length (filter (\<lambda>x. f x = k \<and> P x) xs) + length (filter (\<lambda>x. f x \<in> set ks \<and> P x) xs)"
    using Cons.prems by (intro length_filter_disj) auto
  finally show ?case using Cons by simp
qed

lemma groupby_keys [group_simps]: "map fst (groupby f xs) = sort (remdups (map f xs))"
  by (simp add: groupby_def comp_def)

lemma groupby_keys_distinct [group_simps]: "distinct (map fst (groupby f xs))"
  by (simp add: groupby_keys)

lemma groupby_keys_sorted [group_simps]: "sorted (map fst (groupby f xs))"
  by (simp add: groupby_keys)

lemma groupby_member:
  "(k, g) \<in> set (groupby f xs) \<Longrightarrow> g = filter (\<lambda>x. f x = k) xs \<and> g \<noteq> [] \<and> k \<in> f ` set xs"
  by (auto simp: groupby_def filter_empty_conv)

lemma groupby_key_of_member:
  "(k, g) \<in> set (groupby f xs) \<Longrightarrow> x \<in> set g \<Longrightarrow> f x = k"
  by (auto simp: groupby_def)

lemma groupby_count:
  "(\<Sum>(k, g)\<leftarrow>groupby f xs. length (filter P g)) = length (filter P xs)"
proof -
  let ?ks = "remdups (map f xs)"
  have "(\<Sum>(k, g)\<leftarrow>groupby f xs. length (filter P g))
        = (\<Sum>k\<leftarrow>sort ?ks. length (filter (\<lambda>x. f x = k \<and> P x) xs))"
    unfolding groupby_def by (simp add: comp_def filter_filter)
  also have "\<dots> = (\<Sum>k\<leftarrow>?ks. length (filter (\<lambda>x. f x = k \<and> P x) xs))"
    by (rule sum_list_map_sort)
  also have "\<dots> = length (filter (\<lambda>x. f x \<in> set ?ks \<and> P x) xs)"
    by (rule sum_filter_keys) simp
  also have "\<dots> = length (filter P xs)"
    by (intro arg_cong [where f = length] filter_cong) auto
  finally show ?thesis .
qed

lemma groupby_length: "(\<Sum>(k, g)\<leftarrow>groupby f xs. length g) = length xs"
  using groupby_count [where P = "\<lambda>_. True"] by simp

lemma groupby_Nil [simp]: "groupby f [] = []"
  by (simp add: groupby_def)

lemma max_or0_ge: "x \<in> set xs \<Longrightarrow> x \<le> max_or0 xs"
  by (induction xs) (auto simp: max_or0_def)

lemma max_or0_mem: "max_or0 xs \<in> insert 0 (set xs)"
  by (induction xs) (auto simp: max_or0_def max_def)

lemma nansum_nonneg: "(\<And>v. Some v \<in> set xs \<Longrightarrow> 0 \<le> v) \<Longrightarrow> 0 \<le> nansum xs"
  unfolding nansum_def by (induction xs) (auto split: option.splits)

lemma nansum_Cons [simp]:
  "nansum (x # xs) = (case x of None \<Rightarrow> 0 | Some v \<Rightarrow> v) + nansum xs"
  by (simp add: nansum_def)

lemma nansum_Nil [simp]: "nansum [] = 0"
  by (simp add: nansum_def)

lemma nansum_weighted_bounds:
  assumes "\<forall>r\<in>set rs. \<forall>c. cr r = Some c \<longrightarrow> 0 \<le> c"
    and "\<forall>r\<in>set rs. \<forall>x. gp r = Some x \<longrightarrow> 0 \<le> x \<and> x \<le> G"
    and "0 \<le> G"
  shows "0 \<le> nansum (map (\<lambda>r. opt_mult (gp r) (cr r)) rs) \<and>
         nansum (map (\<lambda>r. opt_mult (gp r) (cr r)) rs) \<le> G * nansum (map cr rs)"
  using assms
proof (induction rs)
  case Nil
  then show ?case by simp
next
  case (Cons r rs)
  then have IH: "0 \<le> nansum (map (\<lambda>r. opt_mult (gp r) (cr r)) rs)"
    "nansum (map (\<lambda>r. opt_mult (gp r) (cr r)) rs) \<le> G * nansum (map cr rs)" by simp_all
  have c: "\<forall>c. cr r = Some c \<longrightarrow> 0 \<le> c" and g: "\<forall>x. gp r = Some x \<longrightarrow> 0 \<le> x \<and> x \<le> G"
    using Cons.prems by auto
  show ?case
  proof (cases "cr r")
    case None
    with IH c show ?thesis by (simp add: opt_mult_def split: option.splits)
  next
    case (Some c0)
    with c have c0: "0 \<le> c0" by simp
    show ?thesis
    proof (cases "gp r")
      case None
      have "0 \<le> G * c0" using c0 Cons.prems(3) by simp
      with Some None IH show ?thesis
        by (simp add: opt_mult_def distrib_left)
    next
      case (Some x)
      with g have x: "0 \<le> x" "x \<le> G" by auto
      then have "x * c0 \<le> G * c0" "0 \<le> x * c0" using c0 by (simp_all add: mult_right_mono)
      with \<open>cr r = Some c0\<close> Some IH show ?thesis
        by (simp add: opt_mult_def distrib_left)
    qed
  qed
qed

lemma sum_count_list_below:
  "(\<forall>v\<in>set vs. v < n) \<Longrightarrow> (\<Sum>i\<leftarrow>[0..<n]. count_list vs i) = length vs"
proof (induction vs)
  case Nil
  then show ?case by (simp add: sum_list_triv)
next
  case (Cons v vs)
  have "(\<Sum>i\<leftarrow>[0..<n]. count_list (v # vs) i)
        = (\<Sum>i\<leftarrow>[0..<n]. (if v = i then 1 else 0) + count_list vs i)"
    by (intro arg_cong [where f = sum_list] map_cong) auto
  also have "\<dots> = (\<Sum>i\<leftarrow>[0..<n]. (if v = i then 1 else 0)) + (\<Sum>i\<leftarrow>[0..<n]. count_list vs i)"
    by (rule sum_list_addf)
  also have "(\<Sum>i\<leftarrow>[0..<n]. (if v = i then 1 else (0::nat))) = 1"
    using Cons.prems by (simp add: sum_list_distinct_conv_sum_set sum.delta)
  finally show ?case using Cons by simp
qed

lemma count_list_map_snd: "count_list (map snd fm) i = length (filter (\<lambda>(h, v). v = i) fm)"
  by (induction fm) auto

lemma map_zip_snd: "length ys = length xs \<Longrightarrow> map (\<lambda>(i, x). f x) (zip ys xs) = map f xs"
  by (induction ys xs rule: list_induct2) auto

lemma map_enumerate_from: "map (\<lambda>(i, x). f x) (enumerate_from n xs) = map f xs"
  by (simp add: enumerate_from_def map_zip_snd)

lemma map_snd_enumerate_from [simp]: "map snd (enumerate_from n xs) = xs"
  by (simp add: enumerate_from_def)

lemma groupby_count_snd:
  "(\<Sum>kg\<leftarrow>groupby f xs. length (filter P (snd kg))) = length (filter P xs)"
  using groupby_count [of P f xs] by (simp add: split_def)

lemma groupby_length_snd: "(\<Sum>kg\<leftarrow>groupby f xs. length (snd kg)) = length xs"
  using groupby_length [of f xs] by (simp add: split_def)


lemma map_fst_enumerate_from: "map fst (enumerate_from n xs) = [n..<n + length xs]"
  by (simp add: enumerate_from_def)

lemma length_enumerate_from [simp]: "length (enumerate_from n xs) = length xs"
  by (simp add: enumerate_from_def)

lemma map_enumerate_from_snd: "map (\<lambda>x. f (snd x)) (enumerate_from n xs) = map f xs"
proof -
  have "map (\<lambda>x. f (snd x)) (enumerate_from n xs) = map f (map snd (enumerate_from n xs))"
    by (simp only: map_map comp_def)
  also have "\<dots> = map f xs" by (simp only: map_snd_enumerate_from)
  finally show ?thesis .
qed

lemma sorted_desc_take_drop:
  assumes "sorted_wrt (\<ge>) (map key s)" and "x \<in> set (drop n s)" and "y \<in> set (take n s)"
  shows "key x \<le> key y"
proof -
  have "sorted_wrt (\<ge>) (map key (take n s) @ map key (drop n s))"
    using assms(1) by (simp add: map_append [symmetric] del: map_append)
  then show ?thesis using assms(2,3) by (auto simp: sorted_wrt_append)
qed

lemma sorted_wrt_eq_key_filter:
  "sorted_wrt (\<lambda>a b. key a = key b \<longrightarrow> R a b) zs \<longleftrightarrow> (\<forall>k. sorted_wrt R (filter (\<lambda>y. key y = k) zs))"
proof (induction zs)
  case Nil
  then show ?case by simp
next
  case (Cons z zs)
  show ?case
  proof
    assume l: "sorted_wrt (\<lambda>a b. key a = key b \<longrightarrow> R a b) (z # zs)"
    show "\<forall>k. sorted_wrt R (filter (\<lambda>y. key y = k) (z # zs))"
      using l Cons.IH by auto
  next
    assume r: "\<forall>k. sorted_wrt R (filter (\<lambda>y. key y = k) (z # zs))"
    have "\<forall>k. sorted_wrt R (filter (\<lambda>y. key y = k) zs)"
    proof
      fix k
      show "sorted_wrt R (filter (\<lambda>y. key y = k) zs)"
        using r [rule_format, of k] by (cases "key z = k") auto
    qed
    moreover have "\<forall>y\<in>set zs. key z = key y \<longrightarrow> R z y"
      using r [rule_format, of "key z"] by auto
    ultimately show "sorted_wrt (\<lambda>a b. key a = key b \<longrightarrow> R a b) (z # zs)"
      using Cons.IH by simp
  qed
qed

end
