(* ===== verification/Cleaner.thy ===== *)
theory Cleaner
  imports Prelude
begin

text \<open>
  The loader and cleaner of the analytics application: \<open>clean_dataframe\<close>
  (src/app1.py, lines 16--33) and the numeric coercion it applies
  (\<open>pd.to_numeric(..., errors="coerce")\<close>). A spreadsheet is a list of column
  names and a list of raw rows whose cells are numbers, strings or empty; a
  cleaned table holds typed result rows whose numeric fields are
  \<open>real option\<close> (\<open>None\<close> is NaN). The theory proves that cleaning raises
  exactly when one of its four columns is absent, that every row it keeps has a
  trimmed, non-placeholder subject name and at least one mark, that it is a
  per-row filter, and that coercion reads back every decimal numeral.
\<close>

section \<open>Spreadsheet data\<close>

datatype cell = Num real | Str string | Blank

text \<open>
  One spreadsheet row. The subject-name cell is a string or empty; an empty cell
  reads as NaN, which \<open>astype(str)\<close> turns into \<open>"nan"\<close>.
\<close>

record raw_row =
  raw_htno :: string
  raw_subject :: "string option"
  raw_internal :: cell
  raw_external :: cell
  raw_total :: cell
  raw_grade :: cell
  raw_credits :: cell

record frame =
  columns :: "string list"
  raw_rows :: "raw_row list"

text \<open>A cleaned row: the \<open>ResultRow\<close> of the specification.\<close>

record result_row =
  htno :: string
  subject_name :: string
  internal_marks :: "real option"
  external_marks :: "real option"
  total_marks :: "real option"
  grade_points :: "real option"
  credits :: "real option"

record clean_frame =
  clean_columns :: "string list"
  rows :: "result_row list"

text \<open>
  An uploaded file as the spreadsheet reader sees it: the frame that
  \<open>pd.read_excel\<close> (or \<open>pd.read_csv\<close>) makes of its bytes, or the exception
  the reader raises on them (\<open>BadZipFile\<close> for bytes that are not an xlsx
  archive, \<open>ValueError\<close> for an unknown format, and so on).
\<close>

datatype file_data = Table frame | Corrupt py_error

definition read_file :: "file_data \<Rightarrow> frame py" where
  "read_file x = (case x of Table df \<Rightarrow> Inr df | Corrupt e \<Rightarrow> Inl e)"

section \<open>Numeric coercion\<close>

text \<open>
  \<open>pd.to_numeric(errors="coerce")\<close> on one cell: a number stays, an empty cell
  is NaN, a string is parsed as an optionally signed decimal numeral (surrounding
  blanks allowed) and is NaN when it is not one.
\<close>

definition parse_decimal :: "string \<Rightarrow> real option" where
  "parse_decimal s =
     (let t = py_strip s;
          neg = (t \<noteq> [] \<and> hd t = CHR ''-'');
          u = (if t \<noteq> [] \<and> (hd t = CHR ''-'' \<or> hd t = CHR ''+'') then tl t else t);
          ip = takeWhile is_digit u;
          rest = dropWhile is_digit u;
          fp = (if rest \<noteq> [] \<and> hd rest = CHR ''.'' then tl rest else [])
      in if (rest = [] \<or> (hd rest = CHR ''.'' \<and> list_all is_digit fp)) \<and> (ip \<noteq> [] \<or> fp \<noteq> [])
         then Some ((if neg then -1 else 1) *
                    (of_nat (digits_val ip) + of_nat (digits_val fp) / 10 ^ length fp))
         else None)"

fun to_numeric :: "cell \<Rightarrow> real option" where
  "to_numeric (Num r) = Some r"
| "to_numeric (Str s) = parse_decimal s"
| "to_numeric Blank = None"

section \<open>clean\_dataframe\<close>

text \<open>\<open>df["SUBJECT_NAME"].astype(str)\<close> on one cell.\<close>

definition subject_str :: "string option \<Rightarrow> string" where
  "subject_str s = (case s of None \<Rightarrow> ''nan'' | Some x \<Rightarrow> x)"

text \<open>The row filter of lines 19--22: non-empty and not a spelling of \<open>"nan"\<close>.\<close>

definition subject_valid :: "string \<Rightarrow> bool" where
  "subject_valid s \<longleftrightarrow> s \<noteq> [] \<and> py_lower s \<noteq> ''nan''"

text \<open>Lines 24--26: a numeric column is coerced when the table has it.\<close>

definition numeric_col :: "string list \<Rightarrow> string \<Rightarrow> cell \<Rightarrow> real option" where
  "numeric_col cols c x = (if c \<in> set cols then to_numeric x else None)"

definition coerce_row :: "string list \<Rightarrow> string \<Rightarrow> raw_row \<Rightarrow> result_row" where
  "coerce_row cols subj r =
     \<lparr>htno = raw_htno r,
      subject_name = subj,
      internal_marks = numeric_col cols ''INTERNALMARKS'' (raw_internal r),
      external_marks = numeric_col cols ''EXTERNALMARKS'' (raw_external r),
      total_marks = numeric_col cols ''TOTALMARKS'' (raw_total r),
      grade_points = numeric_col cols ''GRADE_POINTS'' (raw_grade r),
      credits = numeric_col cols ''CREDITS'' (raw_credits r)\<rparr>"

text \<open>Lines 28--31: \<open>dropna(subset=[...], how="all")\<close>.\<close>

definition all_marks_missing :: "result_row \<Rightarrow> bool" where
  "all_marks_missing r \<longleftrightarrow>
     internal_marks r = None \<and> external_marks r = None \<and> total_marks r = None"

definition dropna_subset :: "string list" where
  "dropna_subset = [''INTERNALMARKS'', ''EXTERNALMARKS'', ''TOTALMARKS'']"

text \<open>
  \<open>repr\<close> of a list of strings, \<open>['a', 'b']\<close>: the argument pandas gives the
  \<open>KeyError\<close> of \<open>dropna\<close> is the list of absent subset columns.
\<close>

definition py_str_list_repr :: "string list \<Rightarrow> string" where
  "py_str_list_repr xs =
     ''['' @ py_join '', '' (map (\<lambda>s. CHR 0x27 # s @ [CHR 0x27]) xs) @ '']''"

text \<open>
  The whole function. Reading \<open>df["SUBJECT_NAME"]\<close> raises \<open>KeyError\<close> when
  the column is absent; \<open>dropna\<close> raises \<open>KeyError\<close> naming the list of the
  columns of its subset that are absent.
\<close>

definition clean_dataframe :: "frame \<Rightarrow> clean_frame py" where
  "clean_dataframe df =
     (let cols = columns df in
      if ''SUBJECT_NAME'' \<notin> set cols then Inl (KeyError ''SUBJECT_NAME'')
      else
        let stripped = map (\<lambda>r. (py_strip (subject_str (raw_subject r)), r)) (raw_rows df);
            named = filter (\<lambda>(s, r). subject_valid s) stripped;
            coerced = map (\<lambda>(s, r). coerce_row cols s r) named;
            missing = filter (\<lambda>c. c \<notin> set cols) dropna_subset
        in if missing \<noteq> [] then Inl (KeyError (py_str_list_repr missing))
           else Inr \<lparr>clean_columns = cols, rows = filter (\<lambda>r. \<not> all_marks_missing r) coerced\<rparr>)"

text \<open>The columns \<open>clean_dataframe\<close> needs, in the order it reads them.\<close>

definition clean_required :: "string list" where
  "clean_required = ''SUBJECT_NAME'' # dropna_subset"

text \<open>The invariant of a cleaned row (specification, section 3).\<close>

definition clean_row_ok :: "result_row \<Rightarrow> bool" where
  "clean_row_ok r \<longleftrightarrow>
     subject_valid (subject_name r) \<and> py_strip (subject_name r) = subject_name r
     \<and> \<not> all_marks_missing r"

text \<open>The one-pass reading of the cleaner: which raw rows it keeps.\<close>

definition clean_keep :: "string list \<Rightarrow> raw_row \<Rightarrow> bool" where
  "clean_keep cols r \<longleftrightarrow>
     subject_valid (py_strip (subject_str (raw_subject r)))
     \<and> \<not> all_marks_missing (coerce_row cols (py_strip (subject_str (raw_subject r))) r)"

section \<open>Example sheet\<close>

text \<open>
  Five raw rows: a padded subject name, an empty and a \<open>"NaN"\<close> subject
  name, a row with no marks at all, and a row whose external mark is the string
  \<open>"AB"\<close> (absent) and whose total is the string \<open>" 38"\<close>.
\<close>

abbreviation ex_cols :: "string list" where
  "ex_cols \<equiv> [''HTNO'', ''SUBJECT_NAME'', ''INTERNALMARKS'', ''EXTERNALMARKS'', ''TOTALMARKS'', ''GRADE_POINTS'', ''CREDITS'']"
abbreviation ex_frame :: frame where
  "ex_frame \<equiv> \<lparr>columns = ex_cols, raw_rows = [
     \<lparr>raw_htno = ''A1'', raw_subject = Some '' MATHS '', raw_internal = Num 20, raw_external = Num 30,
      raw_total = Num 50, raw_grade = Num 8, raw_credits = Num 4\<rparr>,
     \<lparr>raw_htno = ''A1'', raw_subject = None, raw_internal = Num 20, raw_external = Num 30,
      raw_total = Num 50, raw_grade = Num 8, raw_credits = Num 4\<rparr>,
     \<lparr>raw_htno = ''A2'', raw_subject = Some ''NaN'', raw_internal = Num 20, raw_external = Num 30,
      raw_total = Num 50, raw_grade = Num 8, raw_credits = Num 4\<rparr>,
     \<lparr>raw_htno = ''A2'', raw_subject = Some ''PHYSICS'', raw_internal = Blank, raw_external = Blank,
      raw_total = Blank, raw_grade = Num 8, raw_credits = Num 4\<rparr>,
     \<lparr>raw_htno = ''A2'', raw_subject = Some ''PHYSICS'', raw_internal = Blank, raw_external = Str ''AB'',
      raw_total = Str '' 38'', raw_grade = Num 0, raw_credits = Num 3\<rparr>]\<rparr>"

abbreviation ex_clean :: clean_frame where
  "ex_clean \<equiv> \<lparr>clean_columns = ex_cols, rows = [
   \<lparr>htno = ''A1'', subject_name = ''MATHS'', internal_marks = Some 20, external_marks = Some 30,
    total_marks = Some 50, grade_points = Some 8, credits = Some 4\<rparr>,
   \<lparr>htno = ''A2'', subject_name = ''PHYSICS'', internal_marks = None, external_marks = None,
    total_marks = Some 38, grade_points = Some 0, credits = Some 3\<rparr>]\<rparr>"

section \<open>Properties of the cleaner\<close>

lemma py_strip_fixed:
  "s \<noteq> [] \<Longrightarrow> \<not> is_space (hd s) \<Longrightarrow> \<not> is_space (last s) \<Longrightarrow> py_strip s = s"
proof -
  assume ne: "s \<noteq> []" and h: "\<not> is_space (hd s)" and l: "\<not> is_space (last s)"
  have "dropWhile is_space s = s" using h by (simp add: dropWhile_eq_self_iff)
  moreover have "dropWhile is_space (rev s) = rev s" using l by (simp add: dropWhile_eq_self_iff hd_rev)
  ultimately show ?thesis by (simp add: py_strip_def)
qed

lemma py_strip_idem: "py_strip (py_strip s) = py_strip s"
proof (cases "py_strip s = []")
  case True
  show ?thesis unfolding True by (simp add: py_strip_def)
next
  case False
  with py_strip_ends [OF False] show ?thesis by (simp add: py_strip_fixed)
qed

lemma is_digit_not_special:
  "is_digit c \<Longrightarrow> \<not> is_space c \<and> c \<noteq> CHR ''-'' \<and> c \<noteq> CHR ''+'' \<and> c \<noteq> CHR ''.''"
  by (auto simp: is_digit_def is_space_def less_eq_char_def)

lemma clean_example: "clean_dataframe ex_frame = Inr ex_clean"
  by (simp add: clean_dataframe_def dropna_subset_def subject_str_def subject_valid_def coerce_row_def
      numeric_col_def all_marks_missing_def parse_decimal_def py_defs is_digit_def digits_val_def
      digit_val_def)

text \<open>
  C16: Every row of a cleaned table has a non-empty subject name that is no
  spelling of \<open>"nan"\<close> and has no surrounding blanks, and at least one of its
  internal, external and total marks is a number.
\<close>

theorem clean_dataframe_rows_ok:
  assumes "clean_dataframe df = Inr cf" and "r \<in> set (rows cf)"
  shows "clean_row_ok r"
  using assms
  by (auto simp: clean_dataframe_def clean_row_ok_def coerce_row_def py_strip_idem Let_def
           split: if_splits option.splits)

theorem clean_dataframe_rows_ok_witness:
  "clean_dataframe ex_frame = Inr ex_clean \<and> clean_row_ok (rows ex_clean ! 1)"
  using clean_example clean_dataframe_rows_ok [OF clean_example, of "rows ex_clean ! 1"] by simp

text \<open>
  C17: Cleaning raises exactly when one of the columns it reads is absent:
  \<open>SUBJECT_NAME\<close>, \<open>INTERNALMARKS\<close>, \<open>EXTERNALMARKS\<close> or
  \<open>TOTALMARKS\<close>. The exception is \<open>KeyError\<close>: of \<open>SUBJECT_NAME\<close> when that
  column is absent (it is read first), else of the list of the absent marks
  columns. (The specification lists internal and external marks as optional
  columns.)
\<close>

theorem clean_dataframe_Inl:
  "clean_dataframe df = Inl e \<longleftrightarrow>
     \<not> set clean_required \<subseteq> set (columns df) \<and>
     e = KeyError (if ''SUBJECT_NAME'' \<notin> set (columns df) then ''SUBJECT_NAME''
                   else py_str_list_repr (filter (\<lambda>c. c \<notin> set (columns df)) dropna_subset))"
  by (auto simp: clean_dataframe_def clean_required_def Let_def filter_empty_conv)

theorem clean_dataframe_Inl_witness:
  "clean_dataframe \<lparr>columns = [''SUBJECT_NAME'', ''TOTALMARKS''], raw_rows = []\<rparr>
     = Inl (KeyError (py_str_list_repr [''INTERNALMARKS'', ''EXTERNALMARKS'']))"
  by (simp add: clean_dataframe_Inl clean_required_def dropna_subset_def)

text \<open>
  C18: When its columns are present, cleaning is a per-row filter in the
  original order: a raw row is kept iff its trimmed subject name is valid and
  one of its three marks coerces to a number, and then it becomes the coerced row.
\<close>

theorem clean_dataframe_Inr:
  assumes "set clean_required \<subseteq> set (columns df)"
  shows "clean_dataframe df = Inr \<lparr>clean_columns = columns df,
           rows = map (\<lambda>r. coerce_row (columns df) (py_strip (subject_str (raw_subject r))) r)
                    (filter (clean_keep (columns df)) (raw_rows df))\<rparr>"
proof -
  have "filter (\<lambda>c. c \<notin> set (columns df)) dropna_subset = []"
    using assms by (auto simp: filter_empty_conv clean_required_def)
  moreover have "''SUBJECT_NAME'' \<in> set (columns df)"
    using assms by (simp add: clean_required_def)
  ultimately show ?thesis
    by (simp add: clean_dataframe_def clean_keep_def [abs_def] filter_map comp_def case_prod_beta Let_def)
qed

theorem clean_dataframe_Inr_witness:
  "set clean_required \<subseteq> set (columns ex_frame) \<and>
   length (rows (projr (clean_dataframe ex_frame))) = length (filter (clean_keep ex_cols) (raw_rows ex_frame))"
proof -
  have req: "set clean_required \<subseteq> set (columns ex_frame)"
    by (simp add: clean_required_def dropna_subset_def)
  show ?thesis using req clean_dataframe_Inr [OF req] by simp
qed

text \<open>
  Numeric coercion reads back every decimal numeral: the string
  \<open>str(n)\<close> of a natural number coerces to the number \<open>n\<close>.
\<close>

theorem to_numeric_nat_str: "to_numeric (Str (nat_str n)) = Some (of_nat n)"
proof -
  let ?s = "nat_str n"
  have dig: "\<forall>c\<in>set ?s. is_digit c" by (rule nat_str_digits)
  then have st: "py_strip ?s = ?s"
    by (intro py_strip_no_space) (auto dest: is_digit_not_special)
  have ne: "?s \<noteq> []" by (rule nat_str_ne_Nil)
  then have hd: "hd ?s \<noteq> CHR ''-'' \<and> hd ?s \<noteq> CHR ''+''"
    using dig is_digit_not_special by (metis hd_in_set)
  have tw: "takeWhile is_digit ?s = ?s" and dw: "dropWhile is_digit ?s = []"
    using dig by (simp_all add: takeWhile_eq_all_conv dropWhile_eq_Nil_conv)
  show ?thesis
    using ne hd dig by (simp add: parse_decimal_def st tw dw nat_str_roundtrip Let_def)
qed

end
