(* ===== verification/Classifier.thy ===== *)
theory Classifier
  imports Cleaner
begin

text \<open>
  The pass/fail rule of the analytics application: \<open>marks_result\<close>, the
  closure defined inside \<open>process\<close> (src/app1.py, lines 102--114), and its
  application to every cleaned row (line 116). Missing marks are NaN, which
  compares false with everything, so a NaN mark never meets a threshold and a
  NaN external mark is not zero. The theory proves what every passing row has,
  that the rule is monotone inside each of its three regimes but not across
  them, and that a missing external mark fails every non-optional subject.
\<close>

section \<open>The rule\<close>

datatype result = PASS | FAIL

text \<open>
  \<open>optional_subjects\<close> is the list of subject names the user ticked
  (\<open>request.form.getlist("optional_subjects")\<close>, line 95).
\<close>

definition marks_result :: "string list \<Rightarrow> result_row \<Rightarrow> result" where
  "marks_result optional_subjects row =
     (let i = internal_marks row; e = external_marks row; t = total_marks row;
          subject = subject_name row
      in if eq_opt e 0 then (if ge_opt t 40 then PASS else FAIL)
         else if subject \<in> set optional_subjects then (if ge_opt t 40 then PASS else FAIL)
         else if ge_opt i 14 \<and> ge_opt e 21 \<and> ge_opt t 35 then PASS else FAIL)"

text \<open>\<open>df["RESULT"] = df.apply(marks_result, axis=1)\<close>: a classified row.\<close>

type_synonym crow = "result_row \<times> result"

definition classify :: "string list \<Rightarrow> result_row list \<Rightarrow> crow list" where
  "classify optional_subjects rs = map (\<lambda>r. (r, marks_result optional_subjects r)) rs"

section \<open>Regimes and the order on marks\<close>

text \<open>Which of the three branches of the rule decides a row.\<close>

datatype regime = Zero_External | Optional_Subject | Regular

definition regime_of :: "string list \<Rightarrow> result_row \<Rightarrow> regime" where
  "regime_of opt r =
     (if eq_opt (external_marks r) 0 then Zero_External
      else if subject_name r \<in> set opt then Optional_Subject else Regular)"

text \<open>A mark is at most another when it is NaN or both are numbers in order.\<close>

definition mark_le :: "real option \<Rightarrow> real option \<Rightarrow> bool" where
  "mark_le a b = (case a of None \<Rightarrow> True | Some x \<Rightarrow> (case b of None \<Rightarrow> False | Some y \<Rightarrow> x \<le> y))"

definition marks_le :: "result_row \<Rightarrow> result_row \<Rightarrow> bool" where
  "marks_le r r' \<longleftrightarrow>
     subject_name r = subject_name r' \<and> mark_le (internal_marks r) (internal_marks r')
     \<and> mark_le (external_marks r) (external_marks r') \<and> mark_le (total_marks r) (total_marks r')"

section \<open>Example rows\<close>

text \<open>The scenarios of the specification, section 8.\<close>

abbreviation ex_row :: "string \<Rightarrow> real option \<Rightarrow> real option \<Rightarrow> real option \<Rightarrow> result_row" where
  "ex_row s i e t \<equiv> \<lparr>htno = ''A1'', subject_name = s, internal_marks = i, external_marks = e,
                       total_marks = t, grade_points = None, credits = None\<rparr>"

section \<open>Properties of the rule\<close>

lemma ge_opt_mono: "ge_opt a c \<Longrightarrow> mark_le a b \<Longrightarrow> ge_opt b c"
  by (auto simp: ge_opt_def mark_le_def split: option.splits)

lemmas marks_result_eval = marks_result_def regime_of_def marks_le_def mark_le_def py_defs

text \<open>
  C1: A row that passes has a total of at least 35, and either a total of at
  least 40 or an internal mark of at least 14 and an external mark of at least
  21; in particular a row with a missing total never passes.
\<close>

theorem marks_result_pass_floor:
  assumes "marks_result opt r = PASS"
  shows "ge_opt (total_marks r) 35 \<and>
         (ge_opt (total_marks r) 40 \<or> (ge_opt (internal_marks r) 14 \<and> ge_opt (external_marks r) 21))"
  using assms
  by (auto simp: marks_result_def ge_opt_def Let_def split: if_splits option.splits)

theorem marks_result_pass_floor_witness:
  "marks_result [] (ex_row ''MATHS'' (Some 14) (Some 21) (Some 35)) = PASS \<and>
   ge_opt (Some 35) 35 \<and> (ge_opt (Some 35) 40 \<or> (ge_opt (Some 14) 14 \<and> ge_opt (Some 21) 21))"
proof -
  have h: "marks_result [] (ex_row ''MATHS'' (Some 14) (Some 21) (Some 35)) = PASS"
    by (simp add: marks_result_eval)
  show ?thesis using h marks_result_pass_floor [OF h] by simp
qed

text \<open>
  C2: Inside one regime of the rule (zero external mark, optional subject, or
  regular subject) the rule is monotone: a row whose marks are all at least those
  of a passing row also passes.
\<close>

theorem marks_result_mono:
  assumes "regime_of opt r = regime_of opt r'" and "marks_le r r'"
    and "marks_result opt r = PASS"
  shows "marks_result opt r' = PASS"
  using assms
  by (auto simp: marks_result_def regime_of_def marks_le_def Let_def intro: ge_opt_mono
           split: if_splits)

theorem marks_result_mono_witness:
  "marks_result [] (ex_row ''MATHS'' (Some 15) (Some 22) (Some 37)) = PASS"
proof -
  have r: "regime_of [] (ex_row ''MATHS'' (Some 14) (Some 21) (Some 35))
         = regime_of [] (ex_row ''MATHS'' (Some 15) (Some 22) (Some 37))"
    and le: "marks_le (ex_row ''MATHS'' (Some 14) (Some 21) (Some 35))
                      (ex_row ''MATHS'' (Some 15) (Some 22) (Some 37))"
    and p: "marks_result [] (ex_row ''MATHS'' (Some 14) (Some 21) (Some 35)) = PASS"
    by (simp_all add: marks_result_eval)
  show ?thesis by (rule marks_result_mono [OF r le p])
qed

text \<open>
  C4: The rule is not monotone across regimes: every passing row of a
  non-optional subject with an external mark of 0 and an internal mark below 14
  (or missing) fails once any positive external mark is added to its external
  mark and its total, although every mark has grown.
\<close>

theorem marks_result_not_monotone:
  assumes "external_marks r = Some 0" and "subject_name r \<notin> set opt"
    and "total_marks r = Some t" and "40 \<le> t" and "\<not> ge_opt (internal_marks r) 14" and "0 < x"
  shows "marks_result opt r = PASS \<and>
         marks_le r (r\<lparr>external_marks := Some x, total_marks := Some (t + x)\<rparr>) \<and>
         marks_result opt (r\<lparr>external_marks := Some x, total_marks := Some (t + x)\<rparr>) = FAIL"
  using assms by (cases "internal_marks r") (auto simp: marks_result_eval)

theorem marks_result_not_monotone_witness:
  "marks_result [] (ex_row ''MATHS'' (Some 10) (Some 5) (Some 50)) = FAIL"
proof -
  have "marks_result [] (ex_row ''MATHS'' (Some 10) (Some 0) (Some 45)) = PASS \<and>
        marks_le (ex_row ''MATHS'' (Some 10) (Some 0) (Some 45))
          ((ex_row ''MATHS'' (Some 10) (Some 0) (Some 45))\<lparr>external_marks := Some 5, total_marks := Some (45 + 5)\<rparr>) \<and>
        marks_result [] ((ex_row ''MATHS'' (Some 10) (Some 0) (Some 45))\<lparr>external_marks := Some 5, total_marks := Some (45 + 5)\<rparr>) = FAIL"
    by (rule marks_result_not_monotone) (simp_all add: marks_result_eval)
  then show ?thesis by simp
qed

text \<open>
  C3: A row whose external mark is missing (NaN) fails whenever its subject is
  not optional, whatever its internal and total marks.
\<close>

theorem marks_result_nan_external:
  assumes "external_marks r = None" and "subject_name r \<notin> set opt"
  shows "marks_result opt r = FAIL"
  using assms by (simp add: marks_result_def py_defs)

theorem marks_result_nan_external_witness:
  "marks_result [''ENGLISH''] (ex_row ''MATHS'' (Some 30) None (Some 90)) = FAIL"
proof -
  have e: "external_marks (ex_row ''MATHS'' (Some 30) None (Some 90)) = None" by simp
  have s: "subject_name (ex_row ''MATHS'' (Some 30) None (Some 90)) \<notin> set [''ENGLISH'']" by simp
  show ?thesis by (rule marks_result_nan_external [OF e s])
qed

end
