(* ===== verification/Aggregate.thy ===== *)
theory Aggregate
  imports Classifier
begin

text \<open>
  The aggregator of the analytics application (src/app1.py, lines 121--228):
  the loop over \<open>df.groupby("HTNO")\<close> that computes each student's counts,
  pass percentage, SGPA, CGPA and status, the rank-list entry and the failed
  subjects (lines 126--164); the failure distribution (lines 169--176); and the
  subject-wise pass percentages (lines 214--228). A classified table is a list
  of rows paired with their result; \<open>cols\<close> are the columns of the cleaned
  table, whose absence makes a column read raise \<open>KeyError\<close>. The theory
  proves the range of SGPA, when it is 0, how the counts add up, and that the
  failure distribution accounts for every student once.
\<close>

section \<open>Per-student metrics\<close>

datatype status = DETAINED | PROMOTED

record student_metric =
  sm_htno :: string
  sm_total :: nat
  sm_passed :: nat
  sm_failed :: nat
  sm_pass_pct :: real
  sm_sgpa :: real
  sm_cgpa :: real
  sm_status :: status

text \<open>An entry of \<open>rank_list\<close> before its rank is set (lines 153--156).\<close>

record rank_entry =
  rk_htno :: string
  rk_sgpa :: real

record failed_entry =
  fe_htno :: string
  fe_count :: nat
  fe_subjects :: string

text \<open>What one iteration of the student loop appends to its four lists.\<close>

record student_out =
  so_metric :: student_metric
  so_rank :: rank_entry
  so_failures :: "string \<times> nat"
  so_failed :: "failed_entry option"

definition passed_rows :: "crow list \<Rightarrow> result_row list" where
  "passed_rows g = map fst (filter (\<lambda>(r, res). res = PASS) g)"

definition count_result :: "result \<Rightarrow> crow list \<Rightarrow> nat" where
  "count_result x g = length (filter (\<lambda>(r, res). res = x) g)"

text \<open>
  Lines 133--138. \<open>passed_g["CREDITS"]\<close> is read first; \<open>GRADE_POINTS\<close> is read
  only in the branch where the passed credits are positive.
\<close>

definition sgpa :: "string list \<Rightarrow> crow list \<Rightarrow> real py" where
  "sgpa cols g =
     (let passed_g = passed_rows g in
      if ''CREDITS'' \<notin> set cols then Inl (KeyError ''CREDITS'')
      else
        let total_credits = nansum (map credits passed_g) in
        if total_credits > 0 then
          (if ''GRADE_POINTS'' \<notin> set cols then Inl (KeyError ''GRADE_POINTS'')
           else Inr (nansum (map (\<lambda>r. opt_mult (grade_points r) (credits r)) passed_g) / total_credits))
        else Inr 0)"

definition status_of :: "nat \<Rightarrow> status" where
  "status_of failed = (if failed \<ge> 3 then DETAINED else PROMOTED)"

text \<open>One iteration of the loop of lines 126--164, for the group of one student.\<close>

definition student_entry :: "string list \<Rightarrow> string \<times> crow list \<Rightarrow> student_out py" where
  "student_entry cols hg =
     (let (h, g) = hg;
          total = length g;
          passed = count_result PASS g;
          failed = total - passed;
          failed_subjects = map (subject_name \<circ> fst) (filter (\<lambda>(r, res). res = FAIL) g)
      in case sgpa cols g of
           Inl e \<Rightarrow> Inl e
         | Inr s \<Rightarrow> Inr
             \<lparr>so_metric = \<lparr>sm_htno = h, sm_total = total, sm_passed = passed, sm_failed = failed,
                           sm_pass_pct = py_round2 (real passed / real total * 100),
                           sm_sgpa = py_round2 s, sm_cgpa = py_round2 s,
                           sm_status = status_of failed\<rparr>,
              so_rank = \<lparr>rk_htno = h, rk_sgpa = py_round2 s\<rparr>,
              so_failures = (h, failed),
              so_failed = (if failed_subjects \<noteq> []
                           then Some \<lparr>fe_htno = h, fe_count = length failed_subjects,
                                      fe_subjects = py_join '', '' failed_subjects\<rparr>
                           else None)\<rparr>)"

text \<open>
  The whole loop: \<open>df.groupby("HTNO")\<close>, one iteration per student;
  \<open>groupby\<close> raises \<open>KeyError\<close> when the table has no \<open>HTNO\<close> column.
\<close>

definition student_loop :: "string list \<Rightarrow> crow list \<Rightarrow> student_out list py" where
  "student_loop cols df =
     (if ''HTNO'' \<notin> set cols then Inl (KeyError ''HTNO'')
      else map_py (student_entry cols) (groupby (htno \<circ> fst) df))"

section \<open>Failure distribution\<close>

definition category :: "nat \<Rightarrow> string" where
  "category i = (if i = 0 then ''All Subjects Passed'' else nat_str i @ '' Subject(s) Failed'')"

text \<open>Lines 169--176, over the values of \<open>failure_map\<close> in insertion order.\<close>

definition failure_distribution :: "(string \<times> nat) list \<Rightarrow> (string \<times> nat) list" where
  "failure_distribution failure_map =
     (let vs = map snd failure_map; max_fail = max_or0 vs
      in map (\<lambda>i. (category i, count_list vs i)) [0..<max_fail + 1])"

section \<open>Subject metrics\<close>

record subject_metric =
  sub_sno :: nat
  sub_subject :: string
  sub_appeared :: nat
  sub_passed :: nat
  sub_failed :: nat
  sub_pass_pct :: real

definition subject_entry :: "nat \<times> string \<times> crow list \<Rightarrow> subject_metric" where
  "subject_entry x =
     (let (idx, subject, g) = x;
          appeared = length g;
          passed = count_result PASS g
      in \<lparr>sub_sno = idx, sub_subject = subject, sub_appeared = appeared, sub_passed = passed,
          sub_failed = appeared - passed,
          sub_pass_pct = (if appeared > 0 then py_round2 (real passed / real appeared * 100) else 0)\<rparr>)"

text \<open>Lines 214--228: \<open>enumerate(df.groupby("SUBJECT_NAME"), start=1)\<close>.\<close>

definition subject_metrics :: "crow list \<Rightarrow> subject_metric list" where
  "subject_metrics df = map subject_entry (enumerate_from 1 (groupby (subject_name \<circ> fst) df))"

section \<open>Example groups\<close>

text \<open>
  A classified row of student \<open>h\<close> in subject \<open>s\<close> with the given grade points,
  credits and result; the specification's SGPA scenario is student \<open>S1\<close> with two
  passed subjects of credits 4 and 3 and grade points 9 and 8.
\<close>

abbreviation ex_result :: "string \<Rightarrow> string \<Rightarrow> real \<Rightarrow> real \<Rightarrow> result \<Rightarrow> crow" where
  "ex_result h s gp cr res \<equiv> (\<lparr>htno = h, subject_name = s, internal_marks = Some 20, external_marks = Some 30,
      total_marks = Some 50, grade_points = Some gp, credits = Some cr\<rparr>, res)"

abbreviation ex_s1 :: "crow list" where
  "ex_s1 \<equiv> [ex_result ''S1'' ''MATHS'' 9 4 PASS, ex_result ''S1'' ''PHYSICS'' 8 3 PASS]"

section \<open>Properties of the aggregator\<close>

lemma count_result_split: "count_result PASS g + count_result FAIL g = length g"
proof (induction g)
  case Nil
  then show ?case by (simp add: count_result_def)
next
  case (Cons x g)
  then show ?case by (cases "snd x") (auto simp: count_result_def split: prod.splits)
qed

lemma count_result_le: "count_result x g \<le> length g"
  by (simp add: count_result_def)

lemma failed_subjects_length:
  "length (filter (\<lambda>(r, res). res = FAIL) g) = length g - count_result PASS g"
  using count_result_split [of g] by (simp add: count_result_def)

lemma count_result_filter: "count_result x g = length (filter (\<lambda>c. snd c = x) g)"
  by (simp add: count_result_def split_def)

lemma category_hd: "0 < i \<Longrightarrow> is_digit (hd (category i))"
  using nat_str_digits [of i] nat_str_ne_Nil [of i] by (simp add: category_def)

lemma category_inj: "category i = category j \<longleftrightarrow> i = j"
proof
  assume c: "category i = category j"
  have A: "\<not> is_digit (hd (category 0))" by (simp add: category_def is_digit_def)
  show "i = j"
  proof (cases "i = 0 \<or> j = 0")
    case True
    then show ?thesis using c A category_hd [of i] category_hd [of j] by (metis gr0I)
  next
    case False
    with c show ?thesis by (simp add: category_def nat_str_inj)
  qed
qed simp

lemma subject_entry_counts:
  "sub_appeared (subject_entry x) = length (snd (snd x)) \<and>
   sub_passed (subject_entry x) = count_result PASS (snd (snd x)) \<and>
   sub_subject (subject_entry x) = fst (snd x)"
  by (simp add: subject_entry_def Let_def case_prod_beta)

lemmas student_entry_eval = student_entry_def sgpa_def passed_rows_def count_result_def status_of_def
  py_round2_def round_half_even_def py_defs Let_def

lemma ex_s1_entry:
  "student_entry ex_cols (''S1'', ex_s1)
  = Inr \<lparr>so_metric = \<lparr>sm_htno = ''S1'', sm_total = 2, sm_passed = 2, sm_failed = 0, sm_pass_pct = 100,
                           sm_sgpa = 857/100, sm_cgpa = 857/100, sm_status = PROMOTED\<rparr>,
              so_rank = \<lparr>rk_htno = ''S1'', rk_sgpa = 857/100\<rparr>,
              so_failures = (''S1'', 0),
              so_failed = None\<rparr>"
  by (simp add: student_entry_eval)

lemma ex_s1_sgpa: "sgpa ex_cols ex_s1 = Inr (60 / 7)"
  by (simp add: sgpa_def passed_rows_def py_defs Let_def)

text \<open>
  C5: SGPA lies between 0 and the largest grade point: when the passed
  subjects' credits are non-negative and their grade points lie in
  \<open>[0, G]\<close>, the SGPA of lines 133--138 lies in \<open>[0, G]\<close>; rows with a
  missing grade point or credit are left out of the sums as pandas does.
\<close>

theorem sgpa_bounds:
  assumes "sgpa cols g = Inr s"
    and "\<forall>r\<in>set (passed_rows g). \<forall>c. credits r = Some c \<longrightarrow> 0 \<le> c"
    and "\<forall>r\<in>set (passed_rows g). \<forall>x. grade_points r = Some x \<longrightarrow> 0 \<le> x \<and> x \<le> G"
    and "0 \<le> G"
  shows "0 \<le> s \<and> s \<le> G"
proof -
  let ?rs = "passed_rows g"
  let ?tc = "nansum (map credits ?rs)"
  let ?n = "nansum (map (\<lambda>r. opt_mult (grade_points r) (credits r)) ?rs)"
  have b: "0 \<le> ?n \<and> ?n \<le> G * ?tc"
    using nansum_weighted_bounds [of ?rs credits grade_points G] assms(2-4) by blast
  show ?thesis
  proof (cases "0 < ?tc")
    case True
    with assms(1) have s: "s = ?n / ?tc"
      by (simp add: sgpa_def Let_def split: if_splits)
    have "?n / ?tc \<le> G" using b True by (simp add: divide_le_eq)
    moreover have "0 \<le> ?n / ?tc" using b True by simp
    ultimately show ?thesis using s by simp
  next
    case False
    with assms(1) have "s = 0" by (simp add: sgpa_def Let_def split: if_splits)
    with assms(4) show ?thesis by simp
  qed
qed

theorem sgpa_bounds_witness:
  "sgpa ex_cols ex_s1 = Inr (60 / 7) \<and> 0 \<le> (60 / 7 :: real) \<and> (60 / 7 :: real) \<le> 10"
proof -
  have c: "\<forall>r\<in>set (passed_rows ex_s1). \<forall>c. credits r = Some c \<longrightarrow> 0 \<le> c"
    and g: "\<forall>r\<in>set (passed_rows ex_s1). \<forall>x. grade_points r = Some x \<longrightarrow> 0 \<le> x \<and> x \<le> 10"
    by (simp_all add: passed_rows_def)
  show ?thesis using ex_s1_sgpa sgpa_bounds [OF ex_s1_sgpa c g] by simp
qed

text \<open>
  SGPA is 0 when the student's passed subjects carry no positive credits
  (in particular when the student passed nothing), provided the table has a
  \<open>CREDITS\<close> column.
\<close>

theorem sgpa_zero:
  assumes "''CREDITS'' \<in> set cols" and "nansum (map credits (passed_rows g)) \<le> 0"
  shows "sgpa cols g = Inr 0"
  using assms by (simp add: sgpa_def Let_def)

theorem sgpa_zero_witness:
  "sgpa ex_cols [ex_result ''S2'' ''MATHS'' 9 4 FAIL] = Inr 0"
proof -
  have c: "''CREDITS'' \<in> set ex_cols" by simp
  have z: "nansum (map credits (passed_rows [ex_result ''S2'' ''MATHS'' 9 4 FAIL])) \<le> 0"
    by (simp add: passed_rows_def)
  show ?thesis by (rule sgpa_zero [OF c z])
qed

text \<open>
  C15: Without a \<open>GRADE_POINTS\<close> column the SGPA computation raises
  \<open>KeyError\<close> exactly for a student whose passed credits are positive; the
  specification instead lets grade points default to 0.
\<close>

theorem sgpa_grade_points_error:
  assumes "''CREDITS'' \<in> set cols" and "''GRADE_POINTS'' \<notin> set cols"
  shows "sgpa cols g = Inl (KeyError ''GRADE_POINTS'') \<longleftrightarrow> 0 < nansum (map credits (passed_rows g))"
  using assms by (simp add: sgpa_def Let_def)

theorem sgpa_grade_points_error_witness:
  "sgpa [''CREDITS''] ex_s1 = Inl (KeyError ''GRADE_POINTS'')"
proof -
  have c: "''CREDITS'' \<in> set [''CREDITS'']" and g: "''GRADE_POINTS'' \<notin> set [''CREDITS'']" by simp_all
  have "0 < nansum (map credits (passed_rows ex_s1))" by (simp add: passed_rows_def)
  then show ?thesis using sgpa_grade_points_error [OF c g] by simp
qed

lemma student_entry_fields:
  assumes "student_entry cols (h, g) = Inr out"
  shows "sm_htno (so_metric out) = h \<and> sm_total (so_metric out) = length g
       \<and> sm_passed (so_metric out) = count_result PASS g
       \<and> sm_passed (so_metric out) + sm_failed (so_metric out) = sm_total (so_metric out)
       \<and> sm_status (so_metric out) = (if 3 \<le> sm_failed (so_metric out) then DETAINED else PROMOTED)
       \<and> sm_cgpa (so_metric out) = sm_sgpa (so_metric out)
       \<and> rk_sgpa (so_rank out) = sm_sgpa (so_metric out)
       \<and> so_failures out = (h, sm_failed (so_metric out))
       \<and> (so_failed out = None \<longleftrightarrow> sm_failed (so_metric out) = 0)"
proof -
  have f: "filter (\<lambda>(r, res). res = FAIL) g = [] \<longleftrightarrow> length g - count_result PASS g = 0"
    using failed_subjects_length [of g] by (metis length_0_conv)
  show ?thesis
    using assms count_result_le [of PASS g] f
    by (auto simp: student_entry_def status_of_def Let_def split: sum.splits)
qed


text \<open>
  C6: One iteration of the student loop reports the group's size as the
  total, passed plus failed equal to the total, status \<open>DETAINED\<close> exactly when
  at least 3 subjects failed, CGPA equal to SGPA, the same SGPA in the rank list,
  the failed count in \<open>failure_map\<close>, and a failed-subjects entry exactly when
  a subject failed.
\<close>

theorem student_entry_Inr:
  assumes "student_entry cols (h, g) = Inr out"
  shows "sm_htno (so_metric out) = h \<and> sm_total (so_metric out) = length g
       \<and> sm_passed (so_metric out) = count_result PASS g
       \<and> sm_passed (so_metric out) + sm_failed (so_metric out) = sm_total (so_metric out)
       \<and> sm_status (so_metric out) = (if 3 \<le> sm_failed (so_metric out) then DETAINED else PROMOTED)
       \<and> sm_cgpa (so_metric out) = sm_sgpa (so_metric out)
       \<and> rk_sgpa (so_rank out) = sm_sgpa (so_metric out)
       \<and> so_failures out = (h, sm_failed (so_metric out))
       \<and> (so_failed out = None \<longleftrightarrow> sm_failed (so_metric out) = 0)"
  using assms by (rule student_entry_fields)

theorem student_entry_Inr_witness:
  "sm_sgpa (so_metric (projr (student_entry ex_cols (''S1'', ex_s1)))) = 857 / 100 \<and>
   sm_status (so_metric (projr (student_entry ex_cols (''S1'', ex_s1)))) = PROMOTED"
  using student_entry_Inr [OF ex_s1_entry] ex_s1_entry by simp

text \<open>
  A student's pass percentage lies between 0 and 100.
\<close>

theorem student_entry_pass_pct:
  assumes "student_entry cols (h, g) = Inr out" and "g \<noteq> []"
  shows "0 \<le> sm_pass_pct (so_metric out) \<and> sm_pass_pct (so_metric out) \<le> 100"
proof -
  let ?p = "real (count_result PASS g) / real (length g) * 100"
  have "count_result PASS g \<le> length g" by (rule count_result_le)
  then have "of_int 0 / 100 \<le> ?p \<and> ?p \<le> of_int 10000 / 100"
    using assms(2) by (simp add: divide_le_eq)
  then have "0 \<le> py_round2 ?p \<and> py_round2 ?p \<le> 100"
    using py_round2_range [of 0 ?p 10000] by simp
  with assms(1) show ?thesis
    by (auto simp: student_entry_def Let_def split: sum.splits)
qed

theorem student_entry_pass_pct_witness:
  "sm_pass_pct (so_metric (projr (student_entry ex_cols (''S1'', ex_s1)))) = 100"
  using student_entry_pass_pct [OF ex_s1_entry] ex_s1_entry by simp

text \<open>
  C7: The failure distribution accounts for every student exactly once: its
  bucket counts add up to the number of students.
\<close>

theorem failure_distribution_total:
  "sum_list (map snd (failure_distribution fm)) = length fm"
proof -
  let ?vs = "map snd fm"
  have "\<forall>v\<in>set ?vs. v < max_or0 ?vs + 1" using max_or0_ge by fastforce
  then have "(\<Sum>i\<leftarrow>[0..<max_or0 ?vs + 1]. count_list ?vs i) = length ?vs"
    by (rule sum_count_list_below)
  then show ?thesis by (simp add: failure_distribution_def Let_def comp_def del: upt_Suc)
qed

text \<open>
  C11: The failure distribution has one bucket for every failed count from 0
  to the largest one, with pairwise different labels, and bucket \<open>i\<close> counts
  the students with exactly \<open>i\<close> failed subjects.
\<close>

theorem failure_distribution_shape:
  "length (failure_distribution fm) = max_or0 (map snd fm) + 1 \<and>
   distinct (map fst (failure_distribution fm)) \<and>
   (\<forall>i \<le> max_or0 (map snd fm).
      failure_distribution fm ! i = (category i, length (filter (\<lambda>(h, v). v = i) fm)))"
proof -
  have "distinct (map category [0..<max_or0 (map snd fm) + 1])"
    by (simp add: distinct_map inj_on_def category_inj del: upt_Suc)
  then show ?thesis
    by (simp add: failure_distribution_def Let_def comp_def count_list_map_snd nth_append
        del: upt_Suc)
qed

theorem failure_distribution_shape_witness:
  "2 \<le> max_or0 (map snd [(''S1'', 0), (''S2'', 2), (''S3'', 2::nat)]) \<and>
   failure_distribution [(''S1'', 0), (''S2'', 2), (''S3'', 2)] ! 2 = (''2 Subject(s) Failed'', 2)"
proof -
  have m: "max_or0 (map snd [(''S1'', 0), (''S2'', 2), (''S3'', 2::nat)]) = 2"
    by (simp add: max_or0_def)
  have "failure_distribution [(''S1'', 0), (''S2'', 2), (''S3'', 2)] ! 2
        = (category 2, length (filter (\<lambda>(h, v). v = 2) [(''S1'', 0), (''S2'', 2), (''S3'', 2::nat)]))"
    using failure_distribution_shape [of "[(''S1'', 0), (''S2'', 2), (''S3'', 2)]"] m by simp
  then show ?thesis using m by (simp add: category_def nat_str.simps py_defs)
qed

text \<open>
  C12: The subject metrics cover every classified row once: the appeared counts
  add up to the number of rows and the passed counts to the number of passing rows.
\<close>

theorem subject_metrics_sums:
  "sum_list (map sub_appeared (subject_metrics df)) = length df \<and>
   sum_list (map sub_passed (subject_metrics df)) = count_result PASS df"
proof -
  let ?G = "groupby (subject_name \<circ> fst) df"
  let ?E = "enumerate_from 1 ?G"
  have a: "map sub_appeared (subject_metrics df) = map (\<lambda>kg. length (snd kg)) (map snd ?E)"
    and p: "map sub_passed (subject_metrics df) = map (\<lambda>kg. count_result PASS (snd kg)) (map snd ?E)"
    by (simp_all add: subject_metrics_def comp_def subject_entry_counts del: map_snd_enumerate_from)
  have "sum_list (map (\<lambda>kg. length (snd kg)) ?G) = length df"
    by (rule groupby_length_snd)
  moreover have "sum_list (map (\<lambda>kg. count_result PASS (snd kg)) ?G) = count_result PASS df"
    using groupby_count_snd [of "\<lambda>c. snd c = PASS" "subject_name \<circ> fst" df]
    by (simp add: count_result_filter)
  ultimately show ?thesis using a p by simp
qed

lemma subject_metrics_subjects:
  "map sub_subject (subject_metrics df) = sort (remdups (map (subject_name \<circ> fst) df))"
proof -
  have "map sub_subject (subject_metrics df) = map fst (map snd (enumerate_from 1 (groupby (subject_name \<circ> fst) df)))"
    by (simp add: subject_metrics_def comp_def subject_entry_counts del: map_snd_enumerate_from)
  then show ?thesis by (simp add: groupby_keys)
qed

lemma student_loop_Inr:
  assumes "student_loop cols df = Inr outs"
  shows "map (sm_htno \<circ> so_metric) outs = sort (remdups (map (htno \<circ> fst) df)) \<and>
         sum_list (map (sm_total \<circ> so_metric) outs) = length df \<and>
         sum_list (map (sm_passed \<circ> so_metric) outs) = count_result PASS df \<and>
         map so_failures outs = map (\<lambda>u. (sm_htno (so_metric u), sm_failed (so_metric u))) outs"
proof -
  let ?G = "groupby (htno \<circ> fst) df"
  from assms have outs: "outs = map (\<lambda>x. projr (student_entry cols x)) ?G"
    and ok: "\<forall>x\<in>set ?G. student_entry cols x = Inr (projr (student_entry cols x))"
    using map_py_Inr unfolding student_loop_def by (auto split: if_splits)
  have e: "\<And>x. x \<in> set ?G \<Longrightarrow>
     sm_htno (so_metric (projr (student_entry cols x))) = fst x \<and>
     sm_total (so_metric (projr (student_entry cols x))) = length (snd x) \<and>
     sm_passed (so_metric (projr (student_entry cols x))) = count_result PASS (snd x) \<and>
     so_failures (projr (student_entry cols x)) =
       (sm_htno (so_metric (projr (student_entry cols x))), sm_failed (so_metric (projr (student_entry cols x))))"
  proof -
    fix x assume x: "x \<in> set ?G"
    obtain h g where hg: "x = (h, g)" by (cases x)
    from ok x hg have "student_entry cols (h, g) = Inr (projr (student_entry cols x))" by simp
    from student_entry_fields [OF this] show "?thesis x" using hg by simp
  qed
  have m1: "map (sm_htno \<circ> so_metric) outs = map fst ?G"
    unfolding outs using e by simp
  have m2: "map (sm_total \<circ> so_metric) outs = map (\<lambda>kg. length (snd kg)) ?G"
    unfolding outs using e by simp
  have m3: "map (sm_passed \<circ> so_metric) outs = map (\<lambda>kg. count_result PASS (snd kg)) ?G"
    unfolding outs using e by simp
  have s3: "sum_list (map (\<lambda>kg. count_result PASS (snd kg)) ?G) = count_result PASS df"
    using groupby_count_snd [of "\<lambda>c. snd c = PASS" "htno \<circ> fst" df]
    by (simp add: count_result_filter)
  have m4: "map so_failures outs = map (\<lambda>u. (sm_htno (so_metric u), sm_failed (so_metric u))) outs"
    unfolding outs using e by simp
  show ?thesis using m1 m2 m3 m4 s3 groupby_length_snd [of "htno \<circ> fst" df]
    by (simp add: groupby_keys)
qed

end
