(* ===== verification/Ranking.thy ===== *)
theory Ranking
  imports Aggregate
begin

text \<open>
  The ranker of the analytics application: the subject-wise top five by total
  marks (src/app1.py, lines 181--198) and the overall top five by SGPA (lines
  203--208). Python's \<open>list.sort(key=..., reverse=True)\<close> reverses the list,
  sorts it stably and reverses it again, so equal keys keep their input order;
  pandas' \<open>sort_values(ascending=False)\<close> does the same to the non-NaN values
  (\<open>nargsort\<close>) and puts the NaN rows last in their input order. The theory
  proves that the descending sort is a permutation sorted by descending key that
  keeps ties in input order, that both top-five lists have at most five
  entries ranked 1, 2, \<dots> with non-increasing keys, that no unlisted entry beats
  a listed one, and how ties are ordered.
\<close>

section \<open>Descending sorts\<close>

text \<open>\<open>xs.sort(key=key, reverse=True)\<close> as CPython's \<open>list.sort\<close> implements it.\<close>

definition py_sort_desc :: "('a \<Rightarrow> 'k::linorder) \<Rightarrow> 'a list \<Rightarrow> 'a list" where
  "py_sort_desc key xs = rev (sort_key key (rev xs))"

text \<open>
  \<open>g.sort_values("TOTALMARKS", ascending=False)\<close>: pandas' \<open>nargsort\<close> sorts
  the non-NaN totals as above and appends the NaN rows. The model takes the
  argsort stable; NumPy's default \<open>quicksort\<close> is stable on groups of at most 16
  rows (insertion sort) and leaves the order of equal totals unspecified beyond
  that, which \<open>subject_top5_totals_unique\<close> below shows does not change the
  marks column of the result.
\<close>

definition total_key :: "crow \<Rightarrow> real" where
  "total_key c = (case total_marks (fst c) of Some t \<Rightarrow> t | None \<Rightarrow> 0)"

definition sort_values_desc :: "crow list \<Rightarrow> crow list" where
  "sort_values_desc g =
     py_sort_desc total_key (filter (\<lambda>c. total_marks (fst c) \<noteq> None) g)
     @ filter (\<lambda>c. total_marks (fst c) = None) g"

section \<open>Subject-wise top five\<close>

record subject_rank =
  sr_rank :: nat
  sr_htno :: string
  sr_total :: "real option"

text \<open>Lines 184--196: \<open>head(5)\<close>, \<open>reset_index\<close>, rank \<open>i + 1\<close>.\<close>

definition subject_top5 :: "crow list \<Rightarrow> subject_rank list" where
  "subject_top5 g =
     map (\<lambda>(i, c). \<lparr>sr_rank = i, sr_htno = htno (fst c), sr_total = total_marks (fst c)\<rparr>)
       (enumerate_from 1 (take 5 (sort_values_desc g)))"

text \<open>Lines 181--198: one entry of \<open>subject_wise_top5\<close> per subject, in groupby order.\<close>

definition subject_wise_top5 :: "crow list \<Rightarrow> (string \<times> subject_rank list) list" where
  "subject_wise_top5 df = map (\<lambda>(s, g). (s, subject_top5 g)) (groupby (subject_name \<circ> fst) df)"

section \<open>Overall top five\<close>

record ranked_entry =
  re_rank :: nat
  re_htno :: string
  re_sgpa :: real

text \<open>Lines 203--208: sort by SGPA, descending; keep five; set \<open>Rank\<close>.\<close>

definition top5_rank_list :: "rank_entry list \<Rightarrow> ranked_entry list" where
  "top5_rank_list rank_list =
     map (\<lambda>(i, r). \<lparr>re_rank = i, re_htno = rk_htno r, re_sgpa = rk_sgpa r\<rparr>)
       (enumerate_from 1 (take 5 (py_sort_desc rk_sgpa rank_list)))"

text \<open>A ranked entry without its rank.\<close>

definition unrank :: "ranked_entry \<Rightarrow> rank_entry" where
  "unrank e = \<lparr>rk_htno = re_htno e, rk_sgpa = re_sgpa e\<rparr>"

text \<open>The order of the marks column: numbers descending, NaN last.\<close>

definition na_last_key :: "real option \<Rightarrow> bool \<times> real" where
  "na_last_key t = (case t of None \<Rightarrow> (True, 0) | Some x \<Rightarrow> (False, - x))"

section \<open>Examples\<close>

abbreviation ex_rank :: "string \<Rightarrow> real \<Rightarrow> rank_entry" where
  "ex_rank h s \<equiv> \<lparr>rk_htno = h, rk_sgpa = s\<rparr>"

text \<open>Six students in roll-number order, two pairs with equal SGPA.\<close>

abbreviation ex_rank_list :: "rank_entry list" where
  "ex_rank_list \<equiv> [ex_rank ''A'' 8, ex_rank ''B'' 9, ex_rank ''C'' 8, ex_rank ''D'' 7,
                    ex_rank ''E'' 9, ex_rank ''F'' 6]"

abbreviation ex_total :: "string \<Rightarrow> real option \<Rightarrow> crow" where
  "ex_total h t \<equiv> (\<lparr>htno = h, subject_name = ''MATHS'', internal_marks = Some 20, external_marks = Some 30,
      total_marks = t, grade_points = None, credits = None\<rparr>, PASS)"

text \<open>One subject's rows: a tie at 50, a NaN total, six rows in all.\<close>

abbreviation ex_subject :: "crow list" where
  "ex_subject \<equiv> [ex_total ''A'' (Some 50), ex_total ''B'' None, ex_total ''C'' (Some 70),
                  ex_total ''D'' (Some 50), ex_total ''E'' (Some 40), ex_total ''F'' (Some 45)]"

section \<open>Properties of the ranker\<close>

lemma mset_py_sort_desc [simp]: "mset (py_sort_desc key xs) = mset xs"
  by (simp add: py_sort_desc_def)

lemma length_py_sort_desc [simp]: "length (py_sort_desc key xs) = length xs"
  by (simp add: py_sort_desc_def)

lemma set_py_sort_desc [simp]: "set (py_sort_desc key xs) = set xs"
  by (metis mset_py_sort_desc set_mset_mset)

lemma py_sort_desc_sorted: "sorted_wrt (\<ge>) (map key (py_sort_desc key xs))"
proof -
  have "sorted (map key (sort_key key (rev xs)))" by simp
  then show ?thesis by (simp add: py_sort_desc_def rev_map [symmetric] sorted_wrt_rev)
qed

lemma py_sort_desc_stable:
  "filter (\<lambda>y. key y = k) (py_sort_desc key xs) = filter (\<lambda>y. key y = k) xs"
  by (simp add: py_sort_desc_def rev_filter [symmetric] sort_key_stable)

lemma py_sort_desc_ties:
  "sorted_wrt R xs \<Longrightarrow> sorted_wrt (\<lambda>a b. key a = key b \<longrightarrow> R a b) (py_sort_desc key xs)"
  by (simp add: sorted_wrt_eq_key_filter py_sort_desc_stable sorted_wrt_filter)

lemma unrank_entry [simp]: "unrank \<lparr>re_rank = i, re_htno = rk_htno r, re_sgpa = rk_sgpa r\<rparr> = r"
  by (simp add: unrank_def)

lemma na_last_key_inj: "inj na_last_key"
  by (auto simp: inj_def na_last_key_def split: option.splits)

lemma mset_sort_values_desc [simp]: "mset (sort_values_desc g) = mset g"
  by (simp add: sort_values_desc_def)

lemma length_sort_values_desc [simp]: "length (sort_values_desc g) = length g"
  by (metis mset_sort_values_desc size_mset)

lemma sort_values_desc_sorted:
  "sorted (map (\<lambda>c. na_last_key (total_marks (fst c))) (sort_values_desc g))"
proof -
  let ?A = "filter (\<lambda>c. total_marks (fst c) \<noteq> None) g"
  let ?B = "filter (\<lambda>c. total_marks (fst c) = None) g"
  let ?K = "\<lambda>c. na_last_key (total_marks (fst c))"
  have k: "\<And>c. c \<in> set (py_sort_desc total_key ?A) \<Longrightarrow> ?K c = (False, - total_key c)"
    by (auto simp: na_last_key_def total_key_def)
  have "sorted_wrt (\<ge>) (map total_key (py_sort_desc total_key ?A))" by (rule py_sort_desc_sorted)
  then have s: "sorted (map (\<lambda>c. (False, - total_key c)) (py_sort_desc total_key ?A))"
    by (simp add: sorted_map sorted_wrt_map)
  have eq: "map ?K (py_sort_desc total_key ?A) = map (\<lambda>c. (False, - total_key c)) (py_sort_desc total_key ?A)"
    using k by (rule map_cong [OF refl])
  have a: "sorted (map ?K (py_sort_desc total_key ?A))" by (subst eq) (rule s)
  have b: "\<And>c. c \<in> set ?B \<Longrightarrow> ?K c = (True, 0)"
    by (simp add: na_last_key_def)
  have eqB: "map ?K ?B = map (\<lambda>c. (True, 0)) ?B" using b by (rule map_cong [OF refl])
  have sB: "sorted (map (\<lambda>c. (True, 0::real)) ?B)" by (simp add: sorted_iff_nth_mono)
  have "sorted (map ?K ?B)" by (subst eqB) (rule sB)
  moreover have "\<forall>x\<in>set (py_sort_desc total_key ?A). \<forall>y\<in>set ?B. ?K x \<le> ?K y"
    using k b by simp
  ultimately show ?thesis using a
    by (simp add: sort_values_desc_def sorted_append del: set_py_sort_desc)
qed

lemmas rank_eval = top5_rank_list_def py_sort_desc_def enumerate_from_def unrank_def

lemma ex_rank_sorted:
  "py_sort_desc rk_sgpa ex_rank_list
   = [ex_rank ''B'' 9, ex_rank ''E'' 9, ex_rank ''A'' 8, ex_rank ''C'' 8, ex_rank ''D'' 7, ex_rank ''F'' 6]"
  by (simp add: py_sort_desc_def)

lemma ex_subject_sorted:
  "sort_values_desc ex_subject
   = [ex_total ''C'' (Some 70), ex_total ''A'' (Some 50), ex_total ''D'' (Some 50),
      ex_total ''F'' (Some 45), ex_total ''E'' (Some 40), ex_total ''B'' None]"
  by (simp add: sort_values_desc_def py_sort_desc_def total_key_def)

lemma top5_rank_list_shape:
  "length (top5_rank_list rl) = min 5 (length rl) \<and>
   map re_rank (top5_rank_list rl) = [1..<length (top5_rank_list rl) + 1] \<and>
   sorted_wrt (\<ge>) (map re_sgpa (top5_rank_list rl)) \<and>
   map unrank (top5_rank_list rl) = take 5 (py_sort_desc rk_sgpa rl)"
proof -
  let ?T = "take 5 (py_sort_desc rk_sgpa rl)"
  have u: "map unrank (top5_rank_list rl) = ?T"
    by (simp add: top5_rank_list_def comp_def case_prod_beta)
  have r: "map re_rank (top5_rank_list rl) = [1..<length ?T + 1]"
    by (simp add: top5_rank_list_def comp_def case_prod_beta map_fst_enumerate_from [unfolded comp_def])
  have "sorted_wrt (\<ge>) (map rk_sgpa ?T)"
    using py_sort_desc_sorted [of rk_sgpa rl] by (simp add: take_map [symmetric] sorted_wrt_take)
  moreover have "map re_sgpa (top5_rank_list rl) = map rk_sgpa ?T"
    by (simp add: top5_rank_list_def comp_def case_prod_beta map_enumerate_from_snd [of rk_sgpa])
  ultimately show ?thesis using u r by (simp add: top5_rank_list_def)
qed


text \<open>
  C8: The overall top-five list has \<open>min 5 n\<close> entries for \<open>n\<close> students,
  ranks 1, 2, \<dots> in order, non-increasing SGPA, and its entries are the first
  five of the descending sort of the rank list.
\<close>

theorem top5_rank_list_props:
  "length (top5_rank_list rl) = min 5 (length rl) \<and>
   map re_rank (top5_rank_list rl) = [1..<length (top5_rank_list rl) + 1] \<and>
   sorted_wrt (\<ge>) (map re_sgpa (top5_rank_list rl)) \<and>
   map unrank (top5_rank_list rl) = take 5 (py_sort_desc rk_sgpa rl)"
  by (rule top5_rank_list_shape)

text \<open>
  C9: No student left out of the overall top five has a higher SGPA than a
  student in it.
\<close>

theorem top5_rank_list_best:
  assumes "r \<in># mset rl - mset (map unrank (top5_rank_list rl))"
    and "e \<in> set (top5_rank_list rl)"
  shows "rk_sgpa r \<le> re_sgpa e"
proof -
  let ?S = "py_sort_desc rk_sgpa rl"
  have u: "map unrank (top5_rank_list rl) = take 5 ?S"
    using top5_rank_list_shape [of rl] by blast
  have "mset rl = mset (take 5 ?S) + mset (drop 5 ?S)"
    by (simp flip: mset_append)
  with assms(1) u have r: "r \<in> set (drop 5 ?S)"
    by (metis add_diff_cancel_left' set_mset_mset)
  from assms(2) have "unrank e \<in> set (map unrank (top5_rank_list rl))" by simp
  with u have e: "unrank e \<in> set (take 5 ?S)" by simp
  have "rk_sgpa r \<le> rk_sgpa (unrank e)"
    by (rule sorted_desc_take_drop [OF py_sort_desc_sorted r e])
  then show ?thesis by (simp add: unrank_def)
qed

theorem top5_rank_list_best_witness:
  "rk_sgpa (ex_rank ''F'' 6) \<le> re_sgpa (hd (top5_rank_list ex_rank_list))"
proof -
  have t: "top5_rank_list ex_rank_list =
    [\<lparr>re_rank = 1, re_htno = ''B'', re_sgpa = 9\<rparr>, \<lparr>re_rank = 2, re_htno = ''E'', re_sgpa = 9\<rparr>,
     \<lparr>re_rank = 3, re_htno = ''A'', re_sgpa = 8\<rparr>, \<lparr>re_rank = 4, re_htno = ''C'', re_sgpa = 8\<rparr>,
     \<lparr>re_rank = 5, re_htno = ''D'', re_sgpa = 7\<rparr>]"
    by (simp add: top5_rank_list_def ex_rank_sorted enumerate_from_def)
  have r: "ex_rank ''F'' 6 \<in># mset ex_rank_list - mset (map unrank (top5_rank_list ex_rank_list))"
    by (simp add: t unrank_def)
  have e: "hd (top5_rank_list ex_rank_list) \<in> set (top5_rank_list ex_rank_list)"
    by (simp add: t)
  show ?thesis by (rule top5_rank_list_best [OF r e])
qed

text \<open>
  C13: Ties in the overall ranking are broken by the order of the rank list:
  when it lists students by increasing roll number (as \<open>groupby\<close> does), equal
  SGPAs appear in the top five by increasing roll number.
\<close>

theorem top5_rank_list_ties:
  assumes "sorted_wrt (\<lambda>a b. rk_htno a < rk_htno b) rl"
  shows "sorted_wrt (\<lambda>a b. re_sgpa a = re_sgpa b \<longrightarrow> re_htno a < re_htno b) (top5_rank_list rl)"
proof -
  let ?S = "py_sort_desc rk_sgpa rl"
  have "sorted_wrt (\<lambda>a b. rk_sgpa a = rk_sgpa b \<longrightarrow> rk_htno a < rk_htno b) ?S"
    using assms by (rule py_sort_desc_ties)
  then have "sorted_wrt (\<lambda>a b. rk_sgpa a = rk_sgpa b \<longrightarrow> rk_htno a < rk_htno b) (take 5 ?S)"
    by (rule sorted_wrt_take)
  then have "sorted_wrt (\<lambda>a b. rk_sgpa a = rk_sgpa b \<longrightarrow> rk_htno a < rk_htno b)
               (map unrank (top5_rank_list rl))"
    using top5_rank_list_shape [of rl] by simp
  then show ?thesis by (simp add: sorted_wrt_map unrank_def)
qed

theorem top5_rank_list_ties_witness:
  "map re_htno (top5_rank_list ex_rank_list) = [''B'', ''E'', ''A'', ''C'', ''D''] \<and>
   sorted_wrt (\<lambda>a b. re_sgpa a = re_sgpa b \<longrightarrow> re_htno a < re_htno b) (top5_rank_list ex_rank_list)"
proof -
  have s: "sorted_wrt (\<lambda>a b. rk_htno a < rk_htno b) ex_rank_list" by simp
  have "map re_htno (top5_rank_list ex_rank_list) = [''B'', ''E'', ''A'', ''C'', ''D'']"
    by (simp add: top5_rank_list_def ex_rank_sorted enumerate_from_def)
  then show ?thesis using top5_rank_list_ties [OF s] by simp
qed

lemma subject_top5_shape:
  "length (subject_top5 g) = min 5 (length g) \<and>
   map sr_rank (subject_top5 g) = [1..<length (subject_top5 g) + 1] \<and>
   sorted (map (na_last_key \<circ> sr_total) (subject_top5 g)) \<and>
   map (\<lambda>e. (sr_htno e, sr_total e)) (subject_top5 g)
     = map (\<lambda>c. (htno (fst c), total_marks (fst c))) (take 5 (sort_values_desc g))"
proof -
  let ?T = "take 5 (sort_values_desc g)"
  have p: "map (\<lambda>e. (sr_htno e, sr_total e)) (subject_top5 g) = map (\<lambda>c. (htno (fst c), total_marks (fst c))) ?T"
    by (simp add: subject_top5_def comp_def case_prod_beta
        map_enumerate_from_snd [of "\<lambda>c. (htno (fst c), total_marks (fst c))"])
  have r: "map sr_rank (subject_top5 g) = [1..<length ?T + 1]"
    by (simp add: subject_top5_def comp_def case_prod_beta map_fst_enumerate_from [unfolded comp_def])
  have t: "map (na_last_key \<circ> sr_total) (subject_top5 g) = map (\<lambda>c. na_last_key (total_marks (fst c))) ?T"
    by (simp add: subject_top5_def comp_def case_prod_beta
        map_enumerate_from_snd [of "\<lambda>c. na_last_key (total_marks (fst c))"])
  have "sorted (map (\<lambda>c. na_last_key (total_marks (fst c))) ?T)"
    using sort_values_desc_sorted [of g] by (simp add: take_map [symmetric] sorted_wrt_take)
  then show ?thesis using p r t by (simp add: subject_top5_def)
qed


text \<open>
  A subject's top-five list has \<open>min 5 n\<close> entries for \<open>n\<close> rows, ranks
  1, 2, \<dots> in order, totals non-increasing with missing totals last, and its
  entries are the first five rows of the descending sort.
\<close>

theorem subject_top5_props:
  "length (subject_top5 g) = min 5 (length g) \<and>
   map sr_rank (subject_top5 g) = [1..<length (subject_top5 g) + 1] \<and>
   sorted (map (na_last_key \<circ> sr_total) (subject_top5 g)) \<and>
   map (\<lambda>e. (sr_htno e, sr_total e)) (subject_top5 g)
     = map (\<lambda>c. (htno (fst c), total_marks (fst c))) (take 5 (sort_values_desc g))"
  by (rule subject_top5_shape)

text \<open>
  C10: No row of a subject left out of its top five has a higher total than a
  listed row (a missing total counting lowest).
\<close>

theorem subject_top5_best:
  assumes "c \<in># mset g - mset (take 5 (sort_values_desc g))"
    and "e \<in> set (subject_top5 g)"
  shows "na_last_key (sr_total e) \<le> na_last_key (total_marks (fst c))"
proof -
  let ?S = "sort_values_desc g"
  let ?K = "\<lambda>c. na_last_key (total_marks (fst c))"
  have "mset g = mset (take 5 ?S) + mset (drop 5 ?S)"
    by (simp flip: mset_append)
  with assms(1) have c: "c \<in> set (drop 5 ?S)"
    by (metis add_diff_cancel_left' set_mset_mset)
  have "(sr_htno e, sr_total e) \<in> set (map (\<lambda>e. (sr_htno e, sr_total e)) (subject_top5 g))"
    using assms(2) by simp
  then obtain d where d: "d \<in> set (take 5 ?S)" and de: "sr_total e = total_marks (fst d)"
    using subject_top5_shape [of g] by auto
  have "sorted_wrt (\<le>) (map ?K (take 5 ?S) @ map ?K (drop 5 ?S))"
    using sort_values_desc_sorted [of g] by (simp add: sorted_wrt_iff_nth_less [symmetric]
        map_append [symmetric] del: map_append)
  then have "?K d \<le> ?K c" using c d by (auto simp: sorted_wrt_append)
  then show ?thesis using de by simp
qed

theorem subject_top5_best_witness:
  "na_last_key (sr_total (hd (subject_top5 ex_subject))) \<le> na_last_key (Some 40)"
proof -
  have c: "ex_total ''B'' None \<in># mset ex_subject - mset (take 5 (sort_values_desc ex_subject))"
    by (simp add: ex_subject_sorted)
  have e: "hd (subject_top5 ex_subject) \<in> set (subject_top5 ex_subject)"
    by (simp add: subject_top5_def ex_subject_sorted enumerate_from_def)
  have "na_last_key (sr_total (hd (subject_top5 ex_subject))) \<le> na_last_key None"
    using subject_top5_best [OF c e] by simp
  then show ?thesis by (simp add: subject_top5_def ex_subject_sorted enumerate_from_def na_last_key_def)
qed

text \<open>
  C14: The order pandas' unstable quicksort gives to equal totals does not
  matter for the marks column: any permutation of a subject's rows sorted by
  non-increasing total with missing totals last has the same first five totals
  as the modelled stable sort.
\<close>

theorem subject_top5_totals_unique:
  assumes "mset ys = mset g"
    and "sorted (map (\<lambda>c. na_last_key (total_marks (fst c))) ys)"
  shows "map (\<lambda>c. total_marks (fst c)) (take 5 ys) = map sr_total (subject_top5 g)"
proof -
  let ?K = "\<lambda>c. na_last_key (total_marks (fst c))"
  let ?S = "sort_values_desc g"
  have "sort (map ?K g) = map ?K ys"
    by (rule properties_for_sort) (simp_all add: assms)
  moreover have "sort (map ?K g) = map ?K ?S"
    by (rule properties_for_sort) (simp_all add: sort_values_desc_sorted)
  ultimately have "map na_last_key (map (\<lambda>c. total_marks (fst c)) ys)
                 = map na_last_key (map (\<lambda>c. total_marks (fst c)) ?S)"
    by (simp add: comp_def)
  then have eq: "map (\<lambda>c. total_marks (fst c)) ys = map (\<lambda>c. total_marks (fst c)) ?S"
    using inj_map_eq_map [OF na_last_key_inj] by blast
  have "map sr_total (subject_top5 g) = map snd (map (\<lambda>e. (sr_htno e, sr_total e)) (subject_top5 g))"
    by simp
  also have "\<dots> = map (\<lambda>c. total_marks (fst c)) (take 5 ?S)"
    using subject_top5_shape [of g] by simp
  finally show ?thesis using eq by (simp add: take_map [symmetric])
qed

theorem subject_top5_totals_unique_witness:
  "map sr_total (subject_top5 ex_subject) = [Some 70, Some 50, Some 50, Some 45, Some 40]"
proof -
  let ?ys = "[ex_total ''C'' (Some 70), ex_total ''D'' (Some 50), ex_total ''A'' (Some 50),
      ex_total ''F'' (Some 45), ex_total ''E'' (Some 40), ex_total ''B'' None]"
  have m: "mset ?ys = mset ex_subject" by simp
  have s: "sorted (map (\<lambda>c. na_last_key (total_marks (fst c))) ?ys)" by (simp add: na_last_key_def)
  show ?thesis using subject_top5_totals_unique [OF m s] by simp
qed

end
