(* ===== verification/Export.thy ===== *)
theory Export
  imports Ranking
begin

text \<open>
  The exporter of the analytics application (src/app1.py, lines 233--240): a
  \<open>pd.ExcelWriter\<close> with the openpyxl engine receives the overall top five
  as sheet \<open>"Top 5 Overall Ranks"\<close> and each subject's top five as a sheet named
  by the first 30 characters of the subject. A workbook is the list of its sheets
  in creation order, each a name and its rows of cells. Writing to a sheet name
  the writer has already created writes over that sheet's cells from the top
  left (pandas keeps the sheet); a new sheet is created under a default title and
  then renamed, and openpyxl rejects a title containing one of
  \<open>\ * ? : / [ ]\<close> with \<open>ValueError\<close> after the sheet exists; leaving the
  \<open>with\<close> block saves the workbook even then. The theory proves that, with valid and distinct sheet
  names, every table can be read back from its sheet, and shows the two ways the
  export goes wrong: a shared 30-character prefix merges two subjects' sheets, and
  an invalid character leaves a partial file that is saved all the same.
\<close>

section \<open>Workbooks\<close>

datatype xl_value = XStr string | XNum real | XInt nat | XBlank

type_synonym table = "xl_value list list"

record workbook =
  wb_sheets :: "(string \<times> table) list"

text \<open>Writing cells over an existing sheet: row by row, cell by cell.\<close>

fun overlay :: "'a list list \<Rightarrow> 'a list list \<Rightarrow> 'a list list" where
  "overlay [] old = old"
| "overlay (n # ns) [] = n # overlay ns []"
| "overlay (n # ns) (x # xs) = (n @ drop (length n) x) # overlay ns xs"

text \<open>openpyxl's \<open>INVALID_TITLE_REGEX\<close>, \<open>[\\*?:/\[\]]\<close>.\<close>

definition invalid_title_char :: "char \<Rightarrow> bool" where
  "invalid_title_char c \<longleftrightarrow> c = CHR 0x5C \<or> c \<in> set ''*?:/[]''"

definition valid_title :: "string \<Rightarrow> bool" where
  "valid_title t \<longleftrightarrow> \<not> (\<exists>c\<in>set t. invalid_title_char c)"

text \<open>
  openpyxl's \<open>avoid_duplicate_name\<close>: a title equal, ignoring case, to an
  existing one gets the next free number appended, one more than the largest
  number that follows the title in an existing name (the library finds these
  with an unanchored regular expression over the joined names; here a number
  counts when the name is the title followed by digits, the only names the
  exporter produces).
\<close>

definition dup_suffixes :: "string list \<Rightarrow> string \<Rightarrow> nat list" where
  "dup_suffixes names v =
     [digits_val (drop (length v) n).
        n \<leftarrow> names, py_lower (take (length v) n) = py_lower v \<and> drop (length v) n \<noteq> []
                   \<and> (\<forall>c\<in>set (drop (length v) n). is_digit c)]"

definition avoid_duplicate_name :: "string list \<Rightarrow> string \<Rightarrow> string" where
  "avoid_duplicate_name names v =
     (if \<exists>n\<in>set names. py_lower n = py_lower v
      then v @ nat_str (max_or0 (dup_suffixes names v) + 1) else v)"

text \<open>
  \<open>df.to_excel(writer, sheet_name, index=False)\<close> with pandas' openpyxl writer
  (\<open>_write_cells\<close>): a name the writer already has selects that sheet, whose
  cells are written over; otherwise \<open>book.create_sheet()\<close> appends a sheet with
  the default title \<open>Sheet\<close> (deduplicated), and \<open>wks.title = sheet_name\<close> then
  rejects an empty or invalid title with \<open>ValueError\<close> (naming the first
  invalid character), leaving the blank
  sheet behind, or renames the sheet, deduplicated against every title including
  its own. The result is the workbook after the call and the exception, if any.
\<close>

definition write_sheet :: "string \<Rightarrow> table \<Rightarrow> workbook \<Rightarrow> workbook \<times> py_error option" where
  "write_sheet name t wb =
     (case map_of (wb_sheets wb) name of
        Some old \<Rightarrow> (wb\<lparr>wb_sheets := map (\<lambda>(n, x). if n = name then (n, overlay t old) else (n, x))
                                              (wb_sheets wb)\<rparr>, None)
      | None \<Rightarrow>
          (let names = map fst (wb_sheets wb);
               tmp = avoid_duplicate_name names ''Sheet'';
               blank = wb\<lparr>wb_sheets := wb_sheets wb @ [(tmp, [])]\<rparr>
           in if name = [] then (blank, Some (ValueError ''Title must have at least one character''))
              else if \<not> valid_title name
              then (blank, Some (ValueError (''Invalid character '' @ [hd (filter invalid_title_char name)] @
                                             '' found in sheet title'')))
              else (wb\<lparr>wb_sheets := wb_sheets wb @
                      [(if tmp = name then name else avoid_duplicate_name (names @ [tmp]) name, t)]\<rparr>,
                    None)))"

section \<open>Tables\<close>

text \<open>
  \<open>pd.DataFrame(top5_rank_list)\<close>: the columns are the dictionary keys in
  insertion order, \<open>HTNO\<close>, \<open>SGPA\<close>, then \<open>Rank\<close>; an empty list gives an empty
  frame, written as an empty sheet.
\<close>

definition overall_table :: "ranked_entry list \<Rightarrow> table" where
  "overall_table es =
     (if es = [] then []
      else [XStr ''HTNO'', XStr ''SGPA'', XStr ''Rank'']
           # map (\<lambda>e. [XStr (re_htno e), XNum (re_sgpa e), XInt (re_rank e)]) es)"

definition mark_cell :: "real option \<Rightarrow> xl_value" where
  "mark_cell t = (case t of None \<Rightarrow> XBlank | Some x \<Rightarrow> XNum x)"

definition subject_table :: "subject_rank list \<Rightarrow> table" where
  "subject_table rs =
     (if rs = [] then []
      else [XStr ''Rank'', XStr ''HTNO'', XStr ''TOTALMARKS'']
           # map (\<lambda>r. [XInt (sr_rank r), XStr (sr_htno r), mark_cell (sr_total r)]) rs)"

section \<open>The export\<close>

text \<open>Line 239: \<open>subject[:30]\<close>.\<close>

definition sheet_name :: "string \<Rightarrow> string" where
  "sheet_name subject = take 30 subject"

definition overall_sheet :: string where
  "overall_sheet = ''Top 5 Overall Ranks''"

text \<open>The sheets in the order lines 235--240 write them.\<close>

definition export_plan :: "ranked_entry list \<Rightarrow> (string \<times> subject_rank list) list \<Rightarrow> (string \<times> table) list" where
  "export_plan top5 subject_wise =
     (overall_sheet, overall_table top5)
     # map (\<lambda>(s, d). (sheet_name s, subject_table d)) subject_wise"

text \<open>
  The \<open>with\<close> block: write the sheets in order; the first exception stops the
  writing, and the workbook as that call left it is saved anyway. The result is the
  saved workbook and the exception, if any.
\<close>

fun write_all :: "(string \<times> table) list \<Rightarrow> workbook \<Rightarrow> workbook \<times> py_error option" where
  "write_all [] wb = (wb, None)"
| "write_all ((n, t) # rest) wb =
     (case write_sheet n t wb of
        (wb', Some e) \<Rightarrow> (wb', Some e)
      | (wb', None) \<Rightarrow> write_all rest wb')"

definition export_excel :: "ranked_entry list \<Rightarrow> (string \<times> subject_rank list) list \<Rightarrow> workbook \<times> py_error option" where
  "export_excel top5 subject_wise = write_all (export_plan top5 subject_wise) \<lparr>wb_sheets = []\<rparr>"

text \<open>
  The condition under which every sheet of a plan is created under its own name:
  the names, with those the workbook already has, are distinct ignoring case,
  none is \<open>sheet\<close> ignoring case, and each is a non-empty valid title.
\<close>

definition fresh_sheets :: "string list \<Rightarrow> (string \<times> table) list \<Rightarrow> bool" where
  "fresh_sheets names ps \<longleftrightarrow>
     distinct (map py_lower (names @ map fst ps)) \<and>
     (\<forall>n\<in>set (names @ map fst ps). py_lower n \<noteq> ''sheet'') \<and>
     (\<forall>n\<in>set (map fst ps). n \<noteq> [] \<and> valid_title n)"

section \<open>Properties of the export\<close>

lemma py_lower_Sheet: "py_lower ''Sheet'' = ''sheet''"
  by (simp add: py_lower_def lower_char_def py_defs)

lemma avoid_duplicate_name_fresh:
  "\<forall>n\<in>set names. py_lower n \<noteq> py_lower v \<Longrightarrow> avoid_duplicate_name names v = v"
  by (auto simp: avoid_duplicate_name_def)

lemma map_of_lower_None:
  "\<forall>n\<in>set (map fst xs). py_lower n \<noteq> py_lower v \<Longrightarrow> map_of xs v = None"
  by (induction xs) auto

lemma write_sheet_fresh:
  assumes "\<forall>n\<in>set (map fst (wb_sheets wb)). py_lower n \<noteq> py_lower name"
    and "\<forall>n\<in>set (map fst (wb_sheets wb)). py_lower n \<noteq> ''sheet''"
    and "py_lower name \<noteq> ''sheet''" and "name \<noteq> []" and "valid_title name"
  shows "write_sheet name t wb = (wb\<lparr>wb_sheets := wb_sheets wb @ [(name, t)]\<rparr>, None)"
proof -
  have none: "map_of (wb_sheets wb) name = None" using assms(1) by (rule map_of_lower_None)
  have tmp: "avoid_duplicate_name (map fst (wb_sheets wb)) ''Sheet'' = ''Sheet''"
    using assms(2) by (intro avoid_duplicate_name_fresh) (simp add: py_lower_Sheet)
  have ren: "avoid_duplicate_name (map fst (wb_sheets wb) @ [''Sheet'']) name = name"
    using assms(1,3) by (intro avoid_duplicate_name_fresh) (auto simp: py_lower_Sheet)
  show ?thesis using assms(4,5) by (simp add: write_sheet_def none tmp ren Let_def)
qed

lemma write_all_fresh:
  "fresh_sheets (map fst (wb_sheets wb)) ps \<Longrightarrow>
   write_all ps wb = (wb\<lparr>wb_sheets := wb_sheets wb @ ps\<rparr>, None)"
proof (induction ps arbitrary: wb)
  case Nil show ?case by simp
next
  case (Cons p ps)
  obtain n t where p: "p = (n, t)" by fastforce
  have f: "fresh_sheets (map fst (wb_sheets wb)) ((n, t) # ps)" using Cons.prems p by simp
  have d: "py_lower n \<notin> set (map py_lower (map fst (wb_sheets wb)))"
    using f unfolding fresh_sheets_def by (simp only: map_append list.map distinct_append) simp
  have w: "write_sheet n t wb = (wb\<lparr>wb_sheets := wb_sheets wb @ [(n, t)]\<rparr>, None)"
  proof (rule write_sheet_fresh)
    show "\<forall>m\<in>set (map fst (wb_sheets wb)). py_lower m \<noteq> py_lower n"
      using d by (metis image_eqI set_map)
  qed (use f in \<open>simp_all add: fresh_sheets_def\<close>)
  have "fresh_sheets (map fst (wb_sheets wb @ [(n, t)])) ps"
    using f by (simp add: fresh_sheets_def)
  then show ?case using Cons.IH [of "wb\<lparr>wb_sheets := wb_sheets wb @ [(n, t)]\<rparr>"] by (simp add: p w)
qed

lemma write_all_append:
  "write_all (ps @ qs) wb =
     (case write_all ps wb of (wb', None) \<Rightarrow> write_all qs wb' | r \<Rightarrow> r)"
  by (induction ps wb rule: write_all.induct) (auto split: prod.splits option.splits)

lemma overall_sheet_ok: "overall_sheet \<noteq> [] \<and> valid_title overall_sheet \<and> py_lower overall_sheet \<noteq> ''sheet''"
  by (simp add: overall_sheet_def valid_title_def invalid_title_char_def py_lower_def lower_char_def py_defs)

lemma export_excel_ok:
  assumes "distinct (map py_lower (overall_sheet # map (sheet_name \<circ> fst) sw))"
    and "\<forall>(s, d)\<in>set sw. sheet_name s \<noteq> [] \<and> valid_title (sheet_name s) \<and> py_lower (sheet_name s) \<noteq> ''sheet''"
  shows "export_excel top5 sw = (\<lparr>wb_sheets = export_plan top5 sw\<rparr>, None)"
proof -
  have "fresh_sheets [] (export_plan top5 sw)"
    using assms overall_sheet_ok
    by (auto simp: fresh_sheets_def export_plan_def comp_def split_def)
  then have "write_all (export_plan top5 sw) \<lparr>wb_sheets = []\<rparr>
              = (\<lparr>wb_sheets = []\<rparr>\<lparr>wb_sheets := wb_sheets \<lparr>wb_sheets = []\<rparr> @ export_plan top5 sw\<rparr>, None)"
    by (intro write_all_fresh) simp
  then show ?thesis by (simp add: export_excel_def)
qed


lemma export_plan_Cons_append:
  "export_plan top5 (pre @ (s, d) # post) =
     export_plan top5 pre @ (sheet_name s, subject_table d) # map (\<lambda>(s, d). (sheet_name s, subject_table d)) post"
  by (simp add: export_plan_def)

text \<open>
  C19: When the overall sheet's name and the subjects' 30-character sheet names are
  distinct ignoring case, are valid titles, and none is \<open>sheet\<close> ignoring case,
  the export raises nothing and every table can be read back from its sheet:
  the overall top five from \<open>Top 5 Overall Ranks\<close> and each subject's top five
  from the sheet named by its first 30 characters.
\<close>

lemma export_excel_roundtrip:
  assumes "distinct (map py_lower (overall_sheet # map (sheet_name \<circ> fst) sw))"
    and "\<forall>(s, d)\<in>set sw. sheet_name s \<noteq> [] \<and> valid_title (sheet_name s) \<and> py_lower (sheet_name s) \<noteq> ''sheet''"
  shows "snd (export_excel top5 sw) = None \<and>
         map_of (wb_sheets (fst (export_excel top5 sw))) overall_sheet = Some (overall_table top5) \<and>
         (\<forall>(s, d)\<in>set sw. map_of (wb_sheets (fst (export_excel top5 sw))) (sheet_name s) = Some (subject_table d))"
proof -
  have e: "export_excel top5 sw = (\<lparr>wb_sheets = export_plan top5 sw\<rparr>, None)"
    using assms by (rule export_excel_ok)
  have "distinct (map fst (export_plan top5 sw))"
    using distinct_map [THEN iffD1, THEN conjunct1, OF assms(1)]
    by (simp add: export_plan_def comp_def split_def)
  then have "\<forall>(n, t)\<in>set (export_plan top5 sw). map_of (export_plan top5 sw) n = Some t"
    by auto
  then show ?thesis by (auto simp: e export_plan_def)
qed

lemma export_excel_roundtrip_witness:
  "snd (export_excel [] [(''MATHS'', []), (''PHYSICS'', [])]) = None \<and>
   map_of (wb_sheets (fst (export_excel [] [(''MATHS'', []), (''PHYSICS'', [])]))) ''PHYSICS'' = Some []"
proof -
  have h1: "distinct (map py_lower (overall_sheet # map (sheet_name \<circ> fst) [(''MATHS'', [] :: subject_rank list), (''PHYSICS'', [])]))"
    and h2: "\<forall>(s, d)\<in>set [(''MATHS'', [] :: subject_rank list), (''PHYSICS'', [])].
               sheet_name s \<noteq> [] \<and> valid_title (sheet_name s) \<and> py_lower (sheet_name s) \<noteq> ''sheet''"
    by (simp_all add: overall_sheet_def sheet_name_def valid_title_def invalid_title_char_def
                      py_lower_def lower_char_def py_defs)
  have r: "snd (export_excel [] [(''MATHS'', []), (''PHYSICS'', [])]) = None \<and>
           map_of (wb_sheets (fst (export_excel [] [(''MATHS'', []), (''PHYSICS'', [])]))) (sheet_name ''PHYSICS'')
             = Some (subject_table [])"
    using export_excel_roundtrip [OF h1 h2, of "[]"] by simp
  then show ?thesis by (simp add: sheet_name_def subject_table_def)
qed

text \<open>
  C20: A subject whose sheet name holds one of \<open>\ * ? : / [ ]\<close> stops the export
  with \<open>ValueError\<close>; the file saved on leaving the \<open>with\<close> block holds the
  sheets written before it and a blank sheet \<open>Sheet\<close>, and none of the later
  subjects.
\<close>

lemma export_excel_invalid_title:
  assumes "distinct (map py_lower (overall_sheet # map (sheet_name \<circ> fst) pre))"
    and "\<forall>(s, d)\<in>set pre. sheet_name s \<noteq> [] \<and> valid_title (sheet_name s) \<and> py_lower (sheet_name s) \<noteq> ''sheet''"
    and "sheet_name s \<noteq> []" and "\<not> valid_title (sheet_name s)"
  shows "export_excel top5 (pre @ (s, d) # post) =
           (\<lparr>wb_sheets = export_plan top5 pre @ [(''Sheet'', [])]\<rparr>,
            Some (ValueError (''Invalid character '' @ [hd (filter invalid_title_char (sheet_name s))] @
                              '' found in sheet title'')))"
proof -
  have pre: "write_all (export_plan top5 pre) \<lparr>wb_sheets = []\<rparr> = (\<lparr>wb_sheets = export_plan top5 pre\<rparr>, None)"
    using export_excel_ok [OF assms(1,2)] by (simp add: export_excel_def)
  have valid: "\<forall>n\<in>set (map fst (export_plan top5 pre)). valid_title n \<and> py_lower n \<noteq> ''sheet''"
    using assms(2) overall_sheet_ok by (auto simp: export_plan_def)
  have none: "map_of (export_plan top5 pre) (sheet_name s) = None"
    using valid assms(4) by (auto simp: map_of_eq_None_iff)
  have tmp: "avoid_duplicate_name (map fst (export_plan top5 pre)) ''Sheet'' = ''Sheet''"
    using valid by (intro avoid_duplicate_name_fresh) (simp add: py_lower_Sheet)
  show ?thesis
    using assms(3,4)
    by (simp add: export_excel_def export_plan_Cons_append write_all_append pre write_sheet_def none tmp)
qed

lemma export_excel_invalid_title_witness:
  "export_excel [] [(''C/C++'', []), (''MATHS'', [])] =
     (\<lparr>wb_sheets = [(''Top 5 Overall Ranks'', []), (''Sheet'', [])]\<rparr>,
      Some (ValueError ''Invalid character / found in sheet title''))"
proof -
  have h1: "distinct (map py_lower (overall_sheet # map (sheet_name \<circ> fst) ([] :: (string \<times> subject_rank list) list)))"
    and h2: "\<forall>(s, d)\<in>set ([] :: (string \<times> subject_rank list) list).
               sheet_name s \<noteq> [] \<and> valid_title (sheet_name s) \<and> py_lower (sheet_name s) \<noteq> ''sheet''"
    and h3: "sheet_name ''C/C++'' \<noteq> []" and h4: "\<not> valid_title (sheet_name ''C/C++'')"
    by (simp_all add: sheet_name_def valid_title_def invalid_title_char_def)
  show ?thesis
    using export_excel_invalid_title [OF h1 h2 h3 h4, of "[]" "[]" "[(''MATHS'', [])]"]
    by (simp add: export_plan_def overall_sheet_def overall_table_def sheet_name_def invalid_title_char_def)
qed


text \<open>
  C21: Any two subjects with the same 30-character sheet name (a valid title,
  not the overall sheet's and not \<open>sheet\<close> ignoring case) share one sheet: the
  export raises nothing, writes two sheets instead of three, and the shared sheet
  holds the second subject's table written over the first one's.
\<close>

lemma export_excel_prefix_collision:
  assumes "sheet_name s2 = sheet_name s1" and "sheet_name s1 \<noteq> []" and "valid_title (sheet_name s1)"
    and "py_lower (sheet_name s1) \<noteq> ''sheet''" and "py_lower (sheet_name s1) \<noteq> py_lower overall_sheet"
  shows "export_excel top5 [(s1, d1), (s2, d2)] =
           (\<lparr>wb_sheets = [(overall_sheet, overall_table top5),
                          (sheet_name s1, overlay (subject_table d2) (subject_table d1))]\<rparr>, None)"
proof -
  let ?ps = "[(overall_sheet, overall_table top5), (sheet_name s1, subject_table d1)]"
  let ?w = "\<lparr>wb_sheets = ?ps\<rparr>"
  have fr: "fresh_sheets [] ?ps"
    using assms(2-5) overall_sheet_ok by (auto simp: fresh_sheets_def)
  have "write_all ?ps \<lparr>wb_sheets = []\<rparr> = (\<lparr>wb_sheets = []\<rparr>\<lparr>wb_sheets := wb_sheets \<lparr>wb_sheets = []\<rparr> @ ?ps\<rparr>, None)"
    by (rule write_all_fresh) (use fr in simp)
  then have first: "write_all ?ps \<lparr>wb_sheets = []\<rparr> = (?w, None)" by (simp del: write_all.simps)
  have ne: "overall_sheet \<noteq> sheet_name s1" using assms(5) by auto
  have second: "write_sheet (sheet_name s1) (subject_table d2) ?w =
          (\<lparr>wb_sheets = [(overall_sheet, overall_table top5),
                         (sheet_name s1, overlay (subject_table d2) (subject_table d1))]\<rparr>, None)"
    using ne by (simp add: write_sheet_def)
  have plan: "export_plan top5 [(s1, d1), (s2, d2)] = ?ps @ [(sheet_name s1, subject_table d2)]"
    using assms(1) by (simp add: export_plan_def)
  have "export_excel top5 [(s1, d1), (s2, d2)] =
          (case write_all ?ps \<lparr>wb_sheets = []\<rparr> of
             (wb', None) \<Rightarrow> write_all [(sheet_name s1, subject_table d2)] wb' | r \<Rightarrow> r)"
    by (simp only: export_excel_def plan write_all_append)
  then show ?thesis using first second by simp
qed

lemma export_excel_prefix_collision_witness:
  "length (wb_sheets (fst (export_excel []
     [(''ELECTRICAL AND ELECTRONICS ENGINEERING LAB'', []),
      (''ELECTRICAL AND ELECTRONICS ENGINEERING WORKSHOP'', [])]))) = 2"
proof -
  have h: "sheet_name ''ELECTRICAL AND ELECTRONICS ENGINEERING WORKSHOP''
             = sheet_name ''ELECTRICAL AND ELECTRONICS ENGINEERING LAB''"
    "sheet_name ''ELECTRICAL AND ELECTRONICS ENGINEERING LAB'' \<noteq> []"
    "valid_title (sheet_name ''ELECTRICAL AND ELECTRONICS ENGINEERING LAB'')"
    "py_lower (sheet_name ''ELECTRICAL AND ELECTRONICS ENGINEERING LAB'') \<noteq> ''sheet''"
    "py_lower (sheet_name ''ELECTRICAL AND ELECTRONICS ENGINEERING LAB'') \<noteq> py_lower overall_sheet"
    by (simp_all add: sheet_name_def valid_title_def invalid_title_char_def overall_sheet_def
                      py_lower_def lower_char_def py_defs)
  show ?thesis using export_excel_prefix_collision [OF h, of "[]" "[]" "[]"] by simp
qed

end
