(* ===== verification/Analytics.thy ===== *)
theory Analytics
  imports Export
begin

text \<open>
  The web flow of the analytics application (src/app1.py): the routes
  \<open>upload_page\<close>, \<open>upload\<close>, \<open>process\<close>, \<open>search\<close> and \<open>download\<close>, the
  session cookie that remembers each client's uploaded file, and the server's
  files under \<open>uploads/\<close>. The state is the session of every client and the
  file store, a map from paths to stored files; a request is one route called by
  one client, and the step function runs it. \<open>process\<close> composes the
  components of the other theories: cleaning, classification, the student loop,
  the failure distribution, the rankings, the subject metrics and the export,
  whose workbook is stored at \<open>uploads/Result_Analytics.xlsx\<close> for every client.
\<close>

section \<open>Files and sessions\<close>

text \<open>
  A stored file is an uploaded spreadsheet or a workbook the exporter saved.
  Directories are not modelled: a path names a file or nothing.
\<close>

datatype stored = Upload_file file_data | Export_file workbook

type_synonym client = nat

record analytics =
  sessions :: "client \<Rightarrow> string option"
  fs :: "string \<Rightarrow> stored option"

definition UPLOAD_FOLDER :: string where
  "UPLOAD_FOLDER = ''uploads''"

text \<open>\<open>os.path.join(folder, name)\<close> on POSIX: an absolute name replaces the folder.\<close>

definition path_join :: "string \<Rightarrow> string \<Rightarrow> string" where
  "path_join folder name =
     (if name \<noteq> [] \<and> hd name = CHR ''/'' then name else folder @ ''/'' @ name)"

definition export_path :: string where
  "export_path = path_join UPLOAD_FOLDER ''Result_Analytics.xlsx''"

section \<open>Reading a stored file\<close>

text \<open>
  \<open>pd.read_excel\<close> on a saved workbook reads its first sheet: the header row
  names the columns, and each further row gives the cells under those names
  (a missing cell is NaN). A text cell read as a string keeps its text, an
  integer cell prints in decimal, an empty cell prints as \<open>nan\<close>; the exporter
  writes no other cell under a column read as text.
\<close>

fun xl_str :: "xl_value \<Rightarrow> string" where
  "xl_str (XStr s) = s"
| "xl_str (XInt n) = nat_str n"
| "xl_str XBlank = ''nan''"
| "xl_str (XNum x) = []"

fun xl_cell :: "xl_value \<Rightarrow> cell" where
  "xl_cell (XStr s) = Str s"
| "xl_cell (XNum x) = Num x"
| "xl_cell (XInt n) = Num (real n)"
| "xl_cell XBlank = Blank"

definition xl_col :: "string list \<Rightarrow> xl_value list \<Rightarrow> string \<Rightarrow> xl_value" where
  "xl_col hdr r c = (case find (\<lambda>(h, v). h = c) (zip hdr (r @ replicate (length hdr) XBlank)) of
                       Some (h, v) \<Rightarrow> v | None \<Rightarrow> XBlank)"

definition xl_row :: "string list \<Rightarrow> xl_value list \<Rightarrow> raw_row" where
  "xl_row hdr r =
     \<lparr>raw_htno = xl_str (xl_col hdr r ''HTNO''),
      raw_subject = (case xl_col hdr r ''SUBJECT_NAME'' of XBlank \<Rightarrow> None | v \<Rightarrow> Some (xl_str v)),
      raw_internal = xl_cell (xl_col hdr r ''INTERNALMARKS''),
      raw_external = xl_cell (xl_col hdr r ''EXTERNALMARKS''),
      raw_total = xl_cell (xl_col hdr r ''TOTALMARKS''),
      raw_grade = xl_cell (xl_col hdr r ''GRADE_POINTS''),
      raw_credits = xl_cell (xl_col hdr r ''CREDITS'')\<rparr>"

definition sheet_frame :: "table \<Rightarrow> frame" where
  "sheet_frame t =
     (case t of [] \<Rightarrow> \<lparr>columns = [], raw_rows = []\<rparr>
      | hdr # rs \<Rightarrow> \<lparr>columns = map xl_str hdr, raw_rows = map (xl_row (map xl_str hdr)) rs\<rparr>)"

definition read_excel :: "(string \<Rightarrow> stored option) \<Rightarrow> string \<Rightarrow> frame py" where
  "read_excel files path =
     (case files path of
        None \<Rightarrow> Inl (FileNotFoundError path)
      | Some (Upload_file d) \<Rightarrow> read_file d
      | Some (Export_file wb) \<Rightarrow>
          (case wb_sheets wb of [] \<Rightarrow> Inl (ValueError ''Workbook has no sheets'')
           | (n, t) # _ \<Rightarrow> Inr (sheet_frame t)))"

section \<open>Routes\<close>

text \<open>The page \<open>process\<close> renders (lines 242--251).\<close>

record results_page =
  rp_students :: "student_metric list"
  rp_rank :: "ranked_entry list"
  rp_subject_top5 :: "(string \<times> subject_rank list) list"
  rp_failure :: "(string \<times> nat) list"
  rp_failed :: "failed_entry list"
  rp_subjects :: "subject_metric list"
  rp_file :: string

datatype a_response =
    UploadPage
  | Message string
  | InvalidExcel py_error
  | SelectSubjects "(nat \<times> string) list"
  | Results results_page
  | SearchPage "result_row list option"
  | SendFile stored
  | A_BadRequest string
  | A_ServerError py_error

definition session_expired :: string where
  "session_expired = ''Session expired. Please upload the file again.''"

text \<open>\<open>if not file_name\<close>: no session entry, or an empty name.\<close>

definition session_file :: "analytics \<Rightarrow> client \<Rightarrow> string option" where
  "session_file st c = (case sessions st c of None \<Rightarrow> None | Some fn \<Rightarrow> if fn = [] then None else Some fn)"

text \<open>
  Lines 47--84. \<open>not file\<close> holds for a missing file and for a file whose name
  is empty; the file is saved and the session set before it is read, so a file
  that cannot be read or has no valid subject stays the session's file.
  \<open>clean_dataframe\<close> raising is not caught.
\<close>

definition upload :: "client \<Rightarrow> (string \<times> file_data) option \<Rightarrow> analytics \<Rightarrow> a_response \<times> analytics" where
  "upload c f st =
     (case f of
        None \<Rightarrow> (Message ''No file selected'', st)
      | Some (fn, content) \<Rightarrow>
          (if py_strip fn = [] then (Message ''No file selected'', st)
           else
             let path = path_join UPLOAD_FOLDER fn;
                 st1 = st\<lparr>fs := (fs st)(path \<mapsto> Upload_file content),
                          sessions := (sessions st)(c \<mapsto> fn)\<rparr>
             in (case read_excel (fs st1) path of
                   Inl e \<Rightarrow> (InvalidExcel e, st1)
                 | Inr df \<Rightarrow>
                     (case clean_dataframe df of
                        Inl e \<Rightarrow> (A_ServerError e, st1)
                      | Inr cdf \<Rightarrow>
                          let subjects = enumerate_from 1 (sort (remdups (map subject_name (rows cdf))))
                          in if subjects = [] then (Message ''No valid subjects found in the file.'', st1)
                             else (SelectSubjects subjects, st1)))))"

text \<open>
  Lines 116--228: everything \<open>process\<close> computes from the cleaned file before
  the export, with the two tables the export writes. The student loop is the
  only part that raises.
\<close>

definition analyse :: "string list \<Rightarrow> clean_frame \<Rightarrow>
                        (results_page \<times> ranked_entry list \<times> (string \<times> subject_rank list) list) py" where
  "analyse opt df =
     (let crows = classify opt (rows df) in
      py_bind (student_loop (clean_columns df) crows) (\<lambda>outs.
        let top5 = top5_rank_list (map so_rank outs);
            sw = subject_wise_top5 crows
        in Inr (\<lparr>rp_students = map so_metric outs, rp_rank = top5, rp_subject_top5 = sw,
                 rp_failure = failure_distribution (map so_failures outs),
                 rp_failed = List.map_filter so_failed outs,
                 rp_subjects = subject_metrics crows, rp_file = []\<rparr>, top5, sw)))"

text \<open>
  Lines 90--251. Reading or cleaning the session's file may raise (uncaught);
  the export is saved at the shared path even when a sheet raises, and the
  exception then propagates.
\<close>

definition process :: "client \<Rightarrow> string list \<Rightarrow> analytics \<Rightarrow> a_response \<times> analytics" where
  "process c opt st =
     (case session_file st c of
        None \<Rightarrow> (Message session_expired, st)
      | Some fn \<Rightarrow>
          (case py_bind (read_excel (fs st) (path_join UPLOAD_FOLDER fn)) clean_dataframe of
             Inl e \<Rightarrow> (A_ServerError e, st)
           | Inr df \<Rightarrow>
               (case analyse opt df of
                  Inl e \<Rightarrow> (A_ServerError e, st)
                | Inr (page, top5, sw) \<Rightarrow>
                    (let (wb, err) = export_excel top5 sw;
                         st' = st\<lparr>fs := (fs st)(export_path \<mapsto> Export_file wb)\<rparr>
                     in (case err of
                           Some e \<Rightarrow> (A_ServerError e, st')
                         | None \<Rightarrow> (Results (page\<lparr>rp_file := fn\<rparr>), st'))))))"

text \<open>
  Lines 257--278; the session is checked before the method, and
  \<open>df["HTNO"]\<close> raises \<open>KeyError\<close> when the column is absent.
\<close>

definition search :: "client \<Rightarrow> string option option \<Rightarrow> analytics \<Rightarrow> a_response" where
  "search c post st =
     (case session_file st c of
        None \<Rightarrow> Message session_expired
      | Some fn \<Rightarrow>
          (case post of
             None \<Rightarrow> SearchPage None
           | Some None \<Rightarrow> A_BadRequest ''htno''
           | Some (Some h) \<Rightarrow>
               (case py_bind (read_excel (fs st) (path_join UPLOAD_FOLDER fn)) clean_dataframe of
                  Inl e \<Rightarrow> A_ServerError e
                | Inr df \<Rightarrow>
                    if ''HTNO'' \<notin> set (clean_columns df) then A_ServerError (KeyError ''HTNO'')
                    else SearchPage (Some (filter (\<lambda>r. htno r = h) (rows df))))))"

text \<open>Lines 284--289: whatever is stored at the shared path, for every client.\<close>

definition download :: "analytics \<Rightarrow> a_response" where
  "download st =
     (case fs st export_path of
        None \<Rightarrow> A_ServerError (FileNotFoundError export_path)
      | Some x \<Rightarrow> SendFile x)"

datatype a_request =
    Home
  | UploadReq "(string \<times> file_data) option"
  | ProcessReq "string list"
  | SearchGet
  | SearchPost "string option"
  | DownloadReq

fun analytics_step :: "client \<times> a_request \<Rightarrow> analytics \<Rightarrow> a_response \<times> analytics" where
  "analytics_step (c, Home) st = (UploadPage, st)"
| "analytics_step (c, UploadReq f) st = upload c f st"
| "analytics_step (c, ProcessReq opt) st = process c opt st"
| "analytics_step (c, SearchGet) st = (search c None st, st)"
| "analytics_step (c, SearchPost h) st = (search c (Some h) st, st)"
| "analytics_step (c, DownloadReq) st = (download st, st)"

text \<open>The states the server reaches from an empty upload folder and no sessions.\<close>

inductive a_reachable :: "analytics \<Rightarrow> bool" where
  start: "a_reachable \<lparr>sessions = (\<lambda>c. None), fs = (\<lambda>p. None)\<rparr>"
| step: "a_reachable st \<Longrightarrow> a_reachable (snd (analytics_step rq st))"

text \<open>A sequence of requests, in order.\<close>

fun run :: "(client \<times> a_request) list \<Rightarrow> analytics \<Rightarrow> a_response list \<times> analytics" where
  "run [] st = ([], st)"
| "run (rq # rqs) st =
     (let (r, st1) = analytics_step rq st; (rs, st2) = run rqs st1 in (r # rs, st2))"

section \<open>Invariant and examples\<close>

text \<open>
  The invariant of the flow: every session names a file that exists.
\<close>

definition a_inv :: "analytics \<Rightarrow> bool" where
  "a_inv st \<longleftrightarrow> (\<forall>c fn. sessions st c = Some fn \<longrightarrow> fs st (path_join UPLOAD_FOLDER fn) \<noteq> None)"

text \<open>
  No header cell of a table reads as \<open>SUBJECT_NAME\<close> when the sheet is read
  back with the first row as header.
\<close>

definition no_subject_header :: "table \<Rightarrow> bool" where
  "no_subject_header t \<longleftrightarrow> (\<forall>h\<in>set (take 1 t). ''SUBJECT_NAME'' \<notin> set (map xl_str h))"

abbreviation ex_one :: "string \<Rightarrow> string \<Rightarrow> frame" where
  "ex_one h s \<equiv> \<lparr>columns = ex_cols, raw_rows =
     [\<lparr>raw_htno = h, raw_subject = Some s, raw_internal = Num 20, raw_external = Num 30,
       raw_total = Num 50, raw_grade = Num 8, raw_credits = Num 4\<rparr>]\<rparr>"

abbreviation a_init :: analytics where
  "a_init \<equiv> \<lparr>sessions = (\<lambda>c. None), fs = (\<lambda>p. None)\<rparr>"

section \<open>Properties of the web flow\<close>

lemmas flow_eval = upload_def process_def search_def download_def session_file_def read_excel_def read_file_def
  path_join_def UPLOAD_FOLDER_def export_path_def clean_dataframe_def dropna_subset_def coerce_row_def
  numeric_col_def subject_str_def subject_valid_def all_marks_missing_def analyse_def classify_def
  marks_result_def student_loop_def student_entry_eval groupby_def export_excel_def export_plan_def
  write_sheet_def valid_title_def invalid_title_char_def avoid_duplicate_name_def overall_sheet_def
  sheet_name_def overall_table_def subject_table_def subject_wise_top5_def subject_top5_def
  sort_values_desc_def total_key_def na_last_key_def rank_eval failure_distribution_def subject_metrics_def
  subject_entry_def mark_cell_def py_defs Let_def ge_opt_def eq_opt_def nansum_def opt_mult_def

lemma process_shape:
  "process c opt st = (r, st') \<Longrightarrow> st' = st \<or> (\<exists>wb. st' = st\<lparr>fs := (fs st)(export_path \<mapsto> Export_file wb)\<rparr>)"
  unfolding process_def
  by (auto split: option.splits sum.splits prod.splits simp: Let_def)

lemma upload_shape:
  "upload c f st = (r, st') \<Longrightarrow>
   st' = st \<or> (\<exists>fn x. st' = st\<lparr>fs := (fs st)(path_join UPLOAD_FOLDER fn \<mapsto> x), sessions := (sessions st)(c \<mapsto> fn)\<rparr>)"
  unfolding upload_def
  by (auto split: option.splits sum.splits prod.splits if_splits simp: Let_def)

lemma analytics_step_shape:
  assumes "analytics_step rq st = (r, st')"
  shows "st' = st \<or> (\<exists>wb. st' = st\<lparr>fs := (fs st)(export_path \<mapsto> Export_file wb)\<rparr>) \<or>
   (\<exists>c fn x. st' = st\<lparr>fs := (fs st)(path_join UPLOAD_FOLDER fn \<mapsto> x), sessions := (sessions st)(c \<mapsto> fn)\<rparr>)"
proof -
  obtain c q where rq: "rq = (c, q)" by fastforce
  show ?thesis using assms by (cases q) (auto simp: rq dest!: process_shape upload_shape)
qed

text \<open>
  C32: In every state the server reaches, the file each client's session names
  exists in the upload folder: a session is only ever set to a file just saved,
  and no request removes a file.
\<close>

lemma a_reachable_inv: "a_reachable st \<Longrightarrow> a_inv st"
proof (induction rule: a_reachable.induct)
  case start then show ?case by (simp add: a_inv_def)
next
  case (step st rq)
  obtain r st' where e: "analytics_step rq st = (r, st')" by fastforce
  from analytics_step_shape [OF e] step.IH show ?case
    unfolding a_inv_def using e by (auto split: if_splits)
qed

lemma a_reachable_inv_witness:
  "fs (snd (analytics_step (1, UploadReq (Some (''a.xlsx'', Corrupt (BadZipFile ''File is not a zip file'')))) a_init)) ''uploads/a.xlsx'' \<noteq> None"
proof -
  have r: "a_reachable (snd (analytics_step (1, UploadReq (Some (''a.xlsx'', Corrupt (BadZipFile ''File is not a zip file'')))) a_init))"
    by (rule a_reachable.step [OF a_reachable.start])
  have s: "sessions (snd (analytics_step (1, UploadReq (Some (''a.xlsx'', Corrupt (BadZipFile ''File is not a zip file'')))) a_init)) 1 = Some ''a.xlsx''"
    by (simp add: flow_eval)
  have i: "fs (snd (analytics_step (1, UploadReq (Some (''a.xlsx'', Corrupt (BadZipFile ''File is not a zip file'')))) a_init))
             (path_join UPLOAD_FOLDER ''a.xlsx'') \<noteq> None"
    using a_reachable_inv [OF r] s unfolding a_inv_def by blast
  have "path_join UPLOAD_FOLDER ''a.xlsx'' = ''uploads/a.xlsx''" by (simp add: path_join_def UPLOAD_FOLDER_def)
  then show ?thesis using i by simp
qed

lemma overlay_no_subject_header:
  "no_subject_header n \<Longrightarrow> no_subject_header old \<Longrightarrow> no_subject_header (overlay n old)"
  by (cases "(n, old)" rule: overlay.cases) (auto simp: no_subject_header_def dest: in_set_dropD)

lemma export_tables_no_subject_header:
  "no_subject_header (overall_table es)" "no_subject_header (subject_table rs)"
  by (simp_all add: no_subject_header_def overall_table_def subject_table_def)

lemma write_sheet_first:
  assumes "wb_sheets wb = (n0, t0) # rest" and "no_subject_header t0" and "no_subject_header t"
  shows "\<exists>t1 rest'. wb_sheets (fst (write_sheet name t wb)) = (n0, t1) # rest' \<and> no_subject_header t1"
  using assms overlay_no_subject_header
  by (auto simp: write_sheet_def Let_def split: option.splits)

lemma write_all_first:
  assumes "wb_sheets wb = (n0, t0) # rest" and "no_subject_header t0" and "\<forall>(n, t)\<in>set ps. no_subject_header t"
  shows "\<exists>t1 rest'. wb_sheets (fst (write_all ps wb)) = (n0, t1) # rest' \<and> no_subject_header t1"
  using assms
proof (induction ps wb arbitrary: t0 rest rule: write_all.induct)
  case (1 wb) then show ?case by auto
next
  case (2 n t ps wb)
  obtain wb' e where w: "write_sheet n t wb = (wb', e)" by fastforce
  obtain t1 rest' where h: "wb_sheets wb' = (n0, t1) # rest'" "no_subject_header t1"
    using write_sheet_first [OF "2.prems"(1,2), of t n] "2.prems"(3) w by auto
  show ?case
  proof (cases e)
    case None then show ?thesis using "2.IH" [OF w [symmetric] None h] "2.prems"(3) w by simp
  next
    case (Some x) then show ?thesis using h w by auto
  qed
qed

lemma export_excel_first_sheet:
  "\<exists>t rest. wb_sheets (fst (export_excel top5 sw)) = (overall_sheet, t) # rest \<and> no_subject_header t"
proof -
  have w: "write_sheet overall_sheet (overall_table top5) \<lparr>wb_sheets = []\<rparr>
           = (\<lparr>wb_sheets = [(overall_sheet, overall_table top5)]\<rparr>, None)"
    using write_sheet_fresh [of "\<lparr>wb_sheets = []\<rparr>" overall_sheet] overall_sheet_ok by simp
  have "\<forall>(n, t)\<in>set (map (\<lambda>(s, d). (sheet_name s, subject_table d)) sw). no_subject_header t"
    by (auto simp: export_tables_no_subject_header)
  then show ?thesis
    using write_all_first [of "\<lparr>wb_sheets = [(overall_sheet, overall_table top5)]\<rparr>" overall_sheet
            "overall_table top5" "[]"] export_tables_no_subject_header(1)
    by (simp add: export_excel_def export_plan_def w)
qed

lemma analyse_Inr: "analyse opt df = Inr (page, top5, sw) \<Longrightarrow> rp_rank page = top5 \<and> rp_subject_top5 page = sw"
  by (auto simp: analyse_def Let_def py_bind_def split: sum.splits)

lemma process_Results:
  "analytics_step (c, ProcessReq opt) st = (Results p, st') \<Longrightarrow>
   snd (export_excel (rp_rank p) (rp_subject_top5 p)) = None \<and>
   st' = st\<lparr>fs := (fs st)(export_path \<mapsto> Export_file (fst (export_excel (rp_rank p) (rp_subject_top5 p))))\<rparr>"
  by (auto simp: process_def Let_def split: option.splits sum.splits prod.splits dest!: analyse_Inr)

lemma clean_dataframe_no_subject:
  "''SUBJECT_NAME'' \<notin> set (columns df) \<Longrightarrow> clean_dataframe df = Inl (KeyError ''SUBJECT_NAME'')"
  by (simp add: clean_dataframe_def)

lemma read_export_no_subject:
  "fs st export_path = Some (Export_file (fst (export_excel top5 sw))) \<Longrightarrow>
   py_bind (read_excel (fs st) export_path) clean_dataframe = Inl (KeyError ''SUBJECT_NAME'')"
proof -
  obtain t rest where t: "wb_sheets (fst (export_excel top5 sw)) = (overall_sheet, t) # rest" "no_subject_header t"
    using export_excel_first_sheet by blast
  have "''SUBJECT_NAME'' \<notin> set (columns (sheet_frame t))"
    using t(2) by (cases t) (auto simp: sheet_frame_def no_subject_header_def)
  then show "fs st export_path = Some (Export_file (fst (export_excel top5 sw))) \<Longrightarrow> ?thesis"
    using t(1) by (simp add: read_excel_def clean_dataframe_no_subject)
qed

text \<open>
  C33: After a client's \<open>process\<close> renders its results, the export raised
  nothing, and a download by any client serves exactly the workbook exported from
  the rankings that page shows.
\<close>

lemma process_then_download:
  assumes "analytics_step (c, ProcessReq opt) st = (Results p, st')"
  shows "snd (export_excel (rp_rank p) (rp_subject_top5 p)) = None \<and>
         analytics_step (c', DownloadReq) st' = (SendFile (Export_file (fst (export_excel (rp_rank p) (rp_subject_top5 p)))), st')"
  using assms
  by (auto simp: process_def download_def Let_def split: option.splits sum.splits prod.splits
           dest!: analyse_Inr)

lemma process_then_download_witness:
  "fst (analytics_step (2, DownloadReq) (snd (run [(1, UploadReq (Some (''a.xlsx'', Table (ex_one ''A1'' ''MATHS'')))),
      (1, ProcessReq [])] a_init))) =
   SendFile (Export_file \<lparr>wb_sheets = [(''Top 5 Overall Ranks'', [[XStr ''HTNO'', XStr ''SGPA'', XStr ''Rank''],
      [XStr ''A1'', XNum 8, XInt 1]]), (''MATHS'', [[XStr ''Rank'', XStr ''HTNO'', XStr ''TOTALMARKS''],
      [XInt 1, XStr ''A1'', XNum 50]])]\<rparr>)"
proof -
  let ?st = "snd (analytics_step (1, UploadReq (Some (''a.xlsx'', Table (ex_one ''A1'' ''MATHS'')))) a_init)"
  have p: "analytics_step (1, ProcessReq []) ?st = (Results (case fst (analytics_step (1, ProcessReq []) ?st) of Results p \<Rightarrow> p),
                                                    snd (analytics_step (1, ProcessReq []) ?st))"
    by (simp add: flow_eval)
  show ?thesis
    using process_then_download [OF p, of 2] by (simp add: flow_eval)
qed

text \<open>
  C34: An upload the reader rejects still becomes the session's file: the upload
  answers with the reader's error, the session names the file, and a following
  \<open>process\<close> fails with the same error instead of reporting an expired
  session.
\<close>

lemma invalid_upload_keeps_session:
  assumes "py_strip fn \<noteq> []"
  shows "fst (analytics_step (c, UploadReq (Some (fn, Corrupt e))) st) = InvalidExcel e \<and>
         session_file (snd (analytics_step (c, UploadReq (Some (fn, Corrupt e))) st)) c = Some fn \<and>
         analytics_step (c, ProcessReq opt) (snd (analytics_step (c, UploadReq (Some (fn, Corrupt e))) st))
           = (A_ServerError e, snd (analytics_step (c, UploadReq (Some (fn, Corrupt e))) st))"
proof -
  have "fn \<noteq> []" using assms by (auto simp: py_strip_def)
  then show ?thesis
    using assms by (simp add: upload_def process_def session_file_def read_excel_def read_file_def Let_def)
qed

lemma invalid_upload_keeps_session_witness:
  "fst (run [(1, UploadReq (Some (''a.xlsx'', Corrupt (BadZipFile ''File is not a zip file'')))), (1, ProcessReq [])] a_init) =
   [InvalidExcel (BadZipFile ''File is not a zip file''), A_ServerError (BadZipFile ''File is not a zip file'')]"
proof -
  have "py_strip ''a.xlsx'' \<noteq> []" by (simp add: py_defs)
  then show ?thesis
    using invalid_upload_keeps_session [of "''a.xlsx''" 1 "BadZipFile ''File is not a zip file''" a_init "[]"]
    by (simp add: Let_def split_def)
qed

text \<open>
  C35: An upload named \<open>Result_Analytics.xlsx\<close> is the export's file: once any
  client's \<open>process\<close> has rendered its results, searching the session whose file
  has that name fails with \<open>KeyError: SUBJECT_NAME\<close>, since the file is now
  the exported workbook, whose first sheet has no such column.
\<close>

lemma export_overwrites_upload:
  assumes "session_file st c = Some ''Result_Analytics.xlsx''"
    and "analytics_step (c', ProcessReq opt) st = (Results p, st')"
  shows "search c (Some (Some h)) st' = A_ServerError (KeyError ''SUBJECT_NAME'')"
proof -
  have st': "st' = st\<lparr>fs := (fs st)(export_path \<mapsto> Export_file (fst (export_excel (rp_rank p) (rp_subject_top5 p))))\<rparr>"
    using process_Results [OF assms(2)] by simp
  have "session_file st' c = Some ''Result_Analytics.xlsx''" using assms(1) by (simp add: st' session_file_def)
  moreover have "path_join UPLOAD_FOLDER ''Result_Analytics.xlsx'' = export_path" by (simp add: export_path_def)
  moreover have "py_bind (read_excel (fs st') export_path) clean_dataframe = Inl (KeyError ''SUBJECT_NAME'')"
    by (rule read_export_no_subject) (simp add: st')
  ultimately show ?thesis by (simp add: search_def)
qed

lemma export_overwrites_upload_witness:
  "search 1 (Some (Some ''A1'')) (snd (analytics_step (1, UploadReq (Some (''Result_Analytics.xlsx'', Table (ex_one ''A1'' ''MATHS'')))) a_init))
     = SearchPage (Some [\<lparr>htno = ''A1'', subject_name = ''MATHS'', internal_marks = Some 20, external_marks = Some 30,
                          total_marks = Some 50, grade_points = Some 8, credits = Some 4\<rparr>]) \<and>
   search 1 (Some (Some ''A1'')) (snd (run [(1, UploadReq (Some (''Result_Analytics.xlsx'', Table (ex_one ''A1'' ''MATHS'')))),
      (1, ProcessReq [])] a_init)) = A_ServerError (KeyError ''SUBJECT_NAME'')"
proof -
  let ?st = "snd (analytics_step (1, UploadReq (Some (''Result_Analytics.xlsx'', Table (ex_one ''A1'' ''MATHS'')))) a_init)"
  have s: "session_file ?st 1 = Some ''Result_Analytics.xlsx''" by (simp add: flow_eval)
  have p: "analytics_step (1, ProcessReq []) ?st = (Results (case fst (analytics_step (1, ProcessReq []) ?st) of Results p \<Rightarrow> p),
                                                    snd (analytics_step (1, ProcessReq []) ?st))"
    by (simp add: flow_eval)
  have "search 1 (Some (Some ''A1'')) (snd (analytics_step (1, ProcessReq []) ?st)) = A_ServerError (KeyError ''SUBJECT_NAME'')"
    by (rule export_overwrites_upload [OF s p])
  moreover have "search 1 (Some (Some ''A1'')) ?st
     = SearchPage (Some [\<lparr>htno = ''A1'', subject_name = ''MATHS'', internal_marks = Some 20, external_marks = Some 30,
                          total_marks = Some 50, grade_points = Some 8, credits = Some 4\<rparr>])"
    by (simp add: flow_eval)
  ultimately show ?thesis by (simp add: Let_def split_def)
qed

end
