(* ===== verification/ResultsDB.thy ===== *)
theory ResultsDB
  imports Cleaner "HOL-Library.Sublist"
begin

text \<open>
  The results-database application: the schema of src/init_db.py and the
  routes of src/app.py (admin login and dashboard, logout, \<open>upload_results\<close>,
  \<open>overview\<close>). The database is a record of five tables, each a list of rows in
  rowid order, and the \<open>AUTOINCREMENT\<close> counter of each table
  (\<open>sqlite_sequence\<close>); every SQL statement of the routes is one function on it.
  The upload is one transaction: its body either returns the new database, which
  \<open>con.commit()\<close> keeps, or raises, and \<open>con.rollback()\<close> restores the database
  it started from. The portal is a state machine over the database and the
  admin flag of the client's session. The theory proves the schema's invariant
  (identifiers, unique keys, references) for every reachable state, that the
  tables are append-only, that the upload's body returns early only before it
  writes, what a successful upload adds (one subject row per uploaded row,
  duplicates included), that the overview gives every uploaded row back, that
  only an admin session adds courses, and the bounds of the overview
  statistics.
\<close>

section \<open>The schema (src/init\_db.py)\<close>

record course_row =
  co_id :: nat
  co_name :: string

record semester_row =
  se_id :: nat
  se_course :: nat
  se_year :: int
  se_semester :: int

record student_row =
  st_id :: nat
  st_roll :: string
  st_name :: string
  st_course :: nat

text \<open>A \<open>REAL\<close> column holds \<open>NULL\<close> where Python binds a NaN.\<close>

record subject_row =
  su_id :: nat
  su_semester :: nat
  su_name :: string
  su_credits :: "real option"
  su_type :: string

record mark_row =
  mk_id :: nat
  mk_student :: nat
  mk_subject :: nat
  mk_marks :: int
  mk_grade :: real

record db =
  tbl_course :: "course_row list"
  tbl_semester :: "semester_row list"
  tbl_student :: "student_row list"
  tbl_subject :: "subject_row list"
  tbl_marks :: "mark_row list"
  seq_course :: nat
  seq_semester :: nat
  seq_student :: nat
  seq_subject :: nat
  seq_marks :: nat

definition empty_db :: db where
  "empty_db = \<lparr>tbl_course = [], tbl_semester = [], tbl_student = [], tbl_subject = [], tbl_marks = [],
               seq_course = 0, seq_semester = 0, seq_student = 0, seq_subject = 0, seq_marks = 0\<rparr>"

text \<open>\<open>CREATE TABLE IF NOT EXISTS\<close>: an existing database is kept as it is.\<close>

definition init_db :: "db option \<Rightarrow> db" where
  "init_db existing = (case existing of None \<Rightarrow> empty_db | Some d \<Rightarrow> d)"

section \<open>SQL statements\<close>

text \<open>\<open>INSERT OR IGNORE INTO course(name) VALUES (?)\<close>: \<open>name\<close> is \<open>UNIQUE\<close>.\<close>

definition insert_course :: "string \<Rightarrow> db \<Rightarrow> db" where
  "insert_course name d =
     (if name \<in> set (map co_name (tbl_course d)) then d
      else d\<lparr>tbl_course := tbl_course d @ [\<lparr>co_id = Suc (seq_course d), co_name = name\<rparr>],
             seq_course := Suc (seq_course d)\<rparr>)"

text \<open>\<open>SELECT name FROM course\<close>.\<close>

definition course_names :: "db \<Rightarrow> string list" where
  "course_names d = map co_name (tbl_course d)"

text \<open>\<open>SELECT id FROM course WHERE name=?\<close>, first row.\<close>

definition lookup_course_id :: "string \<Rightarrow> db \<Rightarrow> nat option" where
  "lookup_course_id name d = map_option co_id (find (\<lambda>c. co_name c = name) (tbl_course d))"

text \<open>\<open>INSERT INTO semester(...)\<close>, with \<open>cur.lastrowid\<close>.\<close>

definition insert_semester :: "nat \<Rightarrow> int \<Rightarrow> int \<Rightarrow> db \<Rightarrow> nat \<times> db" where
  "insert_semester cid year sem d =
     (Suc (seq_semester d),
      d\<lparr>tbl_semester := tbl_semester d @
           [\<lparr>se_id = Suc (seq_semester d), se_course = cid, se_year = year, se_semester = sem\<rparr>],
        seq_semester := Suc (seq_semester d)\<rparr>)"

text \<open>\<open>INSERT OR IGNORE INTO student(roll_no, name, course_id)\<close>: \<open>roll_no\<close> is \<open>UNIQUE\<close>.\<close>

definition insert_student :: "string \<Rightarrow> nat \<Rightarrow> db \<Rightarrow> db" where
  "insert_student roll cid d =
     (if roll \<in> set (map st_roll (tbl_student d)) then d
      else d\<lparr>tbl_student := tbl_student d @
               [\<lparr>st_id = Suc (seq_student d), st_roll = roll, st_name = roll, st_course = cid\<rparr>],
             seq_student := Suc (seq_student d)\<rparr>)"

definition lookup_student_id :: "string \<Rightarrow> db \<Rightarrow> nat option" where
  "lookup_student_id roll d = map_option st_id (find (\<lambda>s. st_roll s = roll) (tbl_student d))"

text \<open>
  \<open>INSERT OR IGNORE INTO subject(...)\<close>: the table has no unique constraint,
  so nothing is ever ignored.
\<close>

definition insert_subject :: "nat \<Rightarrow> string \<Rightarrow> real option \<Rightarrow> string \<Rightarrow> db \<Rightarrow> db" where
  "insert_subject sid name cr ty d =
     d\<lparr>tbl_subject := tbl_subject d @
          [\<lparr>su_id = Suc (seq_subject d), su_semester = sid, su_name = name, su_credits = cr, su_type = ty\<rparr>],
       seq_subject := Suc (seq_subject d)\<rparr>"

text \<open>\<open>SELECT id FROM subject WHERE semester_id=? AND subject_name=?\<close>, first row.\<close>

definition lookup_subject_id :: "nat \<Rightarrow> string \<Rightarrow> db \<Rightarrow> nat option" where
  "lookup_subject_id sid name d =
     map_option su_id (find (\<lambda>s. su_semester s = sid \<and> su_name s = name) (tbl_subject d))"

definition insert_mark :: "nat \<Rightarrow> nat \<Rightarrow> int \<Rightarrow> real \<Rightarrow> db \<Rightarrow> db" where
  "insert_mark stid suid m gp d =
     d\<lparr>tbl_marks := tbl_marks d @
          [\<lparr>mk_id = Suc (seq_marks d), mk_student = stid, mk_subject = suid, mk_marks = m, mk_grade = gp\<rparr>],
       seq_marks := Suc (seq_marks d)\<rparr>"

text \<open>\<open>cursor.fetchone()[0]\<close>: subscripting \<open>None\<close> raises \<open>TypeError\<close>.\<close>

definition fetch_first :: "'a option \<Rightarrow> 'a py" where
  "fetch_first r = (case r of None \<Rightarrow> Inl (TypeError ''NoneType object is not subscriptable'') | Some x \<Rightarrow> Inr x)"

text \<open>Binding a Python \<open>int\<close> to a parameter: SQLite integers have 64 bits.\<close>

definition sql_int :: "int \<Rightarrow> int py" where
  "sql_int v =
     (if - (2 ^ 63) \<le> v \<and> v < 2 ^ 63 then Inr v
      else Inl (OverflowError ''Python int too large to convert to SQLite INTEGER''))"

section \<open>Python conversions\<close>

text \<open>
  \<open>int(s)\<close> on a string: blanks around an optionally signed, non-empty run of
  decimal digits (digit-group underscores are not modelled).
\<close>

definition py_int_str :: "string \<Rightarrow> int option" where
  "py_int_str s =
     (let t = py_strip s;
          neg = (t \<noteq> [] \<and> hd t = CHR ''-'');
          u = (if t \<noteq> [] \<and> (hd t = CHR ''-'' \<or> hd t = CHR ''+'') then tl t else t)
      in if u \<noteq> [] \<and> list_all is_digit u
         then Some ((if neg then -1 else 1) * int (digits_val u)) else None)"

definition py_int_form :: "string \<Rightarrow> int py" where
  "py_int_form s = (case py_int_str s of None \<Rightarrow> Inl (ValueError ''invalid literal for int() with base 10'')
                    | Some v \<Rightarrow> Inr v)"

text \<open>\<open>int(x)\<close> on a cell: a float is truncated towards zero; NaN raises.\<close>

fun py_int :: "cell \<Rightarrow> int py" where
  "py_int (Num x) = Inr (if 0 \<le> x then \<lfloor>x\<rfloor> else \<lceil>x\<rceil>)"
| "py_int (Str s) = py_int_form s"
| "py_int Blank = Inl (ValueError ''cannot convert float NaN to integer'')"

text \<open>
  \<open>float(x)\<close> on a cell: NaN for an empty cell (\<open>None\<close>), a string parsed as
  a decimal numeral (the exponent, \<open>inf\<close> and \<open>nan\<close> spellings are not modelled).
\<close>

fun py_float :: "cell \<Rightarrow> real option py" where
  "py_float (Num x) = Inr (Some x)"
| "py_float (Str s) = (case parse_decimal s of None \<Rightarrow> Inl (ValueError ''could not convert string to float'')
                       | Some v \<Rightarrow> Inr (Some v))"
| "py_float Blank = Inr None"

text \<open>\<open>s.endswith(suffix)\<close>.\<close>

definition py_endswith :: "string \<Rightarrow> string \<Rightarrow> bool" where
  "py_endswith s suf \<longleftrightarrow> length suf \<le> length s \<and> drop (length s - length suf) s = suf"

section \<open>upload\_results (src/app.py, lines 45--131)\<close>

text \<open>
  The form of \<open>upload_results\<close>: its three fields and the file, given by the name
  the browser sent and what the reader the extension selects makes of its bytes;
  \<open>None\<close> is a missing key.
\<close>

record upload_form =
  f_course :: "string option"
  f_year :: "string option"
  f_semester :: "string option"
  f_file :: "(string \<times> file_data) option"

datatype upload_outcome = Uploaded | InvalidFormat | MissingColumn string | UploadFailed py_error

definition upload_required :: "string list" where
  "upload_required = [''HTNO'', ''SUBJECT_NAME'', ''TOTALMARKS'', ''CREDITS'']"

text \<open>Line 90: \<open>GRADE_POINTS\<close> when the column exists and the cell is not NaN, else 0.\<close>

definition grade_of :: "string list \<Rightarrow> raw_row \<Rightarrow> real py" where
  "grade_of cols r =
     (if ''GRADE_POINTS'' \<in> set cols \<and> raw_grade r \<noteq> Blank
      then (case py_float (raw_grade r) of Inl e \<Rightarrow> Inl e | Inr g \<Rightarrow> Inr (case g of None \<Rightarrow> 0 | Some x \<Rightarrow> x))
      else Inr 0)"

text \<open>Line 110: the subject type.\<close>

definition subject_type :: "string \<Rightarrow> string" where
  "subject_type subj = (if py_contains ''LAB'' (py_upper subj) then ''LAB'' else ''THEORY'')"

text \<open>
  How a statement sequence of the transaction ends: it returns a value or raises;
  either way the connection holds the working database it has written so far.
  \<open>raising d m f\<close> runs \<open>f\<close> on the value of \<open>m\<close>, or ends with \<open>m\<close>'s exception
  in working state \<open>d\<close>.
\<close>

datatype 'a exit = Return 'a | Raise py_error

definition raising :: "db \<Rightarrow> 'a py \<Rightarrow> ('a \<Rightarrow> db \<times> 'b exit) \<Rightarrow> db \<times> 'b exit" where
  "raising d m f = (case m of Inl e \<Rightarrow> (d, Raise e) | Inr x \<Rightarrow> f x)"

text \<open>
  One iteration of the loop of lines 82--122. A row whose total is NaN is
  skipped; otherwise the conversions run in the order of the source, then the
  student is inserted or found, \<open>subject.upper()\<close> raises \<open>AttributeError\<close> on
  a NaN subject, and the subject and the mark are inserted.
\<close>

definition upload_row :: "string list \<Rightarrow> nat \<Rightarrow> nat \<Rightarrow> raw_row \<Rightarrow> db \<Rightarrow> db \<times> unit exit" where
  "upload_row cols cid sid r d =
     (if raw_total r = Blank then (d, Return ())
      else
        let roll = py_strip (raw_htno r) in
        raising d (py_int (raw_total r)) (\<lambda>mk.
        raising d (py_float (raw_credits r)) (\<lambda>cr.
        raising d (grade_of cols r) (\<lambda>gp.
        let d1 = insert_student roll cid d in
        raising d1 (fetch_first (lookup_student_id roll d1)) (\<lambda>stid.
        (case raw_subject r of
           None \<Rightarrow> (d1, Raise (AttributeError ''float object has no attribute upper''))
         | Some subj \<Rightarrow>
             let d2 = insert_subject sid subj cr (subject_type subj) d1 in
             raising d2 (fetch_first (lookup_subject_id sid subj d2)) (\<lambda>suid.
             raising d2 (sql_int mk) (\<lambda>m. (insert_mark stid suid m gp d2, Return ())))))))))"

fun upload_rows :: "string list \<Rightarrow> nat \<Rightarrow> nat \<Rightarrow> raw_row list \<Rightarrow> db \<Rightarrow> db \<times> unit exit" where
  "upload_rows cols cid sid [] d = (d, Return ())"
| "upload_rows cols cid sid (r # rs) d =
     (case upload_row cols cid sid r d of
        (d', Raise e) \<Rightarrow> (d', Raise e)
      | (d', Return u) \<Rightarrow> upload_rows cols cid sid rs d')"

text \<open>
  The body of the \<open>try\<close> block, lines 53--125: it returns an outcome or
  raises, in the working state it has reached.
\<close>

definition upload_txn :: "upload_form \<Rightarrow> db \<Rightarrow> db \<times> upload_outcome exit" where
  "upload_txn f d =
     raising d (form_get ''course'' (f_course f)) (\<lambda>course.
     raising d (py_bind (form_get ''year'' (f_year f)) py_int_form) (\<lambda>year.
     raising d (py_bind (form_get ''semester'' (f_semester f)) py_int_form) (\<lambda>sem.
     raising d (form_get ''file'' (f_file f)) (\<lambda>(fname, content).
     if \<not> (py_endswith fname ''.xlsx'' \<or> py_endswith fname ''.csv'') then (d, Return InvalidFormat)
     else raising d (read_file content) (\<lambda>df.
     (case find (\<lambda>c. c \<notin> set (columns df)) upload_required of
        Some c \<Rightarrow> (d, Return (MissingColumn c))
      | None \<Rightarrow>
          raising d (fetch_first (lookup_course_id course d)) (\<lambda>cid.
          raising d (sql_int year) (\<lambda>y.
          raising d (sql_int sem) (\<lambda>sm.
          (let (sid, d1) = insert_semester cid y sm d
           in (case upload_rows (columns df) cid sid (raw_rows df) d1 of
                 (d2, Raise e) \<Rightarrow> (d2, Raise e)
               | (d2, Return u) \<Rightarrow> (d2, Return Uploaded))))))))))))"

text \<open>
  The POST branch. On success the body has run \<open>con.commit()\<close>, which keeps
  its working state; an exception runs \<open>con.rollback()\<close>, which restores the
  committed state; an early return commits nothing, and the working state dies
  with the connection.
\<close>

definition upload_results_post :: "upload_form \<Rightarrow> db \<Rightarrow> upload_outcome \<times> db" where
  "upload_results_post f d =
     (case upload_txn f d of
        (dw, Raise e) \<Rightarrow> (UploadFailed e, d)
      | (dw, Return Uploaded) \<Rightarrow> (Uploaded, dw)
      | (dw, Return out) \<Rightarrow> (out, d))"

section \<open>overview (src/app.py, lines 134--182)\<close>

record ov_row =
  ov_roll :: string
  ov_subject :: string
  ov_marks :: int
  ov_credits :: "real option"
  ov_grade :: real

text \<open>SQL \<open>TRIM(x)\<close> removes spaces (only spaces) from both ends.\<close>

definition sql_trim :: "string \<Rightarrow> string" where
  "sql_trim s = rev (dropWhile (\<lambda>c. c = CHR '' '') (rev (dropWhile (\<lambda>c. c = CHR '' '') s)))"

text \<open>The four-way join of lines 148--162, as the nested loop that evaluates it.\<close>

definition overview_query :: "string \<Rightarrow> int \<Rightarrow> int \<Rightarrow> db \<Rightarrow> ov_row list" where
  "overview_query course year sem d =
     [\<lparr>ov_roll = st_roll s, ov_subject = su_name sub, ov_marks = mk_marks m,
       ov_credits = su_credits sub, ov_grade = mk_grade m\<rparr>.
        m \<leftarrow> tbl_marks d, s \<leftarrow> tbl_student d, st_id s = mk_student m,
        sub \<leftarrow> tbl_subject d, su_id sub = mk_subject m,
        se \<leftarrow> tbl_semester d, se_id se = su_semester sub,
        c \<leftarrow> tbl_course d, co_id c = se_course se,
        sql_trim (co_name c) = course \<and> se_year se = year \<and> se_semester se = sem]"

record ov_stats =
  ov_total :: nat
  ov_passed :: nat
  ov_failed :: int
  ov_pass_percent :: real

text \<open>Lines 166--175: a student counts as passed when one of their marks is at least 40.\<close>

definition overview_stats :: "ov_row list \<Rightarrow> ov_stats" where
  "overview_stats rs =
     (let students = remdups (map ov_roll rs);
          passed = remdups (map ov_roll (filter (\<lambda>r. 40 \<le> ov_marks r) rs))
      in \<lparr>ov_total = length students, ov_passed = length passed,
          ov_failed = int (length students) - int (length passed),
          ov_pass_percent = (if students \<noteq> [] then py_round2 (real (length passed) / real (length students) * 100)
                             else 0)\<rparr>)"

section \<open>The portal (src/app.py routes)\<close>

text \<open>The server's database and the \<open>admin\<close> flag of the client's session cookie.\<close>

record portal =
  pdb :: db
  admin :: bool

datatype request =
    AdminGet
  | AdminPost "string option" "string option"
  | DashboardGet
  | DashboardPost "string option"
  | Logout
  | UploadGet
  | UploadPost upload_form
  | OverviewGet
  | OverviewPost "string option" "string option" "string option"

text \<open>
  Responses. A missing form key is Flask's \<open>400 Bad Request\<close>; an uncaught
  exception is \<open>500 Internal Server Error\<close>.
\<close>

datatype response =
    Redirect string
  | LoginPage
  | DashboardPage "string list"
  | UploadPage "string list"
  | UploadMessage upload_outcome
  | OverviewPage "string list" "ov_row list" "ov_stats option"
  | BadRequest string
  | ServerError py_error

definition ADMIN_USER :: string where "ADMIN_USER = ''admin''"

definition ADMIN_PASS :: string where "ADMIN_PASS = ''admin123''"

text \<open>Lines 15--21; the \<open>and\<close> reads the password only after the user name matched.\<close>

definition admin_login :: "string option \<Rightarrow> string option \<Rightarrow> portal \<Rightarrow> response \<times> portal" where
  "admin_login u p s =
     (case u of
        None \<Rightarrow> (BadRequest ''username'', s)
      | Some u \<Rightarrow>
          (if u \<noteq> ADMIN_USER then (LoginPage, s)
           else (case p of
                   None \<Rightarrow> (BadRequest ''password'', s)
                 | Some p \<Rightarrow>
                     (if p = ADMIN_PASS then (Redirect ''/admin/dashboard'', s\<lparr>admin := True\<rparr>)
                      else (LoginPage, s)))))"

text \<open>Lines 23--37.\<close>

definition admin_dashboard :: "string option option \<Rightarrow> portal \<Rightarrow> response \<times> portal" where
  "admin_dashboard post s =
     (if \<not> admin s then (Redirect ''/admin'', s)
      else case post of
        None \<Rightarrow> (DashboardPage (course_names (pdb s)), s)
      | Some None \<Rightarrow> (BadRequest ''course'', s)
      | Some (Some c) \<Rightarrow>
          let d = insert_course c (pdb s) in (DashboardPage (course_names d), s\<lparr>pdb := d\<rparr>))"

text \<open>Lines 143--175 (the POST branch); a conversion error is not caught.\<close>

definition overview_post :: "string option \<Rightarrow> string option \<Rightarrow> string option \<Rightarrow> db \<Rightarrow> response" where
  "overview_post c y sm d =
     (case (c, y, sm) of
        (None, _, _) \<Rightarrow> BadRequest ''course''
      | (Some c, None, _) \<Rightarrow> BadRequest ''year''
      | (Some c, Some y, sm) \<Rightarrow>
          (case py_int_form y of
             Inl e \<Rightarrow> ServerError e
           | Inr year \<Rightarrow>
               (case sm of
                  None \<Rightarrow> BadRequest ''semester''
                | Some sm \<Rightarrow>
                    (case py_bind (py_int_form sm) (\<lambda>sem.
                          py_bind (sql_int year) (\<lambda>year. py_bind (sql_int sem) (\<lambda>sem. Inr (year, sem)))) of
                       Inl e \<Rightarrow> ServerError e
                     | Inr (year, sem) \<Rightarrow>
                         let rows = overview_query (py_strip c) year sem d
                         in OverviewPage (course_names d) rows (Some (overview_stats rows))))))"

text \<open>One request of one client.\<close>

fun portal_step :: "request \<Rightarrow> portal \<Rightarrow> response \<times> portal" where
  "portal_step AdminGet s = (LoginPage, s)"
| "portal_step (AdminPost u p) s = admin_login u p s"
| "portal_step DashboardGet s = admin_dashboard None s"
| "portal_step (DashboardPost c) s = admin_dashboard (Some c) s"
| "portal_step Logout s = (Redirect ''/admin'', s\<lparr>admin := False\<rparr>)"
| "portal_step UploadGet s = (UploadPage (course_names (pdb s)), s)"
| "portal_step (UploadPost f) s =
     (let (out, d) = upload_results_post f (pdb s) in (UploadMessage out, s\<lparr>pdb := d\<rparr>))"
| "portal_step OverviewGet s = (OverviewPage (course_names (pdb s)) [] None, s)"
| "portal_step (OverviewPost c y sm) s = (overview_post c y sm (pdb s), s)"

text \<open>The states the portal reaches from a fresh database and a fresh session.\<close>

inductive reachable :: "portal \<Rightarrow> bool" where
  start: "reachable \<lparr>pdb = init_db None, admin = False\<rparr>"
| step: "reachable s \<Longrightarrow> reachable (snd (portal_step r s))"

section \<open>The invariant of the schema\<close>

text \<open>
  The identifiers of a table are \<open>1, ..., n\<close> in rowid order, where \<open>n\<close> is the
  table's \<open>AUTOINCREMENT\<close> counter: no row is ever deleted, an ignored insert
  does not advance the counter, and a rollback restores it.
\<close>

definition ids_ok :: "('a \<Rightarrow> nat) \<Rightarrow> 'a list \<Rightarrow> nat \<Rightarrow> bool" where
  "ids_ok f xs n \<longleftrightarrow> map f xs = [1..<Suc n]"

text \<open>
  The invariant: identifiers as above, the \<open>UNIQUE\<close> columns distinct, and every
  reference (\<open>course_id\<close>, \<open>semester_id\<close>, \<open>student_id\<close>, \<open>subject_id\<close>) naming
  an existing row. The schema declares no foreign keys: the invariant is what the
  routes maintain.
\<close>

definition db_inv :: "db \<Rightarrow> bool" where
  "db_inv d \<longleftrightarrow>
     ids_ok co_id (tbl_course d) (seq_course d) \<and>
     ids_ok se_id (tbl_semester d) (seq_semester d) \<and>
     ids_ok st_id (tbl_student d) (seq_student d) \<and>
     ids_ok su_id (tbl_subject d) (seq_subject d) \<and>
     ids_ok mk_id (tbl_marks d) (seq_marks d) \<and>
     distinct (map co_name (tbl_course d)) \<and> distinct (map st_roll (tbl_student d)) \<and>
     (\<forall>x\<in>set (tbl_semester d). se_course x \<in> set (map co_id (tbl_course d))) \<and>
     (\<forall>x\<in>set (tbl_student d). st_course x \<in> set (map co_id (tbl_course d))) \<and>
     (\<forall>x\<in>set (tbl_subject d). su_semester x \<in> set (map se_id (tbl_semester d))) \<and>
     (\<forall>x\<in>set (tbl_marks d). mk_student x \<in> set (map st_id (tbl_student d)) \<and>
                              mk_subject x \<in> set (map su_id (tbl_subject d)))"

text \<open>The database only grows: each table of the first is a prefix of the second's.\<close>

definition db_grows :: "db \<Rightarrow> db \<Rightarrow> bool" where
  "db_grows d d' \<longleftrightarrow>
     prefix (tbl_course d) (tbl_course d') \<and> prefix (tbl_semester d) (tbl_semester d') \<and>
     prefix (tbl_student d) (tbl_student d') \<and> prefix (tbl_subject d) (tbl_subject d') \<and>
     prefix (tbl_marks d) (tbl_marks d')"

text \<open>The rows the loop of \<open>upload_results\<close> writes: those whose total is not NaN.\<close>

definition uploaded_rows :: "raw_row list \<Rightarrow> raw_row list" where
  "uploaded_rows rs = filter (\<lambda>r. raw_total r \<noteq> Blank) rs"

text \<open>
  Row \<open>r\<close> of a file can be read back from the database: a mark joins a student
  whose roll number is the stripped HTNO and a subject of semester \<open>sid\<close> with
  the row's name, and holds its total.
\<close>

definition mark_read_back :: "db \<Rightarrow> nat \<Rightarrow> raw_row \<Rightarrow> bool" where
  "mark_read_back d sid r \<longleftrightarrow>
     (\<exists>m\<in>set (tbl_marks d). \<exists>s\<in>set (tbl_student d). \<exists>sub\<in>set (tbl_subject d).
        st_id s = mk_student m \<and> st_roll s = py_strip (raw_htno r) \<and>
        su_id sub = mk_subject m \<and> su_semester sub = sid \<and> raw_subject r = Some (su_name sub) \<and>
        py_int (raw_total r) = Inr (mk_marks m))"

section \<open>Examples\<close>

abbreviation ex_raw :: "string \<Rightarrow> string \<Rightarrow> cell \<Rightarrow> raw_row" where
  "ex_raw h s t \<equiv> \<lparr>raw_htno = h, raw_subject = Some s, raw_internal = Blank, raw_external = Blank,
                    raw_total = t, raw_grade = Num 7, raw_credits = Num 3\<rparr>"

abbreviation ex_form :: "string list \<Rightarrow> raw_row list \<Rightarrow> upload_form" where
  "ex_form cols rs \<equiv> \<lparr>f_course = Some ''CSE'', f_year = Some ''2024'', f_semester = Some ''1'',
                       f_file = Some (''results.xlsx'', Table \<lparr>columns = cols, raw_rows = rs\<rparr>)\<rparr>"

abbreviation ex_db_cols :: "string list" where
  "ex_db_cols \<equiv> [''HTNO'', ''SUBJECT_NAME'', ''TOTALMARKS'', ''CREDITS'']"

abbreviation ex_db :: db where
  "ex_db \<equiv> insert_course ''CSE'' empty_db"

named_theorems sql_defs
declare insert_course_def [sql_defs] insert_semester_def [sql_defs] insert_student_def [sql_defs]
  insert_subject_def [sql_defs] insert_mark_def [sql_defs]

section \<open>Lemmas on the statements, the transaction and the steps\<close>

lemma db_grows_refl [simp]: "db_grows d d"
  by (simp add: db_grows_def)

lemma db_grows_trans: "db_grows d1 d2 \<Longrightarrow> db_grows d2 d3 \<Longrightarrow> db_grows d1 d3"
  unfolding db_grows_def by (meson prefix_order.trans)

lemma db_grows_sql [intro]:
  "db_grows d (insert_course n d)" "db_grows d (snd (insert_semester cid y s d))"
  "db_grows d (insert_student r cid d)" "db_grows d (insert_subject sid n cr ty d)"
  "db_grows d (insert_mark stid suid m gp d)"
  by (simp_all add: db_grows_def sql_defs)

lemma raising_cases:
  "raising d m f = (d', x) \<Longrightarrow> (\<And>e. m = Inl e \<Longrightarrow> d' = d \<Longrightarrow> x = Raise e \<Longrightarrow> P) \<Longrightarrow>
     (\<And>v. m = Inr v \<Longrightarrow> f v = (d', x) \<Longrightarrow> P) \<Longrightarrow> P"
  by (cases m) (auto simp: raising_def)

lemma upload_row_grows: "upload_row cols cid sid r d = (d', x) \<Longrightarrow> db_grows d d'"
  unfolding upload_row_def Let_def
  by (auto simp: raising_def db_grows_def sql_defs split: if_splits sum.splits option.splits)

lemma upload_rows_grows: "upload_rows cols cid sid rs d = (d', x) \<Longrightarrow> db_grows d d'"
proof (induction rs arbitrary: d)
  case Nil then show ?case by simp
next
  case (Cons r rs)
  obtain d1 x1 where r: "upload_row cols cid sid r d = (d1, x1)" by fastforce
  have g: "db_grows d d1" using r by (rule upload_row_grows)
  show ?case
  proof (cases x1)
    case (Return u) then show ?thesis using Cons r g by (auto intro: db_grows_trans)
  next
    case (Raise e) then show ?thesis using Cons.prems r g by simp
  qed
qed

lemma insert_semester_grows: "insert_semester cid y s d = (i, d') \<Longrightarrow> db_grows d d'"
  using db_grows_sql(2) [of d cid y s] by simp

lemma upload_txn_grows: "upload_txn f d = (d', x) \<Longrightarrow> db_grows d d'"
  unfolding upload_txn_def
  by (auto simp: raising_def split: sum.splits option.splits if_splits prod.splits exit.splits
           dest!: upload_rows_grows insert_semester_grows intro: db_grows_trans)

lemma upload_results_post_grows: "upload_results_post f d = (out, d') \<Longrightarrow> db_grows d d'"
  by (auto simp: upload_results_post_def split: prod.splits exit.splits upload_outcome.splits
           dest: upload_txn_grows)

text \<open>
  C23: No request deletes or changes a row: after any request, each of the five
  tables of the database extends the table before it.
\<close>

lemma portal_step_append_only: "db_grows (pdb s) (pdb (snd (portal_step r s)))"
  by (cases r) (auto simp: admin_login_def admin_dashboard_def Let_def
                     split: option.splits prod.splits dest: upload_results_post_grows)

lemma ids_ok_snoc [simp]: "ids_ok f xs n \<Longrightarrow> ids_ok f (xs @ [x]) (Suc n) \<longleftrightarrow> f x = Suc n"
  by (simp add: ids_ok_def)

lemma find_mem: "find P xs = Some x \<Longrightarrow> x \<in> set xs"
  by (auto simp: find_Some_iff)

lemma lookup_mem:
  "lookup_course_id n d = Some i \<Longrightarrow> i \<in> set (map co_id (tbl_course d))"
  "lookup_student_id r d = Some i \<Longrightarrow> i \<in> set (map st_id (tbl_student d))"
  "lookup_subject_id sid n d = Some i \<Longrightarrow> i \<in> set (map su_id (tbl_subject d))"
  by (auto simp: lookup_course_id_def lookup_student_id_def lookup_subject_id_def dest!: find_mem)

lemma db_inv_insert_course: "db_inv d \<Longrightarrow> db_inv (insert_course n d)"
  by (auto simp: db_inv_def insert_course_def)

lemma db_inv_insert_semester:
  "db_inv d \<Longrightarrow> cid \<in> set (map co_id (tbl_course d)) \<Longrightarrow>
   db_inv (snd (insert_semester cid y s d)) \<and>
   fst (insert_semester cid y s d) \<in> set (map se_id (tbl_semester (snd (insert_semester cid y s d))))"
  by (auto simp: db_inv_def insert_semester_def)

lemma db_inv_insert_student:
  "db_inv d \<Longrightarrow> cid \<in> set (map co_id (tbl_course d)) \<Longrightarrow> db_inv (insert_student r cid d)"
  by (auto simp: db_inv_def insert_student_def)

lemma db_inv_insert_subject:
  "db_inv d \<Longrightarrow> sid \<in> set (map se_id (tbl_semester d)) \<Longrightarrow> db_inv (insert_subject sid n cr ty d)"
  by (auto simp: db_inv_def insert_subject_def)

lemma db_inv_insert_mark:
  "db_inv d \<Longrightarrow> stid \<in> set (map st_id (tbl_student d)) \<Longrightarrow> suid \<in> set (map su_id (tbl_subject d)) \<Longrightarrow>
   db_inv (insert_mark stid suid m gp d)"
  by (auto simp: db_inv_def insert_mark_def)

lemma db_grows_ids:
  "db_grows d d' \<Longrightarrow> x \<in> set (map co_id (tbl_course d)) \<Longrightarrow> x \<in> set (map co_id (tbl_course d'))"
  "db_grows d d' \<Longrightarrow> x \<in> set (map se_id (tbl_semester d)) \<Longrightarrow> x \<in> set (map se_id (tbl_semester d'))"
  unfolding db_grows_def by (auto dest: set_mono_prefix)

lemma upload_row_inv:
  assumes "db_inv d" "cid \<in> set (map co_id (tbl_course d))" "sid \<in> set (map se_id (tbl_semester d))"
    and "upload_row cols cid sid r d = (d', x)"
  shows "db_inv d'"
proof -
  let ?roll = "py_strip (raw_htno r)"
  have d1: "db_inv (insert_student ?roll cid d)" using assms(1,2) by (rule db_inv_insert_student)
  have sid1: "sid \<in> set (map se_id (tbl_semester (insert_student ?roll cid d)))"
    using assms(3) by (simp add: insert_student_def)
  have d2: "db_inv (insert_subject sid subj cr ty (insert_student ?roll cid d))" for subj cr ty
    using d1 sid1 by (rule db_inv_insert_subject)
  have st2: "stid \<in> set (map st_id (tbl_student (insert_subject sid subj cr ty (insert_student ?roll cid d))))"
    if "lookup_student_id ?roll (insert_student ?roll cid d) = Some stid" for stid subj cr ty
    using lookup_mem(2) [OF that] by (simp add: insert_subject_def)
  show ?thesis
    using assms(1,4) d1 d2
    by (auto simp: upload_row_def Let_def raising_def fetch_first_def
             split: if_splits sum.splits option.splits
             intro!: db_inv_insert_mark st2 dest: lookup_mem)
qed

lemma upload_rows_inv:
  "db_inv d \<Longrightarrow> cid \<in> set (map co_id (tbl_course d)) \<Longrightarrow> sid \<in> set (map se_id (tbl_semester d)) \<Longrightarrow>
   upload_rows cols cid sid rs d = (d', x) \<Longrightarrow> db_inv d'"
proof (induction rs arbitrary: d)
  case Nil then show ?case by simp
next
  case (Cons r rs)
  obtain d1 x1 where r: "upload_row cols cid sid r d = (d1, x1)" by fastforce
  have i: "db_inv d1" using Cons.prems(1-3) r by (rule upload_row_inv)
  have g: "db_grows d d1" using r by (rule upload_row_grows)
  show ?case
  proof (cases x1)
    case (Return u)
    then show ?thesis using Cons.IH [OF i db_grows_ids(1) [OF g Cons.prems(2)] db_grows_ids(2) [OF g Cons.prems(3)]]
        Cons.prems(4) r by simp
  next
    case (Raise e) then show ?thesis using Cons.prems(4) r i by simp
  qed
qed

lemma upload_txn_inv:
  assumes "db_inv d" and "upload_txn f d = (d', x)"
  shows "db_inv d'"
proof -
  have sem: "db_inv d1 \<and> sid \<in> set (map se_id (tbl_semester d1)) \<and> cid \<in> set (map co_id (tbl_course d1))"
    if "lookup_course_id c d = Some cid" and "insert_semester cid y s d = (sid, d1)" for c cid y s sid d1
  proof -
    have "cid \<in> set (map co_id (tbl_course d))" using that(1) by (rule lookup_mem)
    moreover have "sid = fst (insert_semester cid y s d)" and "d1 = snd (insert_semester cid y s d)"
      using that(2) by simp_all
    ultimately show ?thesis using db_inv_insert_semester [OF assms(1), of cid y s]
      by (simp add: insert_semester_def)
  qed
  show ?thesis
    using assms
    by (auto simp: upload_txn_def raising_def fetch_first_def
             split: sum.splits option.splits if_splits prod.splits exit.splits
             dest: sem upload_rows_inv)
qed

lemma upload_results_post_inv: "db_inv d \<Longrightarrow> upload_results_post f d = (out, d') \<Longrightarrow> db_inv d'"
  by (auto simp: upload_results_post_def split: prod.splits exit.splits upload_outcome.splits
           dest: upload_txn_inv)

lemma portal_step_inv_aux: "db_inv (pdb s) \<Longrightarrow> db_inv (pdb (snd (portal_step r s)))"
  by (cases r) (auto simp: admin_login_def admin_dashboard_def Let_def db_inv_insert_course
                     split: option.splits prod.splits dest: upload_results_post_inv)

lemma db_inv_init: "db_inv (init_db None)"
  by (simp add: db_inv_def ids_ok_def init_db_def empty_db_def)

text \<open>
  C22: In every state the portal reaches from a freshly initialised database, the
  schema's invariant holds: identifiers are 1 to the counter in rowid order,
  course names and roll numbers are unique, and every semester, student, subject
  and mark refers to an existing row.
\<close>

lemma reachable_db_inv: "reachable s \<Longrightarrow> db_inv (pdb s)"
  by (induction rule: reachable.induct) (simp_all add: db_inv_init portal_step_inv_aux)

lemma upload_row_Return:
  "upload_row cols cid sid r d = (d', Return u) \<Longrightarrow>
   tbl_course d' = tbl_course d \<and> tbl_semester d' = tbl_semester d \<and>
   length (tbl_subject d') = length (tbl_subject d) + length (uploaded_rows [r]) \<and>
   length (tbl_marks d') = length (tbl_marks d) + length (uploaded_rows [r])"
  by (auto simp: upload_row_def Let_def raising_def uploaded_rows_def sql_defs
           split: if_splits sum.splits option.splits)

lemma upload_rows_Return:
  "upload_rows cols cid sid rs d = (d', Return u) \<Longrightarrow>
   tbl_course d' = tbl_course d \<and> tbl_semester d' = tbl_semester d \<and>
   length (tbl_subject d') = length (tbl_subject d) + length (uploaded_rows rs) \<and>
   length (tbl_marks d') = length (tbl_marks d) + length (uploaded_rows rs)"
proof (induction rs arbitrary: d)
  case Nil then show ?case by (simp add: uploaded_rows_def)
next
  case (Cons r rs)
  obtain d1 x1 where r: "upload_row cols cid sid r d = (d1, x1)" by fastforce
  then obtain u1 where x1: "x1 = Return u1" using Cons.prems by (cases x1) auto
  have "uploaded_rows (r # rs) = uploaded_rows [r] @ uploaded_rows rs" by (simp add: uploaded_rows_def)
  then show ?case
    using upload_row_Return [OF r [unfolded x1]] Cons.IH [of d1] Cons.prems r x1 by simp
qed

text \<open>
  C25: A successful upload keeps the course table, adds exactly one semester, and
  adds one subject row and one mark for each row of the file whose total is not
  NaN.
\<close>

lemma upload_results_post_Uploaded:
  assumes "upload_results_post f d = (Uploaded, d')"
  shows "\<exists>fn df. f_file f = Some (fn, Table df) \<and>
           tbl_course d' = tbl_course d \<and> length (tbl_semester d') = Suc (length (tbl_semester d)) \<and>
           length (tbl_subject d') = length (tbl_subject d) + length (uploaded_rows (raw_rows df)) \<and>
           length (tbl_marks d') = length (tbl_marks d) + length (uploaded_rows (raw_rows df))"
  using assms
  by (auto simp: upload_results_post_def upload_txn_def raising_def read_file_def insert_semester_def
           split: sum.splits option.splits if_splits prod.splits exit.splits upload_outcome.splits
                  file_data.splits
           dest!: upload_rows_Return)

lemma find_SomeE: "find P xs = Some x \<Longrightarrow> x \<in> set xs \<and> P x"
  by (auto simp: find_Some_iff)

lemma lookup_found:
  "lookup_course_id n d = Some i \<Longrightarrow> \<exists>c\<in>set (tbl_course d). co_name c = n \<and> co_id c = i"
  "lookup_student_id r d = Some i \<Longrightarrow> \<exists>s\<in>set (tbl_student d). st_roll s = r \<and> st_id s = i"
  "lookup_subject_id sid n d = Some i \<Longrightarrow>
     \<exists>s\<in>set (tbl_subject d). su_semester s = sid \<and> su_name s = n \<and> su_id s = i"
  by (auto simp: lookup_course_id_def lookup_student_id_def lookup_subject_id_def dest!: find_SomeE)

lemma db_grows_sets:
  assumes "db_grows d d'"
  shows "set (tbl_course d) \<subseteq> set (tbl_course d')" "set (tbl_semester d) \<subseteq> set (tbl_semester d')"
    "set (tbl_student d) \<subseteq> set (tbl_student d')" "set (tbl_subject d) \<subseteq> set (tbl_subject d')"
    "set (tbl_marks d) \<subseteq> set (tbl_marks d')"
  using assms unfolding db_grows_def by (auto dest: set_mono_prefix)

lemma mark_read_back_grows: "mark_read_back d sid r \<Longrightarrow> db_grows d d' \<Longrightarrow> mark_read_back d' sid r"
  unfolding mark_read_back_def using db_grows_sets [of d d'] by blast

lemma upload_row_read_back:
  assumes "upload_row cols cid sid r d = (d', Return u)" and "raw_total r \<noteq> Blank"
  shows "mark_read_back d' sid r"
proof -
  let ?roll = "py_strip (raw_htno r)"
  obtain mk cr gp stid subj suid where
       mk: "py_int (raw_total r) = Inr mk" and sub: "raw_subject r = Some subj"
    and st: "lookup_student_id ?roll (insert_student ?roll cid d) = Some stid"
    and su: "lookup_subject_id sid subj (insert_subject sid subj cr (subject_type subj) (insert_student ?roll cid d)) = Some suid"
    and d': "d' = insert_mark stid suid mk gp (insert_subject sid subj cr (subject_type subj) (insert_student ?roll cid d))"
    using assms
    by (auto simp: upload_row_def Let_def raising_def fetch_first_def sql_int_def
             split: if_splits sum.splits option.splits)
  from lookup_found(2) [OF st] obtain s where
    s: "s \<in> set (tbl_student (insert_student ?roll cid d))" "st_roll s = ?roll" "st_id s = stid" by blast
  from lookup_found(3) [OF su] obtain b where
    b: "b \<in> set (tbl_subject (insert_subject sid subj cr (subject_type subj) (insert_student ?roll cid d)))"
       "su_semester b = sid" "su_name b = subj" "su_id b = suid" by blast
  let ?d2 = "insert_subject sid subj cr (subject_type subj) (insert_student ?roll cid d)"
  let ?m = "\<lparr>mk_id = Suc (seq_marks ?d2), mk_student = stid, mk_subject = suid, mk_marks = mk, mk_grade = gp\<rparr>"
  have m: "?m \<in> set (tbl_marks d')" by (simp add: d' insert_mark_def)
  have s': "s \<in> set (tbl_student d')" using s(1) by (simp add: d' insert_mark_def insert_subject_def)
  have b': "b \<in> set (tbl_subject d')" using b(1) by (simp add: d' insert_mark_def)
  show ?thesis
    unfolding mark_read_back_def
    by (rule bexI [OF _ m], rule bexI [OF _ s'], rule bexI [OF _ b']) (simp add: s(2,3) b(2-4) mk sub)
qed

lemma upload_rows_read_back:
  "upload_rows cols cid sid rs d = (d', Return u) \<Longrightarrow> r \<in> set (uploaded_rows rs) \<Longrightarrow> mark_read_back d' sid r"
proof (induction rs arbitrary: d)
  case Nil then show ?case by (simp add: uploaded_rows_def)
next
  case (Cons r1 rs)
  obtain d1 x1 where r1: "upload_row cols cid sid r1 d = (d1, x1)" by fastforce
  then obtain u1 where x1: "x1 = Return u1" using Cons.prems(1) by (cases x1) auto
  have rest: "upload_rows cols cid sid rs d1 = (d', Return u)" using Cons.prems(1) r1 x1 by simp
  show ?case
  proof (cases "r = r1 \<and> raw_total r1 \<noteq> Blank")
    case True
    then have "mark_read_back d1 sid r" using upload_row_read_back [OF r1 [unfolded x1]] by simp
    then show ?thesis using mark_read_back_grows upload_rows_grows [OF rest] by blast
  next
    case False
    then have "r \<in> set (uploaded_rows rs)" using Cons.prems(2) by (auto simp: uploaded_rows_def split: if_splits)
    then show ?thesis using Cons.IH [OF rest] by simp
  qed
qed

lemma overview_query_memI:
  assumes "m \<in> set (tbl_marks d)" "s \<in> set (tbl_student d)" "st_id s = mk_student m"
    "sub \<in> set (tbl_subject d)" "su_id sub = mk_subject m"
    "se \<in> set (tbl_semester d)" "se_id se = su_semester sub"
    "c \<in> set (tbl_course d)" "co_id c = se_course se"
    "sql_trim (co_name c) = course" "se_year se = y" "se_semester se = sm"
  shows "\<lparr>ov_roll = st_roll s, ov_subject = su_name sub, ov_marks = mk_marks m,
          ov_credits = su_credits sub, ov_grade = mk_grade m\<rparr> \<in> set (overview_query course y sm d)"
  using assms by (force simp: overview_query_def)

lemma upload_results_post_UploadedE:
  assumes "upload_results_post f d = (Uploaded, d')" and "f_course f = Some c"
    and "f_year f = Some ys" and "py_int_str ys = Some y" and "f_semester f = Some ss" and "py_int_str ss = Some sm"
    and "f_file f = Some (fn, Table df)"
  shows "\<exists>cid u. lookup_course_id c d = Some cid \<and> sql_int y = Inr y \<and> sql_int sm = Inr sm \<and>
           upload_rows (columns df) cid (Suc (seq_semester d)) (raw_rows df) (snd (insert_semester cid y sm d))
             = (d', Return u)"
  using assms
  by (auto simp: upload_results_post_def upload_txn_def raising_def py_int_form_def read_file_def
                 fetch_first_def sql_int_def insert_semester_def
           split: sum.splits option.splits if_splits prod.splits exit.splits upload_outcome.splits)

lemma upload_results_post_rows:
  assumes "upload_results_post f d = (Uploaded, d')"
  shows "\<exists>fn df cid y sm u. f_file f = Some (fn, Table df) \<and>
           upload_rows (columns df) cid (Suc (seq_semester d)) (raw_rows df) (snd (insert_semester cid y sm d))
             = (d', Return u)"
  using assms
  by (auto simp: upload_results_post_def upload_txn_def raising_def read_file_def insert_semester_def
           split: sum.splits option.splits if_splits prod.splits exit.splits upload_outcome.splits
                  file_data.splits)

lemma overview_post_rows:
  "py_int_str ys = Some y \<Longrightarrow> py_int_str ss = Some sm \<Longrightarrow> sql_int y = Inr y \<Longrightarrow> sql_int sm = Inr sm \<Longrightarrow>
   overview_post (Some c) (Some ys) (Some ss) d =
     OverviewPage (course_names d) (overview_query (py_strip c) y sm d)
       (Some (overview_stats (overview_query (py_strip c) y sm d)))"
  by (simp add: overview_post_def py_int_form_def Let_def)

lemma upload_overview_rows:
  assumes "upload_results_post f d = (Uploaded, d')" and "f_course f = Some c" and "sql_trim c = py_strip c"
    and "f_year f = Some ys" and "py_int_str ys = Some y" and "f_semester f = Some ss" and "py_int_str ss = Some sm"
    and "f_file f = Some (fn, Table df)" and "r \<in> set (uploaded_rows (raw_rows df))"
  shows "overview_post (Some c) (Some ys) (Some ss) d' =
           OverviewPage (course_names d') (overview_query (py_strip c) y sm d')
             (Some (overview_stats (overview_query (py_strip c) y sm d'))) \<and>
         (\<exists>ov\<in>set (overview_query (py_strip c) y sm d'). ov_roll ov = py_strip (raw_htno r) \<and>
           raw_subject r = Some (ov_subject ov) \<and> py_int (raw_total r) = Inr (ov_marks ov))"
proof -
  obtain cid u where cid: "lookup_course_id c d = Some cid" and ints: "sql_int y = Inr y" "sql_int sm = Inr sm"
    and rows: "upload_rows (columns df) cid (Suc (seq_semester d)) (raw_rows df) (snd (insert_semester cid y sm d))
                 = (d', Return u)"
    using upload_results_post_UploadedE [OF assms(1,2,4-8)] by blast
  let ?d1 = "snd (insert_semester cid y sm d)"
  let ?se = "\<lparr>se_id = Suc (seq_semester d), se_course = cid, se_year = y, se_semester = sm\<rparr>"
  have g1: "db_grows d ?d1" by (rule db_grows_sql(2))
  have g2: "db_grows ?d1 d'" using rows by (rule upload_rows_grows)
  from lookup_found(1) [OF cid] obtain co where co: "co \<in> set (tbl_course d)" "co_name co = c" "co_id co = cid"
    by blast
  have co': "co \<in> set (tbl_course d')" using co(1) db_grows_sets(1) [OF g1] db_grows_sets(1) [OF g2] by blast
  have se: "?se \<in> set (tbl_semester d')"
    using db_grows_sets(2) [OF g2] by (auto simp: insert_semester_def)
  have "mark_read_back d' (Suc (seq_semester d)) r" using rows assms(9) by (rule upload_rows_read_back)
  then obtain m s sub where m: "m \<in> set (tbl_marks d')" and s: "s \<in> set (tbl_student d')"
    and sub: "sub \<in> set (tbl_subject d')" and eqs: "st_id s = mk_student m" "st_roll s = py_strip (raw_htno r)"
      "su_id sub = mk_subject m" "su_semester sub = Suc (seq_semester d)" "raw_subject r = Some (su_name sub)"
      "py_int (raw_total r) = Inr (mk_marks m)"
    unfolding mark_read_back_def by blast
  have "\<lparr>ov_roll = st_roll s, ov_subject = su_name sub, ov_marks = mk_marks m,
          ov_credits = su_credits sub, ov_grade = mk_grade m\<rparr> \<in> set (overview_query (py_strip c) y sm d')"
    by (rule overview_query_memI [OF m s eqs(1) sub eqs(3) se _ co']) (simp_all add: eqs(4) co(2,3) assms(3))
  then show ?thesis using eqs overview_post_rows [OF assms(5,7) ints] by force
qed

lemma upload_row_subjects:
  "upload_row cols cid sid r d = (d', Return u) \<Longrightarrow>
   map (\<lambda>x. (su_semester x, su_name x)) (tbl_subject d') =
     map (\<lambda>x. (su_semester x, su_name x)) (tbl_subject d) @ map (\<lambda>r. (sid, the (raw_subject r))) (uploaded_rows [r])"
  by (auto simp: upload_row_def Let_def raising_def uploaded_rows_def sql_defs
           split: if_splits sum.splits option.splits)

lemma upload_rows_subjects:
  "upload_rows cols cid sid rs d = (d', Return u) \<Longrightarrow>
   map (\<lambda>x. (su_semester x, su_name x)) (tbl_subject d') =
     map (\<lambda>x. (su_semester x, su_name x)) (tbl_subject d) @ map (\<lambda>r. (sid, the (raw_subject r))) (uploaded_rows rs)"
proof (induction rs arbitrary: d)
  case Nil then show ?case by (simp add: uploaded_rows_def)
next
  case (Cons r rs)
  obtain d1 x1 where r: "upload_row cols cid sid r d = (d1, x1)" by fastforce
  then obtain u1 where x1: "x1 = Return u1" using Cons.prems by (cases x1) auto
  have "uploaded_rows (r # rs) = uploaded_rows [r] @ uploaded_rows rs" by (simp add: uploaded_rows_def)
  then show ?case
    using upload_row_subjects [OF r [unfolded x1]] Cons.IH [of d1] Cons.prems r x1 by simp
qed

section \<open>Properties of the results database\<close>

lemmas db_eval = admin_login_def ADMIN_USER_def ADMIN_PASS_def admin_dashboard_def insert_course_def
     course_names_def init_db_def empty_db_def upload_results_post_def upload_txn_def py_int_form_def
     py_int_str_def py_endswith_def read_file_def upload_required_def lookup_course_id_def fetch_first_def
     raising_def sql_int_def insert_semester_def upload_row_def grade_of_def insert_student_def
     lookup_student_id_def insert_subject_def subject_type_def lookup_subject_id_def insert_mark_def
     py_defs is_digit_def digits_val_def digit_val_def Let_def

lemma reachable_db_inv_witness:
  "db_inv (pdb (snd (portal_step (DashboardPost (Some ''CSE''))
             (snd (portal_step (AdminPost (Some ''admin'') (Some ''admin123'')) \<lparr>pdb = init_db None, admin = False\<rparr>)))))"
  by (rule reachable_db_inv [OF reachable.step [OF reachable.step [OF reachable.start]]])

text \<open>
  C24: The body of \<open>upload_results\<close> returns early, with an outcome other than
  success, only before it writes anything: for a file name with another
  extension, or for a missing column, which it names.
\<close>

lemma upload_txn_early_return:
  assumes "upload_txn f d = (dw, Return out)" and "out \<noteq> Uploaded"
  shows "dw = d \<and> (out = InvalidFormat \<or>
           (\<exists>fn df. f_file f = Some (fn, Table df) \<and>
              (\<exists>c\<in>set upload_required. c \<notin> set (columns df) \<and> out = MissingColumn c)))"
  using assms
  by (auto simp: upload_txn_def raising_def read_file_def
           split: sum.splits option.splits if_splits prod.splits exit.splits file_data.splits
           dest!: find_SomeE)

lemma upload_txn_early_return_witness:
  "fst (upload_txn (ex_form [''HTNO'', ''SUBJECT_NAME'', ''CREDITS''] []) ex_db) = ex_db"
proof -
  have "upload_txn (ex_form [''HTNO'', ''SUBJECT_NAME'', ''CREDITS''] []) ex_db
        = (fst (upload_txn (ex_form [''HTNO'', ''SUBJECT_NAME'', ''CREDITS''] []) ex_db), Return (MissingColumn ''TOTALMARKS''))"
    by (simp add: db_eval)
  then show ?thesis using upload_txn_early_return by blast
qed

lemma upload_results_post_Uploaded_witness:
  "length (tbl_marks (snd (upload_results_post (ex_form ex_db_cols [ex_raw ''S1'' ''MATHS'' (Num 45), ex_raw ''S1'' ''PHYSICS'' Blank]) ex_db))) = 1"
proof -
  have u: "upload_results_post (ex_form ex_db_cols [ex_raw ''S1'' ''MATHS'' (Num 45), ex_raw ''S1'' ''PHYSICS'' Blank]) ex_db
           = (Uploaded, snd (upload_results_post (ex_form ex_db_cols [ex_raw ''S1'' ''MATHS'' (Num 45), ex_raw ''S1'' ''PHYSICS'' Blank]) ex_db))"
    by (simp add: db_eval)
  show ?thesis
    using upload_results_post_Uploaded [OF u] by (simp add: uploaded_rows_def db_eval)
qed

lemma find_hd_filter: "filter P xs \<noteq> [] \<Longrightarrow> find P xs = Some (hd (filter P xs))"
  by (induction xs) auto

text \<open>
  C26: When the file lacks one of HTNO, SUBJECT\_NAME, TOTALMARKS, CREDITS, the
  upload reports the first absent one in that order and the database is unchanged.
\<close>

lemma upload_missing_column:
  assumes "f_course f = Some c" and "f_year f = Some ys" and "py_int_str ys = Some y"
    and "f_semester f = Some ss" and "py_int_str ss = Some sm" and "f_file f = Some (fn, Table df)"
    and "py_endswith fn ''.xlsx'' \<or> py_endswith fn ''.csv''"
    and "\<not> set upload_required \<subseteq> set (columns df)"
  shows "upload_results_post f d = (MissingColumn (hd (filter (\<lambda>c. c \<notin> set (columns df)) upload_required)), d)"
proof -
  have "filter (\<lambda>c. c \<notin> set (columns df)) upload_required \<noteq> []"
    using assms(8) by (auto simp: filter_empty_conv)
  then have "find (\<lambda>c. c \<notin> set (columns df)) upload_required
             = Some (hd (filter (\<lambda>c. c \<notin> set (columns df)) upload_required))"
    by (rule find_hd_filter)
  then show ?thesis
    using assms(1-7)
    by (auto simp: upload_results_post_def upload_txn_def raising_def py_int_form_def read_file_def)
qed

lemma upload_missing_column_witness:
  "upload_results_post (ex_form [''HTNO'', ''SUBJECT_NAME'', ''CREDITS''] []) ex_db = (MissingColumn ''TOTALMARKS'', ex_db)"
  using upload_missing_column [where f = "ex_form [''HTNO'', ''SUBJECT_NAME'', ''CREDITS''] []"
          and df = "\<lparr>columns = [''HTNO'', ''SUBJECT_NAME'', ''CREDITS''], raw_rows = []\<rparr>" and d = ex_db]
  by (simp add: db_eval)

lemma upload_row_course: "upload_row cols cid sid r d = (d', x) \<Longrightarrow> tbl_course d' = tbl_course d"
  by (auto simp: upload_row_def Let_def raising_def sql_defs split: if_splits sum.splits option.splits)

lemma upload_rows_course: "upload_rows cols cid sid rs d = (d', x) \<Longrightarrow> tbl_course d' = tbl_course d"
proof (induction rs arbitrary: d)
  case Nil then show ?case by simp
next
  case (Cons r rs)
  obtain d1 x1 where r: "upload_row cols cid sid r d = (d1, x1)" by fastforce
  have "tbl_course d1 = tbl_course d" using r by (rule upload_row_course)
  then show ?case using Cons r by (cases x1) auto
qed

lemma upload_results_post_course: "upload_results_post f d = (out, d') \<Longrightarrow> tbl_course d' = tbl_course d"
  by (auto simp: upload_results_post_def upload_txn_def raising_def insert_semester_def
           split: sum.splits option.splits if_splits prod.splits exit.splits upload_outcome.splits
           dest!: upload_rows_course)

text \<open>
  C27: Without an admin session no request changes the course table.
\<close>

lemma portal_step_course_admin:
  "\<not> admin s \<Longrightarrow> tbl_course (pdb (snd (portal_step r s))) = tbl_course (pdb s)"
  by (cases r) (auto simp: admin_login_def admin_dashboard_def split: option.splits prod.splits
                     dest: upload_results_post_course)

lemma portal_step_course_admin_witness:
  "tbl_course (pdb (snd (portal_step (DashboardPost (Some ''ECE'')) \<lparr>pdb = ex_db, admin = False\<rparr>)))
   = [\<lparr>co_id = 1, co_name = ''CSE''\<rparr>]"
  using portal_step_course_admin [of "\<lparr>pdb = ex_db, admin = False\<rparr>" "DashboardPost (Some ''ECE'')"]
  by (simp add: db_eval)

text \<open>
  C28: From any state, logging in with the admin credentials and then posting a
  course name on the dashboard leaves that course in the course list.
\<close>

lemma dashboard_after_login:
  "c \<in> set (course_names (pdb (snd (portal_step (DashboardPost (Some c))
           (snd (portal_step (AdminPost (Some ''admin'') (Some ''admin123'')) s))))))"
  by (simp add: admin_login_def admin_dashboard_def ADMIN_USER_def ADMIN_PASS_def insert_course_def course_names_def)

text \<open>
  C31: The overview statistics are consistent: passed students are at most all
  students, the failed count is not negative, and the pass percentage lies
  between 0 and 100.
\<close>

lemma overview_stats_bounds:
  "ov_passed (overview_stats rs) \<le> ov_total (overview_stats rs) \<and> 0 \<le> ov_failed (overview_stats rs) \<and>
   0 \<le> ov_pass_percent (overview_stats rs) \<and> ov_pass_percent (overview_stats rs) \<le> 100"
proof -
  let ?S = "remdups (map ov_roll rs)" and ?P = "remdups (map ov_roll (filter (\<lambda>r. 40 \<le> ov_marks r) rs))"
  have le: "length ?P \<le> length ?S"
    by (simp add: length_remdups_card_conv card_mono image_mono)
  have "0 \<le> real (length ?P) / real (length ?S) * 100" by simp
  moreover have "real (length ?P) / real (length ?S) * 100 \<le> 100" if "?S \<noteq> []"
    using le that by (simp add: divide_le_eq)
  ultimately have "0 \<le> py_round2 (real (length ?P) / real (length ?S) * 100) \<and>
                   py_round2 (real (length ?P) / real (length ?S) * 100) \<le> 100" if "?S \<noteq> []"
    using py_round2_range [of 0 "real (length ?P) / real (length ?S) * 100" 10000] that by simp
  then show ?thesis using le by (auto simp: overview_stats_def Let_def)
qed

text \<open>
  C30: A successful upload adds one subject row per uploaded row of the file, in
  the new semester, under the row's subject name: \<open>INSERT OR IGNORE\<close> on a
  table without a unique constraint inserts every time, so two students' rows of
  one subject give two subject rows of the same name.
\<close>

lemma upload_subject_rows:
  assumes "upload_results_post f d = (Uploaded, d')"
  shows "\<exists>fn df. f_file f = Some (fn, Table df) \<and>
           map (\<lambda>x. (su_semester x, su_name x)) (tbl_subject d') =
             map (\<lambda>x. (su_semester x, su_name x)) (tbl_subject d) @
             map (\<lambda>r. (Suc (seq_semester d), the (raw_subject r))) (uploaded_rows (raw_rows df))"
proof -
  obtain fn df cid y sm u where f: "f_file f = Some (fn, Table df)"
    and rows: "upload_rows (columns df) cid (Suc (seq_semester d)) (raw_rows df) (snd (insert_semester cid y sm d))
                 = (d', Return u)"
    using upload_results_post_rows [OF assms] by blast
  show ?thesis using f upload_rows_subjects [OF rows] by (simp add: insert_semester_def)
qed

lemma upload_subject_rows_witness:
  "map (\<lambda>x. (su_semester x, su_name x)) (tbl_subject (snd (upload_results_post
      (ex_form ex_db_cols [ex_raw ''S1'' ''MATHS'' (Num 45), ex_raw ''S2'' ''MATHS'' (Num 30)]) ex_db)))
     = [(1, ''MATHS''), (1, ''MATHS'')]"
proof -
  have u: "upload_results_post (ex_form ex_db_cols [ex_raw ''S1'' ''MATHS'' (Num 45), ex_raw ''S2'' ''MATHS'' (Num 30)]) ex_db
         = (Uploaded, snd (upload_results_post
              (ex_form ex_db_cols [ex_raw ''S1'' ''MATHS'' (Num 45), ex_raw ''S2'' ''MATHS'' (Num 30)]) ex_db))"
    by (simp add: db_eval)
  show ?thesis using upload_subject_rows [OF u] by (auto simp: uploaded_rows_def insert_course_def empty_db_def)
qed

text \<open>
  C29: Uploading and then asking the overview for the same course, year and
  semester gives back every uploaded row: its stripped roll number, its subject
  and its total converted by \<open>int()\<close>, provided the SQL trim of the course
  name is its Python strip.
\<close>

lemma upload_overview_roundtrip:
  assumes "upload_results_post f d = (Uploaded, d')" and "f_course f = Some c" and "sql_trim c = py_strip c"
    and "f_year f = Some ys" and "py_int_str ys = Some y" and "f_semester f = Some ss" and "py_int_str ss = Some sm"
    and "f_file f = Some (fn, Table df)" and "r \<in> set (uploaded_rows (raw_rows df))"
  shows "\<exists>rs st. overview_post (Some c) (Some ys) (Some ss) d' = OverviewPage (course_names d') rs (Some st) \<and>
           (\<exists>ov\<in>set rs. ov_roll ov = py_strip (raw_htno r) \<and>
              raw_subject r = Some (ov_subject ov) \<and> py_int (raw_total r) = Inr (ov_marks ov))"
  using upload_overview_rows [OF assms] by blast

lemma upload_overview_roundtrip_witness:
  "\<exists>rs st. overview_post (Some ''CSE'') (Some ''2024'') (Some ''1'')
       (snd (upload_results_post (ex_form ex_db_cols [ex_raw '' S7 '' ''MATHS'' (Num 45)]) ex_db))
       = OverviewPage [''CSE''] rs (Some st) \<and> (\<exists>ov\<in>set rs. ov_roll ov = ''S7'' \<and> ov_marks ov = 45)"
proof -
  let ?f = "ex_form ex_db_cols [ex_raw '' S7 '' ''MATHS'' (Num 45)]"
  have u: "upload_results_post ?f ex_db = (Uploaded, snd (upload_results_post ?f ex_db))" by (simp add: db_eval)
  have cn: "course_names (snd (upload_results_post ?f ex_db)) = [''CSE'']" by (simp add: db_eval course_names_def)
  have "\<exists>rs st. overview_post (Some ''CSE'') (Some ''2024'') (Some ''1'') (snd (upload_results_post ?f ex_db))
          = OverviewPage (course_names (snd (upload_results_post ?f ex_db))) rs (Some st) \<and>
        (\<exists>ov\<in>set rs. ov_roll ov = py_strip (raw_htno (ex_raw '' S7 '' ''MATHS'' (Num 45))) \<and>
           raw_subject (ex_raw '' S7 '' ''MATHS'' (Num 45)) = Some (ov_subject ov) \<and>
           py_int (raw_total (ex_raw '' S7 '' ''MATHS'' (Num 45))) = Inr (ov_marks ov))"
    by (rule upload_overview_roundtrip [where df = "\<lparr>columns = ex_db_cols, raw_rows = [ex_raw '' S7 '' ''MATHS'' (Num 45)]\<rparr>"
             and r = "ex_raw '' S7 '' ''MATHS'' (Num 45)" and c = "''CSE''" and ys = "''2024''" and y = 2024
             and ss = "''1''" and sm = 1 and fn = "''results.xlsx''", OF u])
       (simp_all add: db_eval uploaded_rows_def sql_trim_def)
  then show ?thesis unfolding cn by (simp add: py_defs, blast)
qed

end
