(* ===== verification/Spec2Isabelle.thy ===== *)
theory Spec2Isabelle
  imports Analytics ResultsDB
begin

text \<open>
  A verification library for the exam-result portal of this repository: two
  Flask applications and a schema script.

  \<^item> src/app1.py, the result analytics application. A client uploads a
    spreadsheet (\<open>upload\<close>), which is saved under \<open>uploads/\<close> and remembered in
    the session; \<open>process\<close> reads it back, cleans it (\<open>clean_dataframe\<close>),
    classifies every subject attempt (\<open>marks_result\<close>), groups the rows by
    student (SGPA, status, failed subjects) and by subject (top five, pass
    percentage), builds the failure distribution and the overall top five, and
    exports the rankings to \<open>uploads/Result_Analytics.xlsx\<close>; \<open>search\<close> lists
    one student's rows and \<open>download\<close> sends the export.
  \<^item> src/app.py with src/init\_db.py, the results database application: an admin
    login gates course creation; \<open>upload_results\<close> stores a spreadsheet's marks
    in SQLite inside one transaction; \<open>overview\<close> joins the tables back and
    counts passed students.

  The theories follow the program's parts; each opens with what it holds.

  \<^item> Prelude: Python's exceptions as values (\<open>'a py\<close>, \<open>py_bind\<close>, \<open>map_py\<close>),
    the string builtins (\<open>strip\<close>, \<open>lower\<close>, \<open>upper\<close>, \<open>in\<close>, \<open>join\<close>, \<open>str\<close> of
    a natural number), round-half-even to two decimals, NaN as \<open>None\<close> with
    NaN-skipping sums and comparisons that are false on NaN, and pandas'
    \<open>groupby\<close> (sorted keys, groups in row order); the lemmas the components
    share.
  \<^item> Cleaner: spreadsheet cells and rows, what a reader makes of a file,
    \<open>pd.to_numeric(errors="coerce")\<close>, and \<open>clean_dataframe\<close> (app1.py 16--33).
    Its lemmas show when cleaning raises (\<open>KeyError\<close>, exactly when one of its
    four columns is missing), that it is a per-row filter, and that every kept
    row has a trimmed subject and a mark.
  \<^item> Classifier: \<open>marks_result\<close> and its application (app1.py 102--116). The
    lemmas give what every pass has, monotonicity within each of the rule's three
    regimes and its failure across them, and the effect of a NaN external mark.
  \<^item> Aggregate: the student loop (app1.py 121--164) with SGPA, pass percentage and
    status, the failure distribution (169--176) and the subject metrics
    (214--228). The lemmas bound SGPA by the grade points, give its exceptions,
    and show that the distribution and the metrics partition the students and
    the rows.
  \<^item> Ranking: Python's stable descending sort, pandas' \<open>sort_values\<close> with NaN
    last, the subject top fives (181--198) and the overall top five (203--208).
    The lemmas characterise the sort, and show that the top fives are the best
    rows in order, ranked 1 to 5, with ties kept in input order.
  \<^item> Export: the \<open>pd.ExcelWriter\<close> block (233--240) as a sequence of sheet
    writes on a workbook, following pandas and openpyxl (an existing name is
    written over, a new sheet gets a default title and is renamed, invalid
    titles raise after the sheet exists, the file is saved even on an
    exception). The lemmas give the round trip of every table under distinct
    valid names, the partial file an invalid name leaves, and the merge of two
    subjects with a common 30-character prefix.
  \<^item> Analytics: the web flow of app1.py as a step function on the sessions of all
    clients and the file store, with an inductive set of reachable states;
    \<open>process\<close> composes the functions of the theories above, and
    \<open>search\<close> raises \<open>KeyError\<close> on a file without \<open>HTNO\<close>. The lemmas show
    that a session's file always exists, that a download by any client after a
    \<open>process\<close> serves the export of the rankings that page shows (so clients
    share one export), that a rejected upload stays the session's file, and that
    a session whose file is named like the export reads the export after any
    \<open>process\<close>, whose first sheet has no \<open>SUBJECT_NAME\<close> column.
  \<^item> ResultsDB: the schema as five tables with their \<open>AUTOINCREMENT\<close> counters,
    each SQL statement as a function, \<open>upload_results\<close> as a transaction whose
    body returns or raises in a working state (commit keeps it, rollback drops
    it), the overview join and statistics, and the routes as a step function on
    the database and the admin flag of one session. The lemmas prove the schema
    invariant (identifiers, unique names, references) for every reachable state
    by rule induction, that tables only grow, that the upload's body returns
    early only before it writes, what a successful upload adds (one subject row
    per uploaded row, duplicates included), that the overview gives back every
    uploaded row, the missing-column answer, the admin gate on courses, that a
    login always gives access to course creation, and the bounds of the overview
    statistics.

  This theory holds what spans the two applications: the same file judged by
  both, the overview counting a student as passed on one total of 40 where the
  classifier also checks the internal and external marks.

  Loops of the source are structural recursion on the rows or the groups, so
  every definition is total and no fuel is needed; every definition is
  executable, and the concrete theorems are evaluated by the simplifier.
  Floating-point numbers are real numbers: NaN is \<open>None\<close>, rounding is exact
  round-half-even on the real value, and overflow does not arise except where
  an integer is bound to an SQLite parameter, whose 64-bit range is checked.

  Not modelled: the HTML templates and Flask's redirects beyond their target,
  the bytes of spreadsheets (a file is the frame the reader makes of it, or the
  exception the reader raises), the numeric spellings \<open>pd.to_numeric\<close> and
  \<open>float()\<close> accept beyond signed decimals (exponents, \<open>inf\<close>, \<open>nan\<close>) and
  \<open>int()\<close> on digit underscores, directories of the file store, the console
  output of the scripts, and concurrency inside one request (requests of
  different clients are interleaved as a sequence of steps). Sessions are
  Flask's cookies signed with the secret key hard-coded in both applications;
  a session is modelled as the server last set it, so a client that forges a
  cookie with the published key (for instance setting \<open>admin\<close>) is outside the
  model.
\<close>

section \<open>One file, two applications\<close>





end
